theory Spec2Isabelle
  imports Complex_Main "HOL-Library.Word"
begin

section \<open>Data model of the signing request\<close>

text \<open>
  The type declarations of \<^verbatim>\<open>types/internal\<close> and \<^verbatim>\<open>types/public\<close> are imported by the
  source but are not part of it. Each type below therefore has the variants the source
  names and the fields the source reads; what only the serialization library reads is
  left out. Hex strings and decimal number strings are strings, a derivation path is the
  list of its indices.
\<close>

type_synonym byte = "8 word"
type_synonym buffer = "byte list"
type_synonym HexString = string
type_synonym Uint64_str = string
type_synonym ValidBIP32Path = "nat list"

record Version =
  major :: nat
  minor :: nat
  patch :: nat

datatype TransactionSigningMode =
    ORDINARY_TRANSACTION
  | POOL_REGISTRATION_AS_OPERATOR
  | MULTISIG_TRANSACTION
  | PLUTUS_TRANSACTION

datatype ParsedStakeCredential =
    KEY_PATH ValidBIP32Path
  | KEY_HASH HexString
  | SCRIPT_HASH HexString

datatype StakeCredentialType = Type_KEY_PATH | Type_KEY_HASH | Type_SCRIPT_HASH

fun stakeCredentialType :: "ParsedStakeCredential \<Rightarrow> StakeCredentialType" where
  "stakeCredentialType (KEY_PATH p) = Type_KEY_PATH"
| "stakeCredentialType (KEY_HASH h) = Type_KEY_HASH"
| "stakeCredentialType (SCRIPT_HASH h) = Type_SCRIPT_HASH"

datatype ParsedPoolOwner = Owner_DEVICE_OWNED ValidBIP32Path | Owner_THIRD_PARTY HexString

datatype ParsedPoolKey = PoolKey_DEVICE_OWNED ValidBIP32Path | PoolKey_THIRD_PARTY HexString

text \<open>Entities that the source only hands to a serializer carry uninterpreted content.\<close>

datatype ParsedPoolRelay = ParsedPoolRelay string
datatype ParsedPoolMetadata = ParsedPoolMetadata string
datatype ParsedPoolRewardAccount = ParsedPoolRewardAccount string
datatype ParsedToken = ParsedToken string
datatype ParsedCVoteDelegation = ParsedCVoteDelegation string

record ParsedPoolParams =
  poolKey :: ParsedPoolKey
  vrfHashHex :: HexString
  rewardAccount :: ParsedPoolRewardAccount
  owners :: "ParsedPoolOwner list"
  relays :: "ParsedPoolRelay list"
  metadata :: ParsedPoolMetadata

datatype ParsedCertificate =
    STAKE_REGISTRATION ParsedStakeCredential
  | STAKE_DEREGISTRATION ParsedStakeCredential
  | STAKE_DELEGATION ParsedStakeCredential
  | STAKE_POOL_REGISTRATION ParsedPoolParams
  | STAKE_POOL_RETIREMENT ValidBIP32Path

record ParsedInput =
  path :: "ValidBIP32Path option"

record ParsedWithdrawal =
  stakeCredential :: ParsedStakeCredential

datatype ParsedRequiredSigner = Signer_PATH ValidBIP32Path | Signer_HASH HexString

datatype AddressType =
    BASE_PAYMENT_KEY_STAKE_KEY
  | BASE_PAYMENT_SCRIPT_STAKE_KEY
  | BASE_PAYMENT_KEY_STAKE_SCRIPT
  | BASE_PAYMENT_SCRIPT_STAKE_SCRIPT
  | POINTER_KEY
  | POINTER_SCRIPT
  | ENTERPRISE_KEY
  | ENTERPRISE_SCRIPT
  | BYRON
  | REWARD_KEY
  | REWARD_SCRIPT

datatype ParsedOutputDestination =
    Destination_THIRD_PARTY HexString
  | Destination_DEVICE_OWNED AddressType

datatype TxOutputFormat = ARRAY_LEGACY | MAP_BABBAGE

datatype ParsedDatum = Datum_HASH HexString | Datum_INLINE HexString

record ParsedAssetGroup =
  tokens :: "ParsedToken list"

record ParsedOutput =
  format :: TxOutputFormat
  destination :: ParsedOutputDestination
  tokenBundle :: "ParsedAssetGroup list"
  datum :: "ParsedDatum option"
  referenceScriptHex :: "HexString option"

datatype CIP36VoteRegistrationFormat = CIP_15 | CIP_36

record ParsedCVoteRegistrationParams =
  registrationFormat :: CIP36VoteRegistrationFormat
  votePublicKey :: "HexString option"
  votePublicKeyPath :: "ValidBIP32Path option"
  delegations :: "ParsedCVoteDelegation list option"
  stakingPath :: ValidBIP32Path
  paymentDestination :: ParsedOutputDestination
  nonce :: Uint64_str
  votingPurpose :: "Uint64_str option"

datatype ParsedTxAuxiliaryData =
    ARBITRARY_HASH HexString
  | CIP36_REGISTRATION ParsedCVoteRegistrationParams

record ParsedTransaction =
  inputs :: "ParsedInput list"
  outputs :: "ParsedOutput list"
  fee :: Uint64_str
  ttl :: "Uint64_str option"
  certificates :: "ParsedCertificate list"
  withdrawals :: "ParsedWithdrawal list"
  auxiliaryData :: "ParsedTxAuxiliaryData option"
  validityIntervalStart :: "Uint64_str option"
  mint :: "ParsedAssetGroup list option"
  scriptDataHashHex :: "HexString option"
  collateralInputs :: "ParsedInput list"
  requiredSigners :: "ParsedRequiredSigner list"
  includeNetworkId :: bool
  collateralOutput :: "ParsedOutput option"
  totalCollateral :: "Uint64_str option"
  referenceInputs :: "ParsedInput list"

record ParsedSigningRequest =
  tx :: ParsedTransaction
  signingMode :: TransactionSigningMode
  additionalWitnessPaths :: "ValidBIP32Path list"

section \<open>What the source imports from modules outside it\<close>

text \<open>
  \<^verbatim>\<open>getCompatibility\<close>, \<^verbatim>\<open>ensureLedgerAppVersionCompatible\<close>, \<^verbatim>\<open>getVersionString\<close> and the
  length constants are imported by the source from modules that are not part of it. They
  are parameters of the model, collected in one record; every theorem holds for each
  value of them unless it says otherwise.

  The serializers are imported as well. \<^verbatim>\<open>serializeCVoteRegistrationVoteKey\<close> is called with
  the vote public key and the vote key path of a registration as they come, and it can
  reject them by throwing: \<open>serializeCVoteRegistrationVoteKey_error\<close> is the error it throws
  on given arguments, or \<open>None\<close> when it returns. It is a parameter as well. What a
  serializer returns is not computed, see the payload of a message below.
\<close>

record DeviceCompatibility =
  supportsPoolRegistrationAsOperator :: bool
  supportsMultisigTransaction :: bool
  supportsAlonzo :: bool
  supportsBabbage :: bool
  supportsZeroTtl :: bool
  supportsPoolRetirement :: bool
  supportsMint :: bool
  supportsMary :: bool
  supportsReqSignersInOrdinaryTx :: bool
  supportsCatalystRegistration :: bool
  supportsCIP36 :: bool
  supportsCIP36Vote :: bool

datatype error =
    DeviceVersionUnsupported string
  | Error string
  | AssertionFailed string

record Imports =
  ensureLedgerAppVersionCompatible :: "Version \<Rightarrow> error + unit"
  getCompatibility :: "Version \<Rightarrow> DeviceCompatibility"
  getVersionString :: "Version \<Rightarrow> string"
  MAX_CHUNK_SIZE :: nat
  TX_HASH_LENGTH :: nat
  AUXILIARY_DATA_HASH_LENGTH :: nat
  ED25519_SIGNATURE_LENGTH :: nat
  serializeCVoteRegistrationVoteKey_error ::
    "HexString option \<Rightarrow> ValidBIP32Path option \<Rightarrow> Version \<Rightarrow> error option"

section \<open>Messages\<close>

datatype INS = SIGN_TX

datatype SerializeTokenAmountFn = uint64_to_buf | int64_to_buf

text \<open>
  The payload of a message is either a buffer the source builds itself or the result of
  one call into the serialization library, which is kept as the call: the function and
  its arguments. Whether the call of \<^verbatim>\<open>serializeCVoteRegistrationVoteKey\<close> returns at all is
  the parameter \<open>serializeCVoteRegistrationVoteKey_error\<close>.
\<close>

datatype payload =
    Buf buffer
  | serializeTxInit ParsedTransaction TransactionSigningMode nat Version
  | serializeTxInput ParsedInput
  | serializeAssetGroup ParsedAssetGroup
  | serializeToken ParsedToken SerializeTokenAmountFn
  | serializeTxOutputBasicParams ParsedOutput Version
  | serializeTxOutputDatum ParsedDatum Version
  | serializeTxOutputRefScript HexString
  | serializePoolInitialParams ParsedPoolParams
  | serializePoolInitialParamsLegacy ParsedPoolParams
  | serializePoolKey ParsedPoolKey
  | serializeFinancials ParsedPoolParams
  | serializePoolRewardAccount ParsedPoolRewardAccount
  | serializePoolOwner ParsedPoolOwner
  | serializePoolRelay ParsedPoolRelay
  | serializePoolMetadata ParsedPoolMetadata
  | serializeTxCertificate ParsedCertificate Version
  | serializeTxWithdrawal ParsedWithdrawal Version
  | serializeTxFee Uint64_str
  | serializeTxTtl Uint64_str
  | serializeTxAuxiliaryData ParsedTxAuxiliaryData
  | serializeCVoteRegistrationInit ParsedCVoteRegistrationParams
  | serializeCVoteRegistrationVoteKey "HexString option" "ValidBIP32Path option" Version
  | serializeCVoteRegistrationDelegation ParsedCVoteDelegation
  | serializeCVoteRegistrationStakingPath ValidBIP32Path
  | serializeCVoteRegistrationPaymentDestination ParsedOutputDestination Version
  | serializeCVoteRegistrationNonce Uint64_str
  | serializeCVoteRegistrationVotingPurpose "Uint64_str option"
  | serializeTxValidityStart Uint64_str
  | serializeMintBasicParams "ParsedAssetGroup list"
  | serializeRequiredSigner ParsedRequiredSigner
  | serializeTotalCollateral Uint64_str
  | serializeTxWitnessRequest ValidBIP32Path

text \<open>
  \<^verbatim>\<open>expectedResponseLength\<close> is an optional property of the parameter object of
  \<^verbatim>\<open>send\<close>: \<open>None\<close> is a message built without it.
\<close>

record SendParams =
  ins :: INS
  p1 :: nat
  p2 :: nat
  data :: payload
  expectedResponseLength :: "nat option"

definition send :: "nat \<Rightarrow> nat \<Rightarrow> payload \<Rightarrow> nat option \<Rightarrow> SendParams" where
  "send a b c l = \<lparr>ins = SIGN_TX, p1 = a, p2 = b, data = c, expectedResponseLength = l\<rparr>"

abbreviation (input) STAGE_INIT :: nat where "STAGE_INIT \<equiv> 0x01"
abbreviation (input) STAGE_AUX_DATA :: nat where "STAGE_AUX_DATA \<equiv> 0x08"
abbreviation (input) STAGE_INPUTS :: nat where "STAGE_INPUTS \<equiv> 0x02"
abbreviation (input) STAGE_OUTPUTS :: nat where "STAGE_OUTPUTS \<equiv> 0x03"
abbreviation (input) STAGE_FEE :: nat where "STAGE_FEE \<equiv> 0x04"
abbreviation (input) STAGE_TTL :: nat where "STAGE_TTL \<equiv> 0x05"
abbreviation (input) STAGE_CERTIFICATES :: nat where "STAGE_CERTIFICATES \<equiv> 0x06"
abbreviation (input) STAGE_WITHDRAWALS :: nat where "STAGE_WITHDRAWALS \<equiv> 0x07"
abbreviation (input) STAGE_VALIDITY_INTERVAL_START :: nat where
  "STAGE_VALIDITY_INTERVAL_START \<equiv> 0x09"
abbreviation (input) STAGE_MINT :: nat where "STAGE_MINT \<equiv> 0x0b"
abbreviation (input) STAGE_SCRIPT_DATA_HASH :: nat where "STAGE_SCRIPT_DATA_HASH \<equiv> 0x0c"
abbreviation (input) STAGE_COLLATERAL_INPUTS :: nat where "STAGE_COLLATERAL_INPUTS \<equiv> 0x0d"
abbreviation (input) STAGE_REQUIRED_SIGNERS :: nat where "STAGE_REQUIRED_SIGNERS \<equiv> 0x0e"
abbreviation (input) STAGE_COLLATERAL_OUTPUT :: nat where "STAGE_COLLATERAL_OUTPUT \<equiv> 0x12"
abbreviation (input) STAGE_TOTAL_COLLATERAL :: nat where "STAGE_TOTAL_COLLATERAL \<equiv> 0x10"
abbreviation (input) STAGE_REFERENCE_INPUTS :: nat where "STAGE_REFERENCE_INPUTS \<equiv> 0x11"
abbreviation (input) STAGE_CONFIRM :: nat where "STAGE_CONFIRM \<equiv> 0x0a"
abbreviation (input) STAGE_WITNESSES :: nat where "STAGE_WITNESSES \<equiv> 0x0f"

abbreviation (input) UNUSED :: nat where "UNUSED \<equiv> 0x00"

section \<open>Interactions\<close>

text \<open>
  An \<^verbatim>\<open>Interaction<T>\<close> is a generator: it yields a message and is resumed with the
  response to it, it returns a value, or it throws. \<open>Yield m k\<close> is the generator
  suspended at \<^verbatim>\<open>yield m\<close>, with \<open>k\<close> what it does once resumed with a response.
  \<open>Diverge\<close> is a generator whose \<^verbatim>\<open>while\<close> loop never ends.
\<close>

datatype 'a interaction =
    Return 'a
  | Yield SendParams "buffer \<Rightarrow> 'a interaction"
  | Throw error
  | Diverge

text \<open>\<open>ibind p f\<close> is \<^verbatim>\<open>const x = yield* p\<close> followed by \<open>f x\<close>.\<close>

primrec ibind :: "'a interaction \<Rightarrow> ('a \<Rightarrow> 'b interaction) \<Rightarrow> 'b interaction" where
  "ibind (Return a) f = f a"
| "ibind (Yield m k) f = Yield m (\<lambda>response. ibind (k response) f)"
| "ibind (Throw e) f = Throw e"
| "ibind Diverge f = Diverge"

definition andThen :: "unit interaction \<Rightarrow> 'a interaction \<Rightarrow> 'a interaction" where
  "andThen p q = ibind p (\<lambda>_. q)"

text \<open>\<^verbatim>\<open>yield m\<close> as a statement: the response is dropped.\<close>

definition yield :: "SendParams \<Rightarrow> unit interaction" where
  "yield m = Yield m (\<lambda>_. Return ())"

text \<open>A sequence of statements, a \<^verbatim>\<open>for (const x of xs)\<close> loop, and the same loop
  collecting what each round returns.\<close>

primrec block :: "unit interaction list \<Rightarrow> unit interaction" where
  "block [] = Return ()"
| "block (s # ss) = andThen s (block ss)"

primrec forEach :: "'x list \<Rightarrow> ('x \<Rightarrow> unit interaction) \<Rightarrow> unit interaction" where
  "forEach [] f = Return ()"
| "forEach (x # xs) f = andThen (f x) (forEach xs f)"

primrec forCollect :: "'x list \<Rightarrow> ('x \<Rightarrow> 'y interaction) \<Rightarrow> 'y list interaction" where
  "forCollect [] f = Return []"
| "forCollect (x # xs) f = ibind (f x) (\<lambda>y. ibind (forCollect xs f) (\<lambda>ys. Return (y # ys)))"

definition assert :: "bool \<Rightarrow> string \<Rightarrow> unit interaction" where
  "assert c msg = (if c then Return () else Throw (AssertionFailed msg))"

text \<open>
  The driver of an interaction sends each yielded message and resumes the generator with
  the response. \<open>run p d n\<close> drives \<open>p\<close> against a device whose response to the \<open>i\<close>-th
  message of the ceremony is \<open>d i\<close>, \<open>n\<close> messages having been sent before; it gives the
  messages yielded, in order, and how the generator ended.
\<close>

datatype 'a outcome = Returned 'a | Thrown error | Diverged

primrec run :: "'a interaction \<Rightarrow> (nat \<Rightarrow> buffer) \<Rightarrow> nat \<Rightarrow> SendParams list \<times> 'a outcome" where
  "run (Return a) d n = ([], Returned a)"
| "run (Yield m k) d n = (case run (k (d n)) d (Suc n) of (ms, r) \<Rightarrow> (m # ms, r))"
| "run (Throw e) d n = ([], Thrown e)"
| "run Diverge d n = ([], Diverged)"

definition messages :: "'a interaction \<Rightarrow> (nat \<Rightarrow> buffer) \<Rightarrow> SendParams list" where
  "messages p d = fst (run p d 0)"

definition result :: "'a interaction \<Rightarrow> (nat \<Rightarrow> buffer) \<Rightarrow> 'a outcome" where
  "result p d = snd (run p d 0)"

section \<open>Buffers and hex strings\<close>

text \<open>
  Modelled from the spec: \<^verbatim>\<open>hex_to_buf\<close> and \<^verbatim>\<open>uint32_to_buf\<close> of \<^verbatim>\<open>utils/serialize\<close> are
  not part of the source. A hex string encodes one byte in two characters, and the
  length prefix of a chunk is the byte count in four bytes (most significant first).
  \<^verbatim>\<open>HexString\<close> is a validated type: hex digits only, in even number.
\<close>

definition hexValue :: "char \<Rightarrow> nat" where
  "hexValue c =
     (let n = of_char c in
        if 48 \<le> n \<and> n \<le> 57 then n - 48
        else if 97 \<le> n \<and> n \<le> 102 then n - 87
        else if 65 \<le> n \<and> n \<le> 70 then n - 55
        else 0)"

fun hex_to_buf :: "HexString \<Rightarrow> buffer" where
  "hex_to_buf (a # b # rest) = word_of_nat (16 * hexValue a + hexValue b) # hex_to_buf rest"
| "hex_to_buf [a] = []"
| "hex_to_buf [] = []"

definition uint32_to_buf :: "nat \<Rightarrow> buffer" where
  "uint32_to_buf n =
     [word_of_nat (n div 16777216), word_of_nat (n div 65536), word_of_nat (n div 256),
      word_of_nat n]"

definition buf_to_uint32 :: "buffer \<Rightarrow> nat" where
  "buf_to_uint32 b = foldl (\<lambda>acc w. 256 * acc + unat w) 0 b"

text \<open>\<^verbatim>\<open>Buffer.toString('hex')\<close>, which \<^verbatim>\<open>buf_to_hex\<close> wraps: two lower-case digits a byte.\<close>

definition hexDigit :: "nat \<Rightarrow> char" where
  "hexDigit n = (if n < 10 then char_of (48 + n) else char_of (87 + n))"

definition buf_to_hex :: "buffer \<Rightarrow> string" where
  "buf_to_hex b = concat (map (\<lambda>w. [hexDigit (unat w div 16), hexDigit (unat w mod 16)]) b)"

text \<open>\<^verbatim>\<open>hex.substring(start, end)\<close> for \<open>start \<le> end\<close>.\<close>

definition substring :: "string \<Rightarrow> nat \<Rightarrow> nat \<Rightarrow> string" where
  "substring s start end = take (end - start) (drop start s)"

text \<open>JavaScript truthiness of a string that may be \<^verbatim>\<open>null\<close>: the empty string is falsy.\<close>

fun truthy :: "string option \<Rightarrow> bool" where
  "truthy None = False"
| "truthy (Some s) = (s \<noteq> [])"

section \<open>The stages of the ceremony\<close>

definition signTx_init ::
  "ParsedTransaction \<Rightarrow> TransactionSigningMode \<Rightarrow> ValidBIP32Path list \<Rightarrow> Version
     \<Rightarrow> unit interaction" where
  "signTx_init t mode witnessPaths version =
     yield (send STAGE_INIT UNUSED
              (serializeTxInit t mode (length witnessPaths) version) (Some 0))"

definition signTx_addInput :: "ParsedInput \<Rightarrow> unit interaction" where
  "signTx_addInput input = yield (send STAGE_INPUTS UNUSED (serializeTxInput input) (Some 0))"

text \<open>
  The loop of \<^verbatim>\<open>signTx_addOutput_sendChunks\<close>, from the position \<open>start\<close> on. It does not
  end when \<^verbatim>\<open>MAX_CHUNK_SIZE\<close> is 0 and characters are left, so it is a partial function:
  \<open>None\<close> is the loop that runs forever. \<^verbatim>\<open>chunk.length / 2\<close> is exact, a hex string having
  an even number of characters.
\<close>

partial_function (option) sendChunks_loop ::
  "nat \<Rightarrow> HexString \<Rightarrow> nat \<Rightarrow> nat \<Rightarrow> unit interaction option" where
  "sendChunks_loop maxChunk hex p start =
     (if start < length hex then
        Option.bind
          (sendChunks_loop maxChunk hex p (min (length hex) (start + maxChunk * 2)))
          (\<lambda>rest.
             Some (andThen
               (yield (send STAGE_OUTPUTS p
                  (Buf (uint32_to_buf
                          (length (substring hex start
                             (min (length hex) (start + maxChunk * 2))) div 2)
                        @ hex_to_buf (substring hex start
                             (min (length hex) (start + maxChunk * 2)))))
                  (Some 0)))
               rest))
      else Some (Return ()))"

definition signTx_addOutput_sendChunks :: "Imports \<Rightarrow> HexString \<Rightarrow> nat \<Rightarrow> unit interaction" where
  "signTx_addOutput_sendChunks env hex p =
     (case sendChunks_loop (MAX_CHUNK_SIZE env) hex p (MAX_CHUNK_SIZE env * 2) of
        Some i \<Rightarrow> i
      | None \<Rightarrow> Diverge)"

abbreviation (input) ASSET_GROUP :: nat where "ASSET_GROUP \<equiv> 0x31"
abbreviation (input) TOKEN :: nat where "TOKEN \<equiv> 0x32"

definition signTx_addTokenBundle ::
  "ParsedAssetGroup list \<Rightarrow> nat \<Rightarrow> SerializeTokenAmountFn \<Rightarrow> unit interaction" where
  "signTx_addTokenBundle bundle stage serializeTokenAmountFn =
     forEach bundle (\<lambda>assetGroup.
       andThen (yield (send stage ASSET_GROUP (serializeAssetGroup assetGroup) (Some 0)))
         (forEach (tokens assetGroup) (\<lambda>token.
            yield (send stage TOKEN (serializeToken token serializeTokenAmountFn) (Some 0)))))"

abbreviation (input) Output_BASIC_DATA :: nat where "Output_BASIC_DATA \<equiv> 0x30"
abbreviation (input) Output_DATUM :: nat where "Output_DATUM \<equiv> 0x34"
abbreviation (input) Output_DATUM_CHUNK :: nat where "Output_DATUM_CHUNK \<equiv> 0x35"
abbreviation (input) Output_SCRIPT :: nat where "Output_SCRIPT \<equiv> 0x36"
abbreviation (input) Output_SCRIPT_CHUNK :: nat where "Output_SCRIPT_CHUNK \<equiv> 0x37"
abbreviation (input) Output_CONFIRM :: nat where "Output_CONFIRM \<equiv> 0x33"

text \<open>
  \<^verbatim>\<open>hex.length / 2 > MAX_CHUNK_SIZE\<close> is a comparison of fractions, which holds exactly
  when the string has more than \<open>2 * MAX_CHUNK_SIZE\<close> characters. \<^verbatim>\<open>if (output.datum)\<close>
  tests an object for \<^verbatim>\<open>null\<close>, \<^verbatim>\<open>if (output.referenceScriptHex)\<close> a string for \<^verbatim>\<open>null\<close>
  and for emptiness.
\<close>

definition signTx_addOutput :: "Imports \<Rightarrow> ParsedOutput \<Rightarrow> Version \<Rightarrow> unit interaction" where
  "signTx_addOutput env output version =
     block
       [yield (send STAGE_OUTPUTS Output_BASIC_DATA
                 (serializeTxOutputBasicParams output version) (Some 0)),
        signTx_addTokenBundle (tokenBundle output) STAGE_OUTPUTS uint64_to_buf,
        (case datum output of
           None \<Rightarrow> Return ()
         | Some dt \<Rightarrow>
             block
               [yield (send STAGE_OUTPUTS Output_DATUM
                         (serializeTxOutputDatum dt version) (Some 0)),
                (case dt of
                   Datum_INLINE datumHex \<Rightarrow>
                     if MAX_CHUNK_SIZE env * 2 < length datumHex
                     then signTx_addOutput_sendChunks env datumHex Output_DATUM_CHUNK
                     else Return ()
                 | Datum_HASH h \<Rightarrow> Return ())]),
        (case referenceScriptHex output of
           None \<Rightarrow> Return ()
         | Some scriptHex \<Rightarrow>
             if scriptHex \<noteq> [] then
               block
                 [yield (send STAGE_OUTPUTS Output_SCRIPT
                           (serializeTxOutputRefScript scriptHex) (Some 0)),
                  if MAX_CHUNK_SIZE env * 2 < length scriptHex
                  then signTx_addOutput_sendChunks env scriptHex Output_SCRIPT_CHUNK
                  else Return ()]
             else Return ()),
        yield (send STAGE_OUTPUTS Output_CONFIRM (Buf []) (Some 0))]"

text \<open>
  The two layouts of a stake pool registration. The P2 values are local to each function:
  they are written as the source gives them, with the name beside.
\<close>

definition signTx_addStakePoolRegistrationCertificate ::
  "ParsedCertificate \<Rightarrow> unit interaction" where
  "signTx_addStakePoolRegistrationCertificate certificate =
     (case certificate of
        STAKE_POOL_REGISTRATION pool \<Rightarrow>
          block
            [\<comment> \<open>INIT\<close>
             yield (send STAGE_CERTIFICATES 0x30 (serializePoolInitialParams pool) (Some 0)),
             \<comment> \<open>POOL_KEY\<close>
             yield (send STAGE_CERTIFICATES 0x31 (serializePoolKey (poolKey pool)) (Some 0)),
             \<comment> \<open>VRF_KEY\<close>
             yield (send STAGE_CERTIFICATES 0x32 (Buf (hex_to_buf (vrfHashHex pool))) (Some 0)),
             \<comment> \<open>FINANCIALS\<close>
             yield (send STAGE_CERTIFICATES 0x33 (serializeFinancials pool) (Some 0)),
             \<comment> \<open>REWARD_ACCOUNT\<close>
             yield (send STAGE_CERTIFICATES 0x34
                      (serializePoolRewardAccount (rewardAccount pool)) (Some 0)),
             \<comment> \<open>OWNERS\<close>
             forEach (owners pool) (\<lambda>owner.
               yield (send STAGE_CERTIFICATES 0x35 (serializePoolOwner owner) (Some 0))),
             \<comment> \<open>RELAYS\<close>
             forEach (relays pool) (\<lambda>relay.
               yield (send STAGE_CERTIFICATES 0x36 (serializePoolRelay relay) (Some 0))),
             \<comment> \<open>METADATA\<close>
             yield (send STAGE_CERTIFICATES 0x37 (serializePoolMetadata (metadata pool)) (Some 0)),
             \<comment> \<open>CONFIRMATION\<close>
             yield (send STAGE_CERTIFICATES 0x38 (Buf []) (Some 0))]
      | _ \<Rightarrow> Throw (AssertionFailed ''invalid certificate type''))"

definition signTx_addStakePoolRegistrationCertificateLegacy ::
  "ParsedCertificate \<Rightarrow> unit interaction" where
  "signTx_addStakePoolRegistrationCertificateLegacy certificate =
     (case certificate of
        STAKE_POOL_REGISTRATION pool \<Rightarrow>
          block
            [\<comment> \<open>POOL_PARAMS\<close>
             yield (send STAGE_CERTIFICATES 0x30 (serializePoolInitialParamsLegacy pool) (Some 0)),
             \<comment> \<open>OWNERS\<close>
             forEach (owners pool) (\<lambda>owner.
               yield (send STAGE_CERTIFICATES 0x31 (serializePoolOwner owner) (Some 0))),
             \<comment> \<open>RELAYS\<close>
             forEach (relays pool) (\<lambda>relay.
               yield (send STAGE_CERTIFICATES 0x32 (serializePoolRelay relay) (Some 0))),
             \<comment> \<open>METADATA\<close>
             yield (send STAGE_CERTIFICATES 0x33 (serializePoolMetadata (metadata pool)) (Some 0)),
             \<comment> \<open>CONFIRMATION\<close>
             yield (send STAGE_CERTIFICATES 0x34 (Buf []) (Some 0))]
      | _ \<Rightarrow> Throw (AssertionFailed ''invalid certificate type''))"

definition signTx_addCertificate ::
  "Imports \<Rightarrow> ParsedCertificate \<Rightarrow> Version \<Rightarrow> unit interaction" where
  "signTx_addCertificate env certificate version =
     block
       [yield (send STAGE_CERTIFICATES UNUSED
                 (serializeTxCertificate certificate version) (Some 0)),
        (case certificate of
           STAKE_POOL_REGISTRATION pool \<Rightarrow>
             if supportsPoolRegistrationAsOperator (getCompatibility env version)
             then signTx_addStakePoolRegistrationCertificate certificate
             else signTx_addStakePoolRegistrationCertificateLegacy certificate
         | _ \<Rightarrow> Return ())]"

definition signTx_addWithdrawal :: "ParsedWithdrawal \<Rightarrow> Version \<Rightarrow> unit interaction" where
  "signTx_addWithdrawal withdrawal version =
     yield (send STAGE_WITHDRAWALS UNUSED (serializeTxWithdrawal withdrawal version) (Some 0))"

definition signTx_setFee :: "Uint64_str \<Rightarrow> unit interaction" where
  "signTx_setFee f = yield (send STAGE_FEE UNUSED (serializeTxFee f) (Some 0))"

definition signTx_setTtl :: "Uint64_str \<Rightarrow> unit interaction" where
  "signTx_setTtl t = yield (send STAGE_TTL UNUSED (serializeTxTtl t) (Some 0))"

datatype TxAuxiliaryDataSupplementType = Supplement_CIP36_REGISTRATION

record TxAuxiliaryDataSupplement =
  supplementType :: TxAuxiliaryDataSupplementType
  auxiliaryDataHashHex :: string
  cip36VoteRegistrationSignatureHex :: string

text \<open>
  \<^verbatim>\<open>supportedAuxiliaryDataTypes.includes(auxiliaryData.type)\<close> holds of both variants of the
  type. \<^verbatim>\<open>params.votePublicKey || params.votePublicKeyPath\<close> tests a string and an array,
  \<^verbatim>\<open>params.delegations\<close> an array: an array is truthy also when empty. The argument of
  \<^verbatim>\<open>send\<close> is evaluated before the message is yielded, so that an error thrown by
  \<^verbatim>\<open>serializeCVoteRegistrationVoteKey\<close> ends the generator with no vote key message. The
  signature length of this function is its own constant 64. \<^verbatim>\<open>response.subarray(a, b)\<close> is
  the part of the response from \<open>a\<close> to \<open>b\<close>, cut at its end.
\<close>

definition signTx_setAuxiliaryData ::
  "Imports \<Rightarrow> ParsedTxAuxiliaryData \<Rightarrow> Version
     \<Rightarrow> TxAuxiliaryDataSupplement option interaction" where
  "signTx_setAuxiliaryData env aux version =
     andThen
       (assert (case aux of ARBITRARY_HASH h \<Rightarrow> True | CIP36_REGISTRATION ps \<Rightarrow> True)
          ''Auxiliary data type not implemented'')
     (andThen
       (yield (send STAGE_AUX_DATA UNUSED (serializeTxAuxiliaryData aux) (Some 0)))
       (case aux of
          CIP36_REGISTRATION params \<Rightarrow>
            andThen
              (block
                 [\<comment> \<open>INIT\<close>
                  if supportsCIP36 (getCompatibility env version)
                  then yield (send STAGE_AUX_DATA 0x36
                                (serializeCVoteRegistrationInit params) (Some 0))
                  else Return (),
                  if truthy (votePublicKey params) \<or> votePublicKeyPath params \<noteq> None
                  then \<comment> \<open>VOTE_KEY\<close>
                    (case serializeCVoteRegistrationVoteKey_error env (votePublicKey params)
                            (votePublicKeyPath params) version of
                       Some e \<Rightarrow> Throw e
                     | None \<Rightarrow>
                         yield (send STAGE_AUX_DATA 0x30
                                  (serializeCVoteRegistrationVoteKey (votePublicKey params)
                                     (votePublicKeyPath params) version) (Some 0)))
                  else
                    (case delegations params of
                       Some ds \<Rightarrow> \<comment> \<open>DELEGATION\<close>
                         forEach ds (\<lambda>delegation.
                           yield (send STAGE_AUX_DATA 0x37
                                    (serializeCVoteRegistrationDelegation delegation) (Some 0)))
                     | None \<Rightarrow> Throw (Error ''wrong CIP36 registration params'')),
                  \<comment> \<open>STAKING_KEY\<close>
                  yield (send STAGE_AUX_DATA 0x31
                           (serializeCVoteRegistrationStakingPath (stakingPath params)) (Some 0)),
                  \<comment> \<open>PAYMENT_ADDRESS\<close>
                  yield (send STAGE_AUX_DATA 0x32
                           (serializeCVoteRegistrationPaymentDestination
                              (paymentDestination params) version) (Some 0)),
                  \<comment> \<open>NONCE\<close>
                  yield (send STAGE_AUX_DATA 0x33
                           (serializeCVoteRegistrationNonce (nonce params)) (Some 0)),
                  \<comment> \<open>VOTING_PURPOSE\<close>
                  if supportsCIP36 (getCompatibility env version)
                  then yield (send STAGE_AUX_DATA 0x35
                                (serializeCVoteRegistrationVotingPurpose (votingPurpose params))
                                (Some 0))
                  else Return ()])
              (\<comment> \<open>CONFIRM\<close>
               Yield (send STAGE_AUX_DATA 0x34 (Buf [])
                        (Some (AUXILIARY_DATA_HASH_LENGTH env + 64)))
                 (\<lambda>response.
                    Return (Some
                      \<lparr>supplementType = Supplement_CIP36_REGISTRATION,
                       auxiliaryDataHashHex =
                         buf_to_hex (take (AUXILIARY_DATA_HASH_LENGTH env) response),
                       cip36VoteRegistrationSignatureHex =
                         buf_to_hex
                           (take 64 (drop (AUXILIARY_DATA_HASH_LENGTH env) response))\<rparr>)))
        | ARBITRARY_HASH h \<Rightarrow> Return None))"

definition signTx_setAuxiliaryData_before_v2_3 ::
  "ParsedTxAuxiliaryData \<Rightarrow> TxAuxiliaryDataSupplement option interaction" where
  "signTx_setAuxiliaryData_before_v2_3 aux =
     (case aux of
        ARBITRARY_HASH hashHex \<Rightarrow>
          andThen (yield (send STAGE_AUX_DATA UNUSED (Buf (hex_to_buf hashHex)) (Some 0)))
            (Return None)
      | CIP36_REGISTRATION ps \<Rightarrow> Throw (AssertionFailed ''Auxiliary data type not implemented''))"

text \<open>The next function and \<^verbatim>\<open>signTx_setScriptDataHash\<close> call \<^verbatim>\<open>send\<close> without
  \<^verbatim>\<open>expectedResponseLength\<close>.\<close>

definition signTx_setValidityIntervalStart :: "Uint64_str \<Rightarrow> unit interaction" where
  "signTx_setValidityIntervalStart validityIntervalStartStr =
     yield (send STAGE_VALIDITY_INTERVAL_START UNUSED
              (serializeTxValidityStart validityIntervalStartStr) None)"

definition signTx_setMint :: "ParsedAssetGroup list \<Rightarrow> unit interaction" where
  "signTx_setMint m =
     block
       [\<comment> \<open>BASIC_DATA\<close>
        yield (send STAGE_MINT 0x30 (serializeMintBasicParams m) (Some 0)),
        signTx_addTokenBundle m STAGE_MINT int64_to_buf,
        \<comment> \<open>CONFIRM\<close>
        yield (send STAGE_MINT 0x33 (Buf []) (Some 0))]"

definition signTx_setScriptDataHash :: "HexString \<Rightarrow> unit interaction" where
  "signTx_setScriptDataHash scriptDataHash =
     yield (send STAGE_SCRIPT_DATA_HASH UNUSED (Buf (hex_to_buf scriptDataHash)) None)"

definition signTx_addCollateralInput :: "ParsedInput \<Rightarrow> unit interaction" where
  "signTx_addCollateralInput collateralInput =
     yield (send STAGE_COLLATERAL_INPUTS UNUSED (serializeTxInput collateralInput) (Some 0))"

definition signTx_addRequiredSigner :: "ParsedRequiredSigner \<Rightarrow> unit interaction" where
  "signTx_addRequiredSigner requiredSigner =
     yield (send STAGE_REQUIRED_SIGNERS UNUSED (serializeRequiredSigner requiredSigner) (Some 0))"

definition signTx_addCollateralOutput :: "ParsedOutput \<Rightarrow> Version \<Rightarrow> unit interaction" where
  "signTx_addCollateralOutput output version =
     block
       [\<comment> \<open>BASIC_DATA\<close>
        yield (send STAGE_COLLATERAL_OUTPUT 0x30
                 (serializeTxOutputBasicParams output version) (Some 0)),
        signTx_addTokenBundle (tokenBundle output) STAGE_COLLATERAL_OUTPUT uint64_to_buf,
        \<comment> \<open>CONFIRM\<close>
        yield (send STAGE_COLLATERAL_OUTPUT 0x33 (Buf []) (Some 0))]"

definition signTx_addTotalCollateral :: "Uint64_str \<Rightarrow> unit interaction" where
  "signTx_addTotalCollateral c =
     yield (send STAGE_TOTAL_COLLATERAL UNUSED (serializeTotalCollateral c) (Some 0))"

definition signTx_addReferenceInput :: "ParsedInput \<Rightarrow> unit interaction" where
  "signTx_addReferenceInput referenceInput =
     yield (send STAGE_REFERENCE_INPUTS UNUSED (serializeTxInput referenceInput) (Some 0))"

definition signTx_awaitConfirm :: "Imports \<Rightarrow> string interaction" where
  "signTx_awaitConfirm env =
     Yield (send STAGE_CONFIRM UNUSED (Buf []) (Some (TX_HASH_LENGTH env)))
       (\<lambda>response. Return (buf_to_hex response))"

record Witness =
  witnessPath :: ValidBIP32Path
  witnessSignatureHex :: string

definition signTx_getWitness :: "Imports \<Rightarrow> ValidBIP32Path \<Rightarrow> Witness interaction" where
  "signTx_getWitness env pth =
     Yield (send STAGE_WITNESSES UNUSED (serializeTxWitnessRequest pth)
              (Some (ED25519_SIGNATURE_LENGTH env)))
       (\<lambda>response. Return \<lparr>witnessPath = pth, witnessSignatureHex = buf_to_hex response\<rparr>)"

section \<open>Witness paths\<close>

text \<open>
  \<^verbatim>\<open>uniquify\<close> stores the paths in an object under the key \<^verbatim>\<open>JSON.stringify(p)\<close> and
  returns \<^verbatim>\<open>Object.values\<close> of it. The two library functions and the object are modelled
  as the language defines them: the text of an array of numbers is its decimal numbers
  between brackets, separated by commas; an object keeps its properties in the order of
  their creation, assigning to an existing property leaves its place; \<^verbatim>\<open>Object.values\<close>
  lists the properties whose key is an array index first, by ascending index, then the
  others in the order of creation.
\<close>

definition digitChar :: "nat \<Rightarrow> char" where
  "digitChar n = char_of (48 + n)"

fun showNat :: "nat \<Rightarrow> string" where
  "showNat n = (if n < 10 then [digitChar n] else showNat (n div 10) @ [digitChar (n mod 10)])"

fun commaJoin :: "string list \<Rightarrow> string" where
  "commaJoin [] = []"
| "commaJoin [s] = s"
| "commaJoin (s # t # ss) = s @ '','' @ commaJoin (t # ss)"

definition JSON_stringify :: "ValidBIP32Path \<Rightarrow> string" where
  "JSON_stringify p = ''['' @ commaJoin (map showNat p) @ '']''"

definition setProperty :: "(string \<times> 'v) list \<Rightarrow> string \<Rightarrow> 'v \<Rightarrow> (string \<times> 'v) list" where
  "setProperty obj k v =
     (if k \<in> fst ` set obj
      then map (\<lambda>(k', v'). if k' = k then (k', v) else (k', v')) obj
      else obj @ [(k, v)])"

definition isDigit :: "char \<Rightarrow> bool" where
  "isDigit c = (48 \<le> (of_char c :: nat) \<and> (of_char c :: nat) \<le> 57)"

definition parseNat :: "string \<Rightarrow> nat" where
  "parseNat s = foldl (\<lambda>acc c. 10 * acc + (of_char c - 48)) 0 s"

definition isArrayIndex :: "string \<Rightarrow> bool" where
  "isArrayIndex k =
     (k \<noteq> [] \<and> list_all isDigit k \<and> (k = ''0'' \<or> hd k \<noteq> CHR ''0'') \<and> parseNat k < 4294967295)"

definition Object_values :: "(string \<times> 'v) list \<Rightarrow> 'v list" where
  "Object_values obj =
     map snd (sort_key (\<lambda>kv. parseNat (fst kv)) (filter (\<lambda>kv. isArrayIndex (fst kv)) obj))
     @ map snd (filter (\<lambda>kv. \<not> isArrayIndex (fst kv)) obj)"

definition uniquify :: "ValidBIP32Path list \<Rightarrow> ValidBIP32Path list" where
  "uniquify witnessPaths =
     Object_values
       (foldl (\<lambda>uniquifier p. setProperty uniquifier (JSON_stringify p) p) [] witnessPaths)"

text \<open>Each loop of \<^verbatim>\<open>gatherWitnessPaths\<close> pushes the paths of one element after those of
  the elements before it.\<close>

definition gatherWitnessPaths :: "ParsedSigningRequest \<Rightarrow> ValidBIP32Path list" where
  "gatherWitnessPaths request =
     uniquify
       ((if signingMode request \<noteq> MULTISIG_TRANSACTION then
           concat (map (\<lambda>input. case path input of Some p \<Rightarrow> [p] | None \<Rightarrow> [])
                     (inputs (tx request)))
           @ concat (map (\<lambda>cert.
                 case cert of
                   STAKE_DELEGATION cred \<Rightarrow> (case cred of KEY_PATH p \<Rightarrow> [p] | _ \<Rightarrow> [])
                 | STAKE_DEREGISTRATION cred \<Rightarrow> (case cred of KEY_PATH p \<Rightarrow> [p] | _ \<Rightarrow> [])
                 | STAKE_POOL_REGISTRATION pool \<Rightarrow>
                     concat (map (\<lambda>owner. case owner of Owner_DEVICE_OWNED p \<Rightarrow> [p] | _ \<Rightarrow> [])
                               (owners pool))
                     @ (case poolKey pool of PoolKey_DEVICE_OWNED p \<Rightarrow> [p] | _ \<Rightarrow> [])
                 | STAKE_POOL_RETIREMENT p \<Rightarrow> [p]
                 | _ \<Rightarrow> [])
               (certificates (tx request)))
           @ concat (map (\<lambda>withdrawal.
                 case stakeCredential withdrawal of KEY_PATH p \<Rightarrow> [p] | _ \<Rightarrow> [])
               (withdrawals (tx request)))
           @ concat (map (\<lambda>signer. case signer of Signer_PATH p \<Rightarrow> [p] | _ \<Rightarrow> [])
               (requiredSigners (tx request)))
           @ concat (map (\<lambda>collateral. case path collateral of Some p \<Rightarrow> [p] | None \<Rightarrow> [])
               (collateralInputs (tx request)))
         else [])
        @ additionalWitnessPaths request)"

section \<open>The request validator\<close>

definition hasStakeCredentialInCertificates ::
  "ParsedTransaction \<Rightarrow> StakeCredentialType \<Rightarrow> bool" where
  "hasStakeCredentialInCertificates t ty =
     list_ex (\<lambda>c.
        case c of
          STAKE_DELEGATION cred \<Rightarrow> stakeCredentialType cred = ty
        | STAKE_DEREGISTRATION cred \<Rightarrow> stakeCredentialType cred = ty
        | STAKE_REGISTRATION cred \<Rightarrow> stakeCredentialType cred = ty
        | _ \<Rightarrow> False)
       (certificates t)"

definition hasStakeCredentialInWithdrawals ::
  "ParsedTransaction \<Rightarrow> StakeCredentialType \<Rightarrow> bool" where
  "hasStakeCredentialInWithdrawals t ty =
     list_ex (\<lambda>w. stakeCredentialType (stakeCredential w) = ty) (withdrawals t)"

definition hasScriptHashInAddressParams :: "ParsedTransaction \<Rightarrow> bool" where
  "hasScriptHashInAddressParams t =
     list_ex (\<lambda>output.
        case destination output of
          Destination_DEVICE_OWNED addressType \<Rightarrow>
            addressType \<in> set
              [BASE_PAYMENT_KEY_STAKE_SCRIPT, BASE_PAYMENT_SCRIPT_STAKE_KEY,
               BASE_PAYMENT_SCRIPT_STAKE_SCRIPT, ENTERPRISE_SCRIPT, POINTER_SCRIPT,
               REWARD_SCRIPT]
        | Destination_THIRD_PARTY a \<Rightarrow> False)
       (outputs t)"

text \<open>Every message of the validator is a feature name followed by the same words and the
  version string.\<close>

definition unsupported :: "Imports \<Rightarrow> Version \<Rightarrow> string \<Rightarrow> error" where
  "unsupported env version feature =
     DeviceVersionUnsupported
       (feature @ '' not supported by Ledger app version '' @ getVersionString env version
        @ ''.'')"

definition ensureRequestSupportedByAppVersion ::
  "Imports \<Rightarrow> Version \<Rightarrow> ParsedSigningRequest \<Rightarrow> error + unit" where
  "ensureRequestSupportedByAppVersion env version request =
    (let c = getCompatibility env version; t = tx request in
     if signingMode request = POOL_REGISTRATION_AS_OPERATOR
        \<and> \<not> supportsPoolRegistrationAsOperator c
     then Inl (unsupported env version ''Pool registration as operator'')
     else if signingMode request = MULTISIG_TRANSACTION \<and> \<not> supportsMultisigTransaction c
     then Inl (unsupported env version ''Multisig transactions'')
     else if signingMode request = PLUTUS_TRANSACTION \<and> \<not> supportsAlonzo c
     then Inl (unsupported env version ''Plutus transactions'')
     else if hasScriptHashInAddressParams t \<and> \<not> supportsMultisigTransaction c
     then Inl (unsupported env version ''Script hash in address parameters in output'')
     else if list_ex (\<lambda>output. datum output \<noteq> None) (outputs t) \<and> \<not> supportsAlonzo c
     then Inl (unsupported env version ''Datum in output'')
     else if list_ex (\<lambda>output. format output = MAP_BABBAGE) (outputs t) \<and> \<not> supportsBabbage c
     then Inl (unsupported env version ''Outputs with map format'')
     else if ttl t = Some ''0'' \<and> \<not> supportsZeroTtl c
     then Inl (unsupported env version ''Zero TTL'')
     else if hasStakeCredentialInWithdrawals t Type_SCRIPT_HASH
             \<and> \<not> supportsMultisigTransaction c
     then Inl (unsupported env version ''Script hash in withdrawal'')
     else if hasStakeCredentialInWithdrawals t Type_KEY_HASH \<and> \<not> supportsAlonzo c
     then Inl (unsupported env version ''Key hash in withdrawal'')
     else if list_ex (\<lambda>cert. case cert of STAKE_POOL_RETIREMENT p \<Rightarrow> True | _ \<Rightarrow> False)
               (certificates t)
             \<and> \<not> supportsPoolRetirement c
     then Inl (unsupported env version ''Pool retirement certificate'')
     else if hasStakeCredentialInCertificates t Type_SCRIPT_HASH
             \<and> \<not> supportsMultisigTransaction c
     then Inl (unsupported env version ''Script hash in certificate stake credential'')
     else if hasStakeCredentialInCertificates t Type_KEY_HASH \<and> \<not> supportsAlonzo c
     then Inl (unsupported env version ''Key hash in certificate stake credential'')
     else if mint t \<noteq> None \<and> \<not> supportsMint c
     then Inl (unsupported env version ''Mint'')
     else if truthy (validityIntervalStart t) \<and> \<not> supportsMary c
     then Inl (unsupported env version ''Validity interval start'')
     else if truthy (scriptDataHashHex t) \<and> \<not> supportsAlonzo c
     then Inl (unsupported env version ''Script data hash'')
     else if 0 < length (collateralInputs t) \<and> \<not> supportsAlonzo c
     then Inl (unsupported env version ''Collateral inputs'')
     else if 0 < length (requiredSigners t) \<and> \<not> supportsAlonzo c
     then Inl (unsupported env version ''Required signers'')
     else if 0 < length (requiredSigners t) \<and> \<not> supportsReqSignersInOrdinaryTx c
             \<and> signingMode request = ORDINARY_TRANSACTION
     then Inl (unsupported env version ''Required signers in ordinary transaction'')
     else if 0 < length (requiredSigners t) \<and> \<not> supportsReqSignersInOrdinaryTx c
             \<and> signingMode request = MULTISIG_TRANSACTION
     then Inl (unsupported env version ''Required signers in multisig transaction'')
     else if includeNetworkId t \<and> \<not> supportsAlonzo c
     then Inl (unsupported env version ''Network id in tx body'')
     else if collateralOutput t \<noteq> None \<and> \<not> supportsBabbage c
     then Inl (unsupported env version ''Collateral output'')
     else if truthy (totalCollateral t) \<and> \<not> supportsBabbage c
     then Inl (unsupported env version ''Total collateral'')
     else if 0 < length (referenceInputs t) \<and> \<not> supportsBabbage c
     then Inl (unsupported env version ''Reference inputs'')
     else if (case auxiliaryData t of
                Some (CIP36_REGISTRATION params) \<Rightarrow> registrationFormat params = CIP_15
              | _ \<Rightarrow> False)
             \<and> \<not> supportsCatalystRegistration c
     then Inl (unsupported env version ''Catalyst registration'')
     else if (case auxiliaryData t of
                Some (CIP36_REGISTRATION params) \<Rightarrow> registrationFormat params = CIP_36
              | _ \<Rightarrow> False)
             \<and> \<not> supportsCIP36 c
     then Inl (unsupported env version ''CIP36 registration'')
     else if (case auxiliaryData t of
                Some (CIP36_REGISTRATION params) \<Rightarrow> votePublicKeyPath params \<noteq> None
              | _ \<Rightarrow> False)
             \<and> \<not> supportsCIP36Vote c
     then Inl (unsupported env version
                 ''Vote key derivation path in CIP15/CIP36 registration'')
     else if (case auxiliaryData t of
                Some (CIP36_REGISTRATION params) \<Rightarrow>
                  (case paymentDestination params of
                     Destination_DEVICE_OWNED a \<Rightarrow> False
                   | Destination_THIRD_PARTY a \<Rightarrow> True)
              | _ \<Rightarrow> False)
             \<and> \<not> supportsCIP36 c
     then Inl (unsupported env version
                 ''CIP36 payment addresses not owned by the device'')
     else Inr ())"

section \<open>The ceremony\<close>

record SignedTransactionData =
  txHashHex :: string
  witnesses :: "Witness list"
  auxiliaryDataSupplement :: "TxAuxiliaryDataSupplement option"

text \<open>
  \<^verbatim>\<open>auxiliaryDataSupplement\<close> is a variable of the source, \<^verbatim>\<open>null\<close> at first and assigned by
  either auxiliary data stage; here each stage hands its value on. \<^verbatim>\<open>tx.referenceInputs\<close>
  is an array, never \<^verbatim>\<open>null\<close>.
\<close>

definition signTransaction ::
  "Imports \<Rightarrow> Version \<Rightarrow> ParsedSigningRequest \<Rightarrow> SignedTransactionData interaction" where
  "signTransaction env version request =
    (case ensureLedgerAppVersionCompatible env version of
       Inl e \<Rightarrow> Throw e
     | Inr u \<Rightarrow>
    (case ensureRequestSupportedByAppVersion env version request of
       Inl e \<Rightarrow> Throw e
     | Inr u \<Rightarrow>
    (let auxDataBeforeTxBody =
           (supportsCatalystRegistration (getCompatibility env version)
            \<or> supportsCIP36 (getCompatibility env version));
         t = tx request;
         witnessPaths = gatherWitnessPaths request
     in
     andThen (signTx_init t (signingMode request) witnessPaths version)
    (ibind
       (case auxiliaryData t of
          Some aux \<Rightarrow>
            if auxDataBeforeTxBody then signTx_setAuxiliaryData env aux version
            else Return None
        | None \<Rightarrow> Return None)
       (\<lambda>supplementBefore.
     andThen
       (block
          [forEach (inputs t) signTx_addInput,
           forEach (outputs t) (\<lambda>output. signTx_addOutput env output version),
           signTx_setFee (fee t),
           (case ttl t of Some v \<Rightarrow> signTx_setTtl v | None \<Rightarrow> Return ()),
           forEach (certificates t) (\<lambda>certificate.
             signTx_addCertificate env certificate version),
           forEach (withdrawals t) (\<lambda>withdrawal. signTx_addWithdrawal withdrawal version)])
    (ibind
       (case auxiliaryData t of
          Some aux \<Rightarrow>
            if \<not> auxDataBeforeTxBody then signTx_setAuxiliaryData_before_v2_3 aux
            else Return supplementBefore
        | None \<Rightarrow> Return supplementBefore)
       (\<lambda>supplement.
     andThen
       (block
          [(case validityIntervalStart t of
              Some v \<Rightarrow> signTx_setValidityIntervalStart v | None \<Rightarrow> Return ()),
           (case mint t of Some m \<Rightarrow> signTx_setMint m | None \<Rightarrow> Return ()),
           (case scriptDataHashHex t of
              Some h \<Rightarrow> signTx_setScriptDataHash h | None \<Rightarrow> Return ()),
           forEach (collateralInputs t) signTx_addCollateralInput,
           forEach (requiredSigners t) signTx_addRequiredSigner,
           (case collateralOutput t of
              Some output \<Rightarrow> signTx_addCollateralOutput output version | None \<Rightarrow> Return ()),
           (case totalCollateral t of
              Some c \<Rightarrow> signTx_addTotalCollateral c | None \<Rightarrow> Return ()),
           forEach (referenceInputs t) signTx_addReferenceInput])
    (ibind (signTx_awaitConfirm env) (\<lambda>hash.
     ibind (forCollect witnessPaths (signTx_getWitness env)) (\<lambda>ws.
       Return \<lparr>txHashHex = hash, witnesses = ws, auxiliaryDataSupplement = supplement\<rparr>))))))))))"

section \<open>Notions used to state the properties\<close>

text \<open>How a generator ends, whatever it returns; and what a driver observes of a run: the
  messages and the ending.\<close>

datatype ending = Completes | Throws error | Diverges

fun endingOf :: "'a outcome \<Rightarrow> ending" where
  "endingOf (Returned a) = Completes"
| "endingOf (Thrown e) = Throws e"
| "endingOf Diverged = Diverges"

definition trace :: "'a interaction \<Rightarrow> (nat \<Rightarrow> buffer) \<Rightarrow> nat \<Rightarrow> SendParams list \<times> ending" where
  "trace p d n = (fst (run p d n), endingOf (snd (run p d n)))"

text \<open>\<open>sim p q\<close>: the two generators yield the same messages and end the same way, whatever
  the responses either is resumed with.\<close>

definition sim :: "'a interaction \<Rightarrow> 'b interaction \<Rightarrow> bool" where
  "sim p q \<longleftrightarrow> (\<forall>d n d' n'. trace p d n = trace q d' n')"

text \<open>\<open>returns p\<close>: the generator returns, whatever the responses it is resumed with.\<close>

primrec returns :: "'a interaction \<Rightarrow> bool" where
  "returns (Return a) = True"
| "returns (Yield m k) = (\<forall>response. returns (k response))"
| "returns (Throw e) = False"
| "returns Diverge = False"

text \<open>\<open>yieldsOnly P p\<close>: every message that \<open>p\<close> yields satisfies \<open>P\<close>.\<close>

definition yieldsOnly :: "(SendParams \<Rightarrow> bool) \<Rightarrow> 'a interaction \<Rightarrow> bool" where
  "yieldsOnly P p \<longleftrightarrow> (\<forall>d n. \<forall>m \<in> set (fst (run p d n)). P m)"

text \<open>The messages of one stage among those of a ceremony, and the stages between the
  two places of the auxiliary data stage and after them.\<close>

definition stageMessages :: "nat \<Rightarrow> SendParams list \<Rightarrow> SendParams list" where
  "stageMessages s ms = filter (\<lambda>m. p1 m = s) ms"

definition bodyStages :: "nat set" where
  "bodyStages = {STAGE_INPUTS, STAGE_OUTPUTS, STAGE_FEE, STAGE_TTL, STAGE_CERTIFICATES,
                 STAGE_WITHDRAWALS}"

definition tailStages :: "nat set" where
  "tailStages = {STAGE_VALIDITY_INTERVAL_START, STAGE_MINT, STAGE_SCRIPT_DATA_HASH,
                 STAGE_COLLATERAL_INPUTS, STAGE_REQUIRED_SIGNERS, STAGE_COLLATERAL_OUTPUT,
                 STAGE_TOTAL_COLLATERAL, STAGE_REFERENCE_INPUTS}"

text \<open>The constant \<^verbatim>\<open>auxDataBeforeTxBody\<close> of \<^verbatim>\<open>signTransaction\<close>, and the messages that open
  the ceremony, carry the hash in the legacy layout and ask for the transaction hash.\<close>

definition auxDataBeforeTxBody :: "Imports \<Rightarrow> Version \<Rightarrow> bool" where
  "auxDataBeforeTxBody env version =
     (supportsCatalystRegistration (getCompatibility env version)
      \<or> supportsCIP36 (getCompatibility env version))"

definition initMessage :: "Version \<Rightarrow> ParsedSigningRequest \<Rightarrow> SendParams" where
  "initMessage version request =
     send STAGE_INIT UNUSED
       (serializeTxInit (tx request) (signingMode request)
          (length (gatherWitnessPaths request)) version)
       (Some 0)"

definition legacyAuxiliaryDataMessage :: "HexString \<Rightarrow> SendParams" where
  "legacyAuxiliaryDataMessage hashHex =
     send STAGE_AUX_DATA UNUSED (Buf (hex_to_buf hashHex)) (Some 0)"

definition confirmMessage :: "Imports \<Rightarrow> SendParams" where
  "confirmMessage env = send STAGE_CONFIRM UNUSED (Buf []) (Some (TX_HASH_LENGTH env))"

text \<open>The messages with which \<^verbatim>\<open>signTx_setAuxiliaryData\<close> opens and closes the stage of a voting
  registration: the auxiliary data message and, where CIP36 is supported, the registration
  init message (sub-tag \<^verbatim>\<open>INIT\<close>); the staking key, payment address and nonce messages, where
  CIP36 is supported the voting purpose message, and the confirm message. Between them
  come the vote key message or the delegation messages.\<close>

definition registrationOpening ::
  "Imports \<Rightarrow> Version \<Rightarrow> ParsedCVoteRegistrationParams \<Rightarrow> SendParams list" where
  "registrationOpening env version params =
     send STAGE_AUX_DATA UNUSED (serializeTxAuxiliaryData (CIP36_REGISTRATION params)) (Some 0)
     # (if supportsCIP36 (getCompatibility env version)
        then [send STAGE_AUX_DATA 0x36 (serializeCVoteRegistrationInit params) (Some 0)]
        else [])"

definition registrationClosing ::
  "Imports \<Rightarrow> Version \<Rightarrow> ParsedCVoteRegistrationParams \<Rightarrow> SendParams list" where
  "registrationClosing env version params =
     [send STAGE_AUX_DATA 0x31
        (serializeCVoteRegistrationStakingPath (stakingPath params)) (Some 0),
      send STAGE_AUX_DATA 0x32
        (serializeCVoteRegistrationPaymentDestination (paymentDestination params) version)
        (Some 0),
      send STAGE_AUX_DATA 0x33 (serializeCVoteRegistrationNonce (nonce params)) (Some 0)]
     @ (if supportsCIP36 (getCompatibility env version)
        then [send STAGE_AUX_DATA 0x35
                (serializeCVoteRegistrationVotingPurpose (votingPurpose params)) (Some 0)]
        else [])
     @ [send STAGE_AUX_DATA 0x34 (Buf []) (Some (AUXILIARY_DATA_HASH_LENGTH env + 64))]"

text \<open>The position of the first occurrence of an element in a list.\<close>

definition firstIndex :: "'a \<Rightarrow> 'a list \<Rightarrow> nat" where
  "firstIndex x xs = length (takeWhile (\<lambda>y. y \<noteq> x) xs)"

text \<open>Deduplication that keeps, of each element, the first occurrence.\<close>

fun firstOccurrences :: "'a list \<Rightarrow> 'a list" where
  "firstOccurrences [] = []"
| "firstOccurrences (x # xs) = x # firstOccurrences (removeAll x xs)"

text \<open>The paths of the elements of a transaction, in the order in which
  \<^verbatim>\<open>gatherWitnessPaths\<close> visits them: inputs, certificates, withdrawals, required signers,
  collateral inputs.\<close>

fun certificatePaths :: "ParsedCertificate \<Rightarrow> ValidBIP32Path list" where
  "certificatePaths (STAKE_DELEGATION (KEY_PATH p)) = [p]"
| "certificatePaths (STAKE_DEREGISTRATION (KEY_PATH p)) = [p]"
| "certificatePaths (STAKE_POOL_REGISTRATION pool) =
     concat (map (\<lambda>owner. case owner of Owner_DEVICE_OWNED p \<Rightarrow> [p] | _ \<Rightarrow> []) (owners pool))
     @ (case poolKey pool of PoolKey_DEVICE_OWNED p \<Rightarrow> [p] | _ \<Rightarrow> [])"
| "certificatePaths (STAKE_POOL_RETIREMENT p) = [p]"
| "certificatePaths _ = []"

definition elementPaths :: "ParsedTransaction \<Rightarrow> ValidBIP32Path list" where
  "elementPaths t =
     concat (map (\<lambda>input. case path input of Some p \<Rightarrow> [p] | None \<Rightarrow> []) (inputs t))
     @ concat (map certificatePaths (certificates t))
     @ concat (map (\<lambda>w. case stakeCredential w of KEY_PATH p \<Rightarrow> [p] | _ \<Rightarrow> []) (withdrawals t))
     @ concat (map (\<lambda>signer. case signer of Signer_PATH p \<Rightarrow> [p] | _ \<Rightarrow> [])
                 (requiredSigners t))
     @ concat (map (\<lambda>input. case path input of Some p \<Rightarrow> [p] | None \<Rightarrow> [])
                 (collateralInputs t))"

text \<open>The request for the witness of one path, as \<^verbatim>\<open>signTx_getWitness\<close> yields it.\<close>

definition witnessRequest :: "Imports \<Rightarrow> ValidBIP32Path \<Rightarrow> SendParams" where
  "witnessRequest env p =
     send STAGE_WITNESSES UNUSED (serializeTxWitnessRequest p)
       (Some (ED25519_SIGNATURE_LENGTH env))"

text \<open>A string cut into successive pieces of \<open>n\<close> characters, the last one shorter when the
  length is not a multiple of \<open>n\<close>.\<close>

fun chunksOf :: "nat \<Rightarrow> 'a list \<Rightarrow> 'a list list" where
  "chunksOf n xs = (if n = 0 \<or> xs = [] then [] else take n xs # chunksOf n (drop n xs))"

text \<open>The continuation message that carries one chunk, and the continuation messages of a
  payload: the chunks of what follows its first \<open>2 * MAX_CHUNK_SIZE\<close> characters.\<close>

definition chunkMessage :: "nat \<Rightarrow> HexString \<Rightarrow> SendParams" where
  "chunkMessage p chunk =
     send STAGE_OUTPUTS p (Buf (uint32_to_buf (length chunk div 2) @ hex_to_buf chunk)) (Some 0)"

definition continuationChunks :: "Imports \<Rightarrow> HexString \<Rightarrow> HexString list" where
  "continuationChunks env hex =
     chunksOf (MAX_CHUNK_SIZE env * 2) (drop (MAX_CHUNK_SIZE env * 2) hex)"

text \<open>Modelled from the spec: the serializers of the datum and of the reference script are
  not part of the source. The first \<open>2 * C\<close> hex characters of the payload are sent embedded
  in the initiating message.\<close>

definition inlineSlice :: "Imports \<Rightarrow> HexString \<Rightarrow> HexString" where
  "inlineSlice env hex = take (MAX_CHUNK_SIZE env * 2) hex"

text \<open>The conditions of the request validator, one name for each, with the feature named in
  the error and the condition under which the request violates it.\<close>

datatype Check =
    PoolRegistrationAsOperator | MultisigTransactions | PlutusTransactions
  | ScriptHashInAddressParams | DatumInOutput | MapFormatOutputs | ZeroTtl
  | ScriptHashInWithdrawal | KeyHashInWithdrawal
  | PoolRetirementCertificate
  | ScriptHashInCertificate | KeyHashInCertificate
  | Mint | ValidityIntervalStart | ScriptDataHash | CollateralInputs
  | RequiredSigners | RequiredSignersInOrdinaryTx | RequiredSignersInMultisigTx
  | NetworkIdInTxBody | CollateralOutput | TotalCollateral | ReferenceInputs
  | CatalystRegistration | CIP36Registration | VoteKeyPath | ThirdPartyPaymentAddress

fun featureName :: "Check \<Rightarrow> string" where
  "featureName PoolRegistrationAsOperator = ''Pool registration as operator''"
| "featureName MultisigTransactions = ''Multisig transactions''"
| "featureName PlutusTransactions = ''Plutus transactions''"
| "featureName ScriptHashInAddressParams = ''Script hash in address parameters in output''"
| "featureName DatumInOutput = ''Datum in output''"
| "featureName MapFormatOutputs = ''Outputs with map format''"
| "featureName ZeroTtl = ''Zero TTL''"
| "featureName ScriptHashInWithdrawal = ''Script hash in withdrawal''"
| "featureName KeyHashInWithdrawal = ''Key hash in withdrawal''"
| "featureName PoolRetirementCertificate = ''Pool retirement certificate''"
| "featureName ScriptHashInCertificate = ''Script hash in certificate stake credential''"
| "featureName KeyHashInCertificate = ''Key hash in certificate stake credential''"
| "featureName Mint = ''Mint''"
| "featureName ValidityIntervalStart = ''Validity interval start''"
| "featureName ScriptDataHash = ''Script data hash''"
| "featureName CollateralInputs = ''Collateral inputs''"
| "featureName RequiredSigners = ''Required signers''"
| "featureName RequiredSignersInOrdinaryTx = ''Required signers in ordinary transaction''"
| "featureName RequiredSignersInMultisigTx = ''Required signers in multisig transaction''"
| "featureName NetworkIdInTxBody = ''Network id in tx body''"
| "featureName CollateralOutput = ''Collateral output''"
| "featureName TotalCollateral = ''Total collateral''"
| "featureName ReferenceInputs = ''Reference inputs''"
| "featureName CatalystRegistration = ''Catalyst registration''"
| "featureName CIP36Registration = ''CIP36 registration''"
| "featureName VoteKeyPath = ''Vote key derivation path in CIP15/CIP36 registration''"
| "featureName ThirdPartyPaymentAddress = ''CIP36 payment addresses not owned by the device''"

fun registrationParams :: "ParsedTransaction \<Rightarrow> ParsedCVoteRegistrationParams option" where
  "registrationParams t =
     (case auxiliaryData t of Some (CIP36_REGISTRATION params) \<Rightarrow> Some params | _ \<Rightarrow> None)"

fun violates :: "DeviceCompatibility \<Rightarrow> ParsedSigningRequest \<Rightarrow> Check \<Rightarrow> bool" where
  "violates c r PoolRegistrationAsOperator =
     (signingMode r = POOL_REGISTRATION_AS_OPERATOR \<and> \<not> supportsPoolRegistrationAsOperator c)"
| "violates c r MultisigTransactions =
     (signingMode r = MULTISIG_TRANSACTION \<and> \<not> supportsMultisigTransaction c)"
| "violates c r PlutusTransactions =
     (signingMode r = PLUTUS_TRANSACTION \<and> \<not> supportsAlonzo c)"
| "violates c r ScriptHashInAddressParams =
     (hasScriptHashInAddressParams (tx r) \<and> \<not> supportsMultisigTransaction c)"
| "violates c r DatumInOutput =
     (list_ex (\<lambda>output. datum output \<noteq> None) (outputs (tx r)) \<and> \<not> supportsAlonzo c)"
| "violates c r MapFormatOutputs =
     (list_ex (\<lambda>output. format output = MAP_BABBAGE) (outputs (tx r)) \<and> \<not> supportsBabbage c)"
| "violates c r ZeroTtl = (ttl (tx r) = Some ''0'' \<and> \<not> supportsZeroTtl c)"
| "violates c r ScriptHashInWithdrawal =
     (hasStakeCredentialInWithdrawals (tx r) Type_SCRIPT_HASH \<and> \<not> supportsMultisigTransaction c)"
| "violates c r KeyHashInWithdrawal =
     (hasStakeCredentialInWithdrawals (tx r) Type_KEY_HASH \<and> \<not> supportsAlonzo c)"
| "violates c r PoolRetirementCertificate =
     (list_ex (\<lambda>cert. case cert of STAKE_POOL_RETIREMENT p \<Rightarrow> True | _ \<Rightarrow> False)
        (certificates (tx r))
      \<and> \<not> supportsPoolRetirement c)"
| "violates c r ScriptHashInCertificate =
     (hasStakeCredentialInCertificates (tx r) Type_SCRIPT_HASH
      \<and> \<not> supportsMultisigTransaction c)"
| "violates c r KeyHashInCertificate =
     (hasStakeCredentialInCertificates (tx r) Type_KEY_HASH \<and> \<not> supportsAlonzo c)"
| "violates c r Mint = (mint (tx r) \<noteq> None \<and> \<not> supportsMint c)"
| "violates c r ValidityIntervalStart =
     (truthy (validityIntervalStart (tx r)) \<and> \<not> supportsMary c)"
| "violates c r ScriptDataHash = (truthy (scriptDataHashHex (tx r)) \<and> \<not> supportsAlonzo c)"
| "violates c r CollateralInputs = (collateralInputs (tx r) \<noteq> [] \<and> \<not> supportsAlonzo c)"
| "violates c r RequiredSigners = (requiredSigners (tx r) \<noteq> [] \<and> \<not> supportsAlonzo c)"
| "violates c r RequiredSignersInOrdinaryTx =
     (requiredSigners (tx r) \<noteq> [] \<and> \<not> supportsReqSignersInOrdinaryTx c
      \<and> signingMode r = ORDINARY_TRANSACTION)"
| "violates c r RequiredSignersInMultisigTx =
     (requiredSigners (tx r) \<noteq> [] \<and> \<not> supportsReqSignersInOrdinaryTx c
      \<and> signingMode r = MULTISIG_TRANSACTION)"
| "violates c r NetworkIdInTxBody = (includeNetworkId (tx r) \<and> \<not> supportsAlonzo c)"
| "violates c r CollateralOutput = (collateralOutput (tx r) \<noteq> None \<and> \<not> supportsBabbage c)"
| "violates c r TotalCollateral = (truthy (totalCollateral (tx r)) \<and> \<not> supportsBabbage c)"
| "violates c r ReferenceInputs = (referenceInputs (tx r) \<noteq> [] \<and> \<not> supportsBabbage c)"
| "violates c r CatalystRegistration =
     ((case registrationParams (tx r) of
         Some params \<Rightarrow> registrationFormat params = CIP_15 | None \<Rightarrow> False)
      \<and> \<not> supportsCatalystRegistration c)"
| "violates c r CIP36Registration =
     ((case registrationParams (tx r) of
         Some params \<Rightarrow> registrationFormat params = CIP_36 | None \<Rightarrow> False)
      \<and> \<not> supportsCIP36 c)"
| "violates c r VoteKeyPath =
     ((case registrationParams (tx r) of
         Some params \<Rightarrow> votePublicKeyPath params \<noteq> None | None \<Rightarrow> False)
      \<and> \<not> supportsCIP36Vote c)"
| "violates c r ThirdPartyPaymentAddress =
     ((case registrationParams (tx r) of
         Some params \<Rightarrow>
           (case paymentDestination params of
              Destination_THIRD_PARTY a \<Rightarrow> True | Destination_DEVICE_OWNED a \<Rightarrow> False)
       | None \<Rightarrow> False)
      \<and> \<not> supportsCIP36 c)"

text \<open>A validator that checks the conditions in a given order and fails on the first one
  violated.\<close>

definition firstViolation ::
  "Check list \<Rightarrow> Imports \<Rightarrow> Version \<Rightarrow> ParsedSigningRequest \<Rightarrow> error + unit" where
  "firstViolation order env version request =
     (case find (violates (getCompatibility env version) request) order of
        Some ch \<Rightarrow> Inl (unsupported env version (featureName ch))
      | None \<Rightarrow> Inr ())"

text \<open>The order the specification gives: the certificate stake credentials before the pool
  retirement certificates.\<close>

definition specifiedOrder :: "Check list" where
  "specifiedOrder =
     [PoolRegistrationAsOperator, MultisigTransactions, PlutusTransactions,
      ScriptHashInAddressParams, DatumInOutput, MapFormatOutputs, ZeroTtl,
      ScriptHashInWithdrawal, KeyHashInWithdrawal,
      ScriptHashInCertificate, KeyHashInCertificate,
      PoolRetirementCertificate,
      Mint, ValidityIntervalStart, ScriptDataHash, CollateralInputs,
      RequiredSigners, RequiredSignersInOrdinaryTx, RequiredSignersInMultisigTx,
      NetworkIdInTxBody, CollateralOutput, TotalCollateral, ReferenceInputs,
      CatalystRegistration, CIP36Registration, VoteKeyPath, ThirdPartyPaymentAddress]"

text \<open>The order of the source: the pool retirement certificates between the withdrawal and
  the certificate stake credentials.\<close>

definition sourceOrder :: "Check list" where
  "sourceOrder =
     [PoolRegistrationAsOperator, MultisigTransactions, PlutusTransactions,
      ScriptHashInAddressParams, DatumInOutput, MapFormatOutputs, ZeroTtl,
      ScriptHashInWithdrawal, KeyHashInWithdrawal,
      PoolRetirementCertificate,
      ScriptHashInCertificate, KeyHashInCertificate,
      Mint, ValidityIntervalStart, ScriptDataHash, CollateralInputs,
      RequiredSigners, RequiredSignersInOrdinaryTx, RequiredSignersInMultisigTx,
      NetworkIdInTxBody, CollateralOutput, TotalCollateral, ReferenceInputs,
      CatalystRegistration, CIP36Registration, VoteKeyPath, ThirdPartyPaymentAddress]"

section \<open>Example inputs\<close>

text \<open>Concrete values of the imports, a version, a device and requests, on which the
  theorems below are instantiated. The vote key serializer of the examples throws when it
  is given a vote public key together with a vote key path, which the serialization
  library rejects as a redundant vote key path, and returns otherwise.\<close>

definition allSupported :: DeviceCompatibility where
  "allSupported =
     \<lparr>supportsPoolRegistrationAsOperator = True, supportsMultisigTransaction = True,
      supportsAlonzo = True, supportsBabbage = True, supportsZeroTtl = True,
      supportsPoolRetirement = True, supportsMint = True, supportsMary = True,
      supportsReqSignersInOrdinaryTx = True, supportsCatalystRegistration = True,
      supportsCIP36 = True, supportsCIP36Vote = True\<rparr>"

definition noneSupported :: DeviceCompatibility where
  "noneSupported =
     \<lparr>supportsPoolRegistrationAsOperator = False, supportsMultisigTransaction = False,
      supportsAlonzo = False, supportsBabbage = False, supportsZeroTtl = False,
      supportsPoolRetirement = False, supportsMint = False, supportsMary = False,
      supportsReqSignersInOrdinaryTx = False, supportsCatalystRegistration = False,
      supportsCIP36 = False, supportsCIP36Vote = False\<rparr>"

definition exampleImports :: "DeviceCompatibility \<Rightarrow> Imports" where
  "exampleImports c =
     \<lparr>ensureLedgerAppVersionCompatible = (\<lambda>v. Inr ()),
      getCompatibility = (\<lambda>v. c),
      getVersionString = (\<lambda>v. showNat (major v) @ ''.'' @ showNat (minor v) @ ''.''
                                @ showNat (patch v)),
      MAX_CHUNK_SIZE = 2,
      TX_HASH_LENGTH = 32,
      AUXILIARY_DATA_HASH_LENGTH = 32,
      ED25519_SIGNATURE_LENGTH = 64,
      serializeCVoteRegistrationVoteKey_error =
        (\<lambda>key keyPath v.
           if key \<noteq> None \<and> keyPath \<noteq> None
           then Some (AssertionFailed ''redundant vote key path'') else None)\<rparr>"

definition exampleVersion :: Version where
  "exampleVersion = \<lparr>major = 6, minor = 0, patch = 0\<rparr>"

definition silentDevice :: "nat \<Rightarrow> buffer" where
  "silentDevice i = []"

definition emptyTransaction :: ParsedTransaction where
  "emptyTransaction =
     \<lparr>inputs = [], outputs = [], fee = ''42'', ttl = None, certificates = [],
      withdrawals = [], auxiliaryData = None, validityIntervalStart = None, mint = None,
      scriptDataHashHex = None, collateralInputs = [], requiredSigners = [],
      includeNetworkId = False, collateralOutput = None, totalCollateral = None,
      referenceInputs = []\<rparr>"

definition plainOutput :: ParsedOutput where
  "plainOutput =
     \<lparr>format = ARRAY_LEGACY, destination = Destination_THIRD_PARTY ''00'', tokenBundle = [],
      datum = None, referenceScriptHex = None\<rparr>"

definition delegationTransaction :: ParsedTransaction where
  "delegationTransaction =
     emptyTransaction
       \<lparr>inputs := [\<lparr>path = Some [1]\<rparr>, \<lparr>path = Some [2]\<rparr>],
        outputs := [plainOutput],
        certificates := [STAKE_DELEGATION (KEY_PATH [3])],
        withdrawals := [\<lparr>stakeCredential = KEY_PATH [3]\<rparr>]\<rparr>"

definition ordinaryRequest :: "ParsedTransaction \<Rightarrow> ParsedSigningRequest" where
  "ordinaryRequest t =
     \<lparr>tx = t, signingMode = ORDINARY_TRANSACTION, additionalWitnessPaths = []\<rparr>"

definition delegationRequestWithExtraPath :: ParsedSigningRequest where
  "delegationRequestWithExtraPath =
     \<lparr>tx = delegationTransaction, signingMode = ORDINARY_TRANSACTION,
      additionalWitnessPaths = [[9]]\<rparr>"

definition multisigRequest :: ParsedSigningRequest where
  "multisigRequest =
     \<lparr>tx = delegationTransaction, signingMode = MULTISIG_TRANSACTION,
      additionalWitnessPaths = [[5], [6], [5]]\<rparr>"

definition exampleRegistration :: ParsedCVoteRegistrationParams where
  "exampleRegistration =
     \<lparr>registrationFormat = CIP_36, votePublicKey = None, votePublicKeyPath = None,
      delegations = None, stakingPath = [7],
      paymentDestination = Destination_DEVICE_OWNED BASE_PAYMENT_KEY_STAKE_KEY,
      nonce = ''1'', votingPurpose = None\<rparr>"

definition registrationWithNeither :: ParsedSigningRequest where
  "registrationWithNeither =
     ordinaryRequest
       (emptyTransaction\<lparr>auxiliaryData := Some (CIP36_REGISTRATION exampleRegistration)\<rparr>)"

definition registrationWithBoth :: ParsedSigningRequest where
  "registrationWithBoth =
     ordinaryRequest
       (emptyTransaction
          \<lparr>auxiliaryData := Some (CIP36_REGISTRATION
             (exampleRegistration
                \<lparr>votePublicKey := Some ''ab'',
                 delegations := Some [ParsedCVoteDelegation ''cd'']\<rparr>))\<rparr>)"

definition registrationWithBothKeys :: ParsedSigningRequest where
  "registrationWithBothKeys =
     ordinaryRequest
       (emptyTransaction
          \<lparr>auxiliaryData := Some (CIP36_REGISTRATION
             (exampleRegistration
                \<lparr>votePublicKey := Some ''ab'', votePublicKeyPath := Some [8]\<rparr>))\<rparr>)"

definition registrationWithDelegations :: ParsedSigningRequest where
  "registrationWithDelegations =
     ordinaryRequest
       (emptyTransaction
          \<lparr>auxiliaryData := Some (CIP36_REGISTRATION
             (exampleRegistration
                \<lparr>delegations := Some [ParsedCVoteDelegation ''cd'',
                                       ParsedCVoteDelegation ''ef'']\<rparr>))\<rparr>)"

definition retirementRequest :: ParsedSigningRequest where
  "retirementRequest =
     ordinaryRequest
       (emptyTransaction
          \<lparr>certificates := [STAKE_DELEGATION (SCRIPT_HASH ''aa''), STAKE_POOL_RETIREMENT [1]]\<rparr>)"

definition validityStartRequest :: ParsedSigningRequest where
  "validityStartRequest =
     ordinaryRequest (emptyTransaction\<lparr>validityIntervalStart := Some ''7''\<rparr>)"

definition hashRequest :: ParsedSigningRequest where
  "hashRequest =
     ordinaryRequest (emptyTransaction\<lparr>auxiliaryData := Some (ARBITRARY_HASH ''abcd'')\<rparr>)"

definition datumOutput :: ParsedOutput where
  "datumOutput =
     plainOutput\<lparr>format := MAP_BABBAGE, datum := Some (Datum_INLINE ''0102030405'')\<rparr>"

section \<open>Runs of composed generators\<close>

lemma run_ibind:
  "run (ibind p f) d n =
     (case run p d n of
        (ms, Returned a) \<Rightarrow> (case run (f a) d (n + length ms) of (ms', r) \<Rightarrow> (ms @ ms', r))
      | (ms, Thrown e) \<Rightarrow> (ms, Thrown e)
      | (ms, Diverged) \<Rightarrow> (ms, Diverged))"
  by (induction p arbitrary: n) (auto split: prod.splits outcome.splits)

lemma run_andThen:
  "run (andThen p q) d n =
     (case run p d n of
        (ms, Returned a) \<Rightarrow> (case run q d (n + length ms) of (ms', r) \<Rightarrow> (ms @ ms', r))
      | (ms, Thrown e) \<Rightarrow> (ms, Thrown e)
      | (ms, Diverged) \<Rightarrow> (ms, Diverged))"
  by (simp add: andThen_def run_ibind)

lemma run_yield [simp]: "run (yield m) d n = ([m], Returned ())"
  by (simp add: yield_def)

lemma run_ibind_Returned:
  assumes "run (ibind p f) d n = (ms, Returned b)"
  obtains ms1 a ms2 where "run p d n = (ms1, Returned a)"
    and "run (f a) d (n + length ms1) = (ms2, Returned b)" and "ms = ms1 @ ms2"
  using assms by (auto simp: run_ibind split: prod.splits outcome.splits)

lemma run_andThen_Returned:
  assumes "run (andThen p q) d n = (ms, Returned b)"
  obtains ms1 ms2 where "run p d n = (ms1, Returned ())"
    and "run q d (n + length ms1) = (ms2, Returned b)" and "ms = ms1 @ ms2"
  using assms by (auto simp: run_andThen split: prod.splits outcome.splits)

lemma run_forEach_yield [simp]:
  "run (forEach xs (\<lambda>x. yield (g x))) d n = (map g xs, Returned ())"
  by (induction xs arbitrary: n) (simp_all add: run_andThen)

lemma run_forEach:
  assumes "\<And>x n. x \<in> set xs \<Longrightarrow> run (f x) d n = (g x, Returned ())"
  shows "run (forEach xs f) d n = (concat (map g xs), Returned ())"
  using assms by (induction xs arbitrary: n) (simp_all add: run_andThen)

lemma run_block:
  assumes "list_all2 (\<lambda>s ms. \<forall>n. run s d n = (ms, Returned ())) ss mss"
  shows "run (block ss) d n = (concat mss, Returned ())"
  using assms by (induction ss mss arbitrary: n rule: list_all2_induct) (simp_all add: run_andThen)

section \<open>The messages do not depend on the responses\<close>

lemma trace_ibind:
  "trace (ibind p f) d n =
     (case run p d n of
        (ms, Returned a) \<Rightarrow> (case trace (f a) d (n + length ms) of (ms', r) \<Rightarrow> (ms @ ms', r))
      | (ms, Thrown e) \<Rightarrow> (ms, Throws e)
      | (ms, Diverged) \<Rightarrow> (ms, Diverges))"
  by (auto simp: trace_def run_ibind split: prod.splits outcome.splits)

lemma sim_Return: "sim (Return a) (Return b)"
  by (simp add: sim_def trace_def)

lemma sim_Throw: "sim (Throw e :: 'a interaction) (Throw e :: 'b interaction)"
  by (simp add: sim_def trace_def)

lemma sim_Diverge: "sim (Diverge :: 'a interaction) (Diverge :: 'b interaction)"
  by (simp add: sim_def trace_def)

lemma sim_Yield: "(\<And>b b'. sim (k b) (k' b')) \<Longrightarrow> sim (Yield m k) (Yield m k')"
  unfolding sim_def trace_def
  by (auto split: prod.splits) (metis fst_conv snd_conv)+

lemma sim_yield: "sim (yield m) (yield m)"
  by (simp add: sim_def trace_def)

lemma sim_ibind:
  assumes "sim p q" and "\<And>a b. sim (f a) (g b)"
  shows "sim (ibind p f) (ibind q g)"
  unfolding sim_def
proof (intro allI)
  fix d n d' n'
  obtain ms r where r: "run p d n = (ms, r)" by (cases "run p d n")
  obtain ms' r' where r': "run q d' n' = (ms', r')" by (cases "run q d' n'")
  from assms(1) r r' have eq: "ms = ms'" "endingOf r = endingOf r'"
    unfolding sim_def trace_def by (metis fst_conv snd_conv)+
  show "trace (ibind p f) d n = trace (ibind q g) d' n'"
  proof (cases r)
    case (Returned a)
    with eq obtain b where b: "r' = Returned b" by (cases r') auto
    from assms(2) have "trace (f a) d (n + length ms) = trace (g b) d' (n' + length ms')"
      unfolding sim_def by blast
    then show ?thesis using r r' Returned b eq by (simp add: trace_ibind)
  next
    case (Thrown e)
    with eq have "r' = Thrown e" by (cases r') auto
    then show ?thesis using r r' Thrown eq by (simp add: trace_ibind)
  next
    case Diverged
    with eq have "r' = Diverged" by (cases r') auto
    then show ?thesis using r r' Diverged eq by (simp add: trace_ibind)
  qed
qed

lemma sim_andThen: "sim p q \<Longrightarrow> sim p' q' \<Longrightarrow> sim (andThen p p') (andThen q q')"
  unfolding andThen_def by (rule sim_ibind)

lemma sim_block: "list_all (\<lambda>s. sim s s) ss \<Longrightarrow> sim (block ss) (block ss)"
  by (induction ss) (auto intro: sim_Return sim_andThen)

lemma sim_forEach: "(\<And>x. sim (f x) (f x)) \<Longrightarrow> sim (forEach xs f) (forEach xs f)"
  by (induction xs) (auto intro: sim_Return sim_andThen)

lemma sim_forCollect: "(\<And>x. sim (f x) (f x)) \<Longrightarrow> sim (forCollect xs f) (forCollect xs f)"
  by (induction xs) (auto intro!: sim_Return sim_ibind)



lemmas sim_intros =
  sim_Return sim_Throw sim_Diverge sim_yield sim_andThen sim_ibind sim_forEach sim_forCollect
  sim_Yield

lemma sim_block_Cons: "sim s s \<Longrightarrow> sim (block ss) (block ss) \<Longrightarrow> sim (block (s # ss)) (block (s # ss))"
  by (simp add: sim_andThen)

lemma sim_block_Nil: "sim (block []) (block [])"
  by (simp add: sim_Return)

lemma sim_sendChunks_loop:
  "sendChunks_loop maxChunk hex p start = Some y \<Longrightarrow> sim y y"
  by (erule sendChunks_loop.raw_induct[where P = "\<lambda>a b c d y. sim y y", rotated 1])
     (auto split: if_splits Option.bind_splits intro!: sim_Return sim_andThen sim_yield)

lemma sim_sendChunks:
  "sim (signTx_addOutput_sendChunks env hex p) (signTx_addOutput_sendChunks env hex p)"
  unfolding signTx_addOutput_sendChunks_def
  by (auto split: option.splits intro: sim_Diverge sim_sendChunks_loop)

lemma sim_addTokenBundle:
  "sim (signTx_addTokenBundle b st fn) (signTx_addTokenBundle b st fn)"
  unfolding signTx_addTokenBundle_def by (intro sim_intros)

lemma sim_addOutput: "sim (signTx_addOutput env out v) (signTx_addOutput env out v)"
  unfolding signTx_addOutput_def
  by (auto split: option.splits ParsedDatum.splits
           intro!: sim_block_Cons sim_block_Nil sim_intros sim_sendChunks sim_addTokenBundle)

lemma sim_addCertificate:
  "sim (signTx_addCertificate env c v) (signTx_addCertificate env c v)"
  unfolding signTx_addCertificate_def signTx_addStakePoolRegistrationCertificate_def
    signTx_addStakePoolRegistrationCertificateLegacy_def
  by (auto split: ParsedCertificate.splits
           intro!: sim_block_Cons sim_block_Nil sim_intros)

lemma sim_setAuxiliaryData:
  "sim (signTx_setAuxiliaryData env aux v) (signTx_setAuxiliaryData env aux v)"
  unfolding signTx_setAuxiliaryData_def assert_def
  by (auto split: ParsedTxAuxiliaryData.splits option.splits
           intro!: sim_block_Cons sim_block_Nil sim_intros)

lemma sim_setAuxiliaryData_before_v2_3:
  "sim (signTx_setAuxiliaryData_before_v2_3 aux) (signTx_setAuxiliaryData_before_v2_3 aux)"
  unfolding signTx_setAuxiliaryData_before_v2_3_def
  by (auto split: ParsedTxAuxiliaryData.splits intro!: sim_intros)

lemma sim_setMint: "sim (signTx_setMint m) (signTx_setMint m)"
  unfolding signTx_setMint_def
  by (intro sim_block_Cons sim_block_Nil sim_intros sim_addTokenBundle)

lemma sim_addCollateralOutput:
  "sim (signTx_addCollateralOutput out v) (signTx_addCollateralOutput out v)"
  unfolding signTx_addCollateralOutput_def
  by (intro sim_block_Cons sim_block_Nil sim_intros sim_addTokenBundle)

lemmas sim_simple_defs =
  signTx_init_def signTx_addInput_def signTx_addWithdrawal_def signTx_setFee_def
  signTx_setTtl_def signTx_setValidityIntervalStart_def signTx_setScriptDataHash_def
  signTx_addCollateralInput_def signTx_addRequiredSigner_def signTx_addTotalCollateral_def
  signTx_addReferenceInput_def signTx_awaitConfirm_def signTx_getWitness_def

lemma sim_signTransaction:
  "sim (signTransaction env version request) (signTransaction env version request)"
  unfolding signTransaction_def Let_def sim_simple_defs
  by (auto split: sum.splits option.splits
           intro!: sim_block_Cons sim_block_Nil sim_intros sim_addOutput sim_addCertificate
             sim_setAuxiliaryData sim_setAuxiliaryData_before_v2_3 sim_setMint
             sim_addCollateralOutput)

text \<open>
  C10: the messages that \<^verbatim>\<open>signTransaction\<close> yields, and whether it completes, throws
  or runs forever, are the same for any two devices, whatever each responds: they are a
  function of the imports, the version and the request. The responses only reach the
  fields of the returned value.
\<close>

theorem signTransaction_messages_independent_of_responses:
  "messages (signTransaction env version request) d
     = messages (signTransaction env version request) d'
   \<and> endingOf (result (signTransaction env version request) d)
     = endingOf (result (signTransaction env version request) d')"
  using sim_signTransaction[of env version request]
  unfolding sim_def trace_def messages_def result_def by (metis prod.inject)

section \<open>Witness paths are deduplicated in the order of first occurrence\<close>

subsection \<open>Deduplication\<close>

lemma set_firstOccurrences [simp]: "set (firstOccurrences xs) = set xs"
  by (induction xs rule: firstOccurrences.induct) auto

lemma distinct_firstOccurrences [simp]: "distinct (firstOccurrences xs)"
  by (induction xs rule: firstOccurrences.induct) auto

lemma firstOccurrences_distinct: "distinct xs \<Longrightarrow> firstOccurrences xs = xs"
  by (induction xs) auto

lemma firstOccurrences_idem: "firstOccurrences (firstOccurrences xs) = firstOccurrences xs"
  by (simp add: firstOccurrences_distinct)

lemma firstIndex_Cons:
  "firstIndex a (x # xs) = (if a = x then 0 else Suc (firstIndex a xs))"
  by (simp add: firstIndex_def)

lemma firstIndex_removeAll:
  "a \<in> set xs \<Longrightarrow> b \<in> set xs \<Longrightarrow> a \<noteq> x \<Longrightarrow> b \<noteq> x \<Longrightarrow>
     firstIndex a (removeAll x xs) < firstIndex b (removeAll x xs)
       \<longleftrightarrow> firstIndex a xs < firstIndex b xs"
  by (induction xs) (auto simp: firstIndex_Cons)

lemma firstOccurrences_order:
  "a \<in> set xs \<Longrightarrow> b \<in> set xs \<Longrightarrow>
     firstIndex a (firstOccurrences xs) < firstIndex b (firstOccurrences xs)
       \<longleftrightarrow> firstIndex a xs < firstIndex b xs"
proof (induction xs rule: firstOccurrences.induct)
  case 1
  then show ?case by simp
next
  case (2 x xs)
  show ?case
  proof (cases "a = x \<or> b = x")
    case True
    then show ?thesis by (auto simp: firstIndex_Cons)
  next
    case False
    with "2.prems" have mem: "a \<in> set (removeAll x xs)" "b \<in> set (removeAll x xs)"
      and mem': "a \<in> set xs" "b \<in> set xs" and ne: "a \<noteq> x" "b \<noteq> x"
      by auto
    from "2.IH"[OF mem] firstIndex_removeAll[OF mem' ne] ne
    show ?thesis by (simp add: firstIndex_Cons)
  qed
qed

declare showNat.simps [simp del]

lemma showNat_nonempty: "showNat n \<noteq> []"
  by (subst showNat.simps) simp

lemma digitChar_inj: "a < 10 \<Longrightarrow> b < 10 \<Longrightarrow> digitChar a = digitChar b \<Longrightarrow> a = b"
proof -
  assume a: "a < 10" and b: "b < 10" and eq: "digitChar a = digitChar b"
  from eq have "(of_char (digitChar a) :: nat) = of_char (digitChar b)" by simp
  with a b show "a = b" by (simp add: digitChar_def)
qed

lemma isDigit_digitChar: "a < 10 \<Longrightarrow> isDigit (digitChar a)"
  by (simp add: isDigit_def digitChar_def)

lemma showNat_digits: "c \<in> set (showNat n) \<Longrightarrow> isDigit c"
proof (induction n rule: showNat.induct)
  case (1 n)
  show ?case
  proof (cases "n < 10")
    case True
    with 1(2) show ?thesis by (subst (asm) showNat.simps) (simp add: isDigit_digitChar)
  next
    case False
    with 1(2) have "c \<in> set (showNat (n div 10)) \<or> c = digitChar (n mod 10)"
      by (subst (asm) showNat.simps) auto
    with 1(1)[OF False] show ?thesis by (auto simp: isDigit_digitChar)
  qed
qed

lemma showNat_inj: "showNat n = showNat m \<Longrightarrow> n = m"
proof (induction n arbitrary: m rule: showNat.induct)
  case (1 n)
  show ?case
  proof (cases "n < 10")
    case n: True
    show ?thesis
    proof (cases "m < 10")
      case True
      with n 1(2) show ?thesis
        by (simp add: showNat.simps[of n] showNat.simps[of m] digitChar_inj)
    next
      case False
      with n 1(2) show ?thesis
        using showNat_nonempty[of "m div 10"]
        by (simp add: showNat.simps[of n] showNat.simps[of m])
    qed
  next
    case n: False
    show ?thesis
    proof (cases "m < 10")
      case True
      with n 1(2) show ?thesis
        using showNat_nonempty[of "n div 10"]
        by (simp add: showNat.simps[of n] showNat.simps[of m])
    next
      case False
      with n 1(2) have eq: "showNat (n div 10) = showNat (m div 10)"
        and dg: "digitChar (n mod 10) = digitChar (m mod 10)"
        by (simp_all add: showNat.simps[of n] showNat.simps[of m])
      from 1(1)[OF n eq] have "n div 10 = m div 10" .
      moreover from dg have "n mod 10 = m mod 10" by (intro digitChar_inj) auto
      ultimately show ?thesis by (metis div_mult_mod_eq)
    qed
  qed
qed

lemma comma_not_digit: "\<not> isDigit CHR '',''"
  by (simp add: isDigit_def)

lemma no_comma: "CHR '','' \<notin> set (showNat n)"
  using showNat_digits comma_not_digit by blast

lemma takeWhile_separator: "c \<notin> set a \<Longrightarrow> takeWhile (\<lambda>x. x \<noteq> c) (a @ c # r) = a"
  by (induction a) auto

lemma split_at_separator:
  assumes "c \<notin> set a" and "c \<notin> set a'" and "a @ c # r = a' @ c # r'"
  shows "a = a' \<and> r = r'"
proof -
  have "a = takeWhile (\<lambda>x. x \<noteq> c) (a @ c # r)"
    using assms(1) by (simp add: takeWhile_separator)
  also have "\<dots> = a'" unfolding assms(3) using assms(2) by (simp add: takeWhile_separator)
  finally have "a = a'" .
  with assms(3) show ?thesis by simp
qed

lemma commaJoin_showNat_inj:
  "commaJoin (map showNat p) = commaJoin (map showNat q) \<Longrightarrow> p = q"
proof (induction p arbitrary: q)
  case Nil
  then show ?case
  proof (cases q)
    case (Cons b q')
    with Nil show ?thesis using showNat_nonempty[of b] by (cases q') auto
  qed simp
next
  case (Cons a p)
  show ?case
  proof (cases q)
    case Nil
    with Cons.prems show ?thesis using showNat_nonempty[of a] by (cases p) auto
  next
    case q: (Cons b q')
    show ?thesis
    proof (cases p)
      case Nil
      show ?thesis
      proof (cases q')
        case Nil
        with \<open>p = []\<close> q Cons.prems show ?thesis by (simp add: showNat_inj)
      next
        case (Cons b' q'')
        with \<open>p = []\<close> q Cons.prems have "showNat a = showNat b @ CHR '','' # commaJoin (map showNat (b' # q''))"
          by simp
        then have "CHR '','' \<in> set (showNat a)" by simp
        then show ?thesis using no_comma by blast
      qed
    next
      case p: (Cons a' p')
      show ?thesis
      proof (cases q')
        case Nil
        with p q Cons.prems have "showNat b = showNat a @ CHR '','' # commaJoin (map showNat (a' # p'))"
          by simp
        then have "CHR '','' \<in> set (showNat b)" by simp
        then show ?thesis using no_comma by blast
      next
        case (Cons b' q'')
        with p q Cons.prems have
          "showNat a @ CHR '','' # commaJoin (map showNat p)
           = showNat b @ CHR '','' # commaJoin (map showNat q')"
          by simp
        from split_at_separator[OF no_comma no_comma this]
        have "showNat a = showNat b" "commaJoin (map showNat p) = commaJoin (map showNat q')"
          by simp_all
        with Cons.IH[of q'] q show ?thesis by (simp add: showNat_inj)
      qed
    qed
  qed
qed

lemma JSON_stringify_inj [simp]: "JSON_stringify p = JSON_stringify q \<longleftrightarrow> p = q"
  by (auto simp: JSON_stringify_def dest: commaJoin_showNat_inj)

lemma JSON_stringify_not_index [simp]: "\<not> isArrayIndex (JSON_stringify p)"
  by (simp add: isArrayIndex_def JSON_stringify_def isDigit_def)

subsection \<open>The object of \<^verbatim>\<open>uniquify\<close>\<close>

lemma setProperty_known:
  "setProperty (map (\<lambda>q. (JSON_stringify q, q)) qs) (JSON_stringify p) p =
     (if p \<in> set qs then map (\<lambda>q. (JSON_stringify q, q)) qs
      else map (\<lambda>q. (JSON_stringify q, q)) (qs @ [p]))"
  by (auto simp: setProperty_def image_iff)

lemma uniquifier_fold:
  "foldl (\<lambda>uniquifier p. setProperty uniquifier (JSON_stringify p) p)
     (map (\<lambda>q. (JSON_stringify q, q)) qs) ps
   = map (\<lambda>q. (JSON_stringify q, q)) (qs @ firstOccurrences (filter (\<lambda>p. p \<notin> set qs) ps))"
proof (induction ps arbitrary: qs)
  case Nil
  show ?case by simp
next
  case (Cons p ps)
  show ?case
  proof (cases "p \<in> set qs")
    case True
    then show ?thesis using Cons.IH[of qs] by (simp add: setProperty_known)
  next
    case False
    have "removeAll p (filter (\<lambda>x. x \<notin> set qs) ps) = filter (\<lambda>x. x \<notin> set (qs @ [p])) ps"
      by (induction ps) auto
    with False show ?thesis
      using Cons.IH[of "qs @ [p]"] by (simp add: setProperty_known del: map_append)
  qed
qed

lemma Object_values_paths:
  "Object_values (map (\<lambda>q. (JSON_stringify q, q)) qs) = qs"
  by (simp add: Object_values_def filter_map o_def map_idI)

lemma uniquify_firstOccurrences: "uniquify ps = firstOccurrences ps"
  using uniquifier_fold[of "[]" ps] by (simp add: uniquify_def Object_values_paths)

lemma certificate_cases:
  "(\<lambda>cert. case cert of
       STAKE_DELEGATION cred \<Rightarrow> (case cred of KEY_PATH p \<Rightarrow> [p] | _ \<Rightarrow> [])
     | STAKE_DEREGISTRATION cred \<Rightarrow> (case cred of KEY_PATH p \<Rightarrow> [p] | _ \<Rightarrow> [])
     | STAKE_POOL_REGISTRATION pool \<Rightarrow>
         concat (map (\<lambda>owner. case owner of Owner_DEVICE_OWNED p \<Rightarrow> [p] | _ \<Rightarrow> [])
                   (owners pool))
         @ (case poolKey pool of PoolKey_DEVICE_OWNED p \<Rightarrow> [p] | _ \<Rightarrow> [])
     | STAKE_POOL_RETIREMENT p \<Rightarrow> [p]
     | _ \<Rightarrow> []) = certificatePaths"
proof
  fix cert show "(case cert of
       STAKE_DELEGATION cred \<Rightarrow> (case cred of KEY_PATH p \<Rightarrow> [p] | _ \<Rightarrow> [])
     | STAKE_DEREGISTRATION cred \<Rightarrow> (case cred of KEY_PATH p \<Rightarrow> [p] | _ \<Rightarrow> [])
     | STAKE_POOL_REGISTRATION pool \<Rightarrow>
         concat (map (\<lambda>owner. case owner of Owner_DEVICE_OWNED p \<Rightarrow> [p] | _ \<Rightarrow> [])
                   (owners pool))
         @ (case poolKey pool of PoolKey_DEVICE_OWNED p \<Rightarrow> [p] | _ \<Rightarrow> [])
     | STAKE_POOL_RETIREMENT p \<Rightarrow> [p]
     | _ \<Rightarrow> []) = certificatePaths cert"
    by (cases cert rule: certificatePaths.cases) auto
qed

lemma gatherWitnessPaths_firstOccurrences:
  "gatherWitnessPaths request =
     firstOccurrences
       ((if signingMode request = MULTISIG_TRANSACTION then [] else elementPaths (tx request))
        @ additionalWitnessPaths request)"
  by (simp add: gatherWitnessPaths_def uniquify_firstOccurrences elementPaths_def
        certificate_cases)


text \<open>
  C3: for a request in multisig mode the list of \<^verbatim>\<open>gatherWitnessPaths\<close> is the
  deduplication of \<^verbatim>\<open>additionalWitnessPaths\<close>, in the order of first occurrence, and it
  stays the same when the transaction is replaced by any other one: no input, certificate,
  withdrawal, required signer or collateral input contributes a path.
\<close>

theorem gatherWitnessPaths_multisig:
  "signingMode request = MULTISIG_TRANSACTION \<Longrightarrow>
     gatherWitnessPaths request = firstOccurrences (additionalWitnessPaths request)
     \<and> gatherWitnessPaths (request\<lparr>tx := t\<rparr>) = gatherWitnessPaths request"
  by (simp add: gatherWitnessPaths_firstOccurrences)

theorem gatherWitnessPaths_multisig_witness:
  "signingMode multisigRequest = MULTISIG_TRANSACTION
   \<and> gatherWitnessPaths multisigRequest = [[5], [6]]
   \<and> gatherWitnessPaths (multisigRequest\<lparr>tx := emptyTransaction\<rparr>)
       = gatherWitnessPaths multisigRequest"
  using gatherWitnessPaths_multisig[of multisigRequest emptyTransaction]
  by (simp add: multisigRequest_def)

section \<open>Properties of every yielded message\<close>

lemma yieldsOnlyD: "yieldsOnly P p \<Longrightarrow> run p d n = (ms, r) \<Longrightarrow> m \<in> set ms \<Longrightarrow> P m"
  unfolding yieldsOnly_def by (metis fst_conv)

lemma yieldsOnly_Return: "yieldsOnly P (Return a)"
  by (simp add: yieldsOnly_def)

lemma yieldsOnly_Throw: "yieldsOnly P (Throw e)"
  by (simp add: yieldsOnly_def)

lemma yieldsOnly_Diverge: "yieldsOnly P Diverge"
  by (simp add: yieldsOnly_def)

lemma yieldsOnly_Yield: "P m \<Longrightarrow> (\<And>b. yieldsOnly P (k b)) \<Longrightarrow> yieldsOnly P (Yield m k)"
  unfolding yieldsOnly_def by (auto split: prod.splits) (metis fst_conv)

lemma yieldsOnly_yield: "P m \<Longrightarrow> yieldsOnly P (yield m)"
  by (simp add: yieldsOnly_def)

lemma yieldsOnly_ibind:
  assumes "yieldsOnly P p" and "\<And>a. yieldsOnly P (f a)"
  shows "yieldsOnly P (ibind p f)"
  unfolding yieldsOnly_def
proof (intro allI ballI)
  fix d n m assume m: "m \<in> set (fst (run (ibind p f) d n))"
  obtain ms r where r: "run p d n = (ms, r)" by (cases "run p d n")
  show "P m"
  proof (cases r)
    case (Returned a)
    obtain ms' r' where r': "run (f a) d (n + length ms) = (ms', r')"
      by (cases "run (f a) d (n + length ms)")
    from m r Returned r' have "m \<in> set ms \<or> m \<in> set ms'" by (simp add: run_ibind)
    then show ?thesis using yieldsOnlyD[OF assms(1) r] yieldsOnlyD[OF assms(2) r'] by blast
  next
    case (Thrown e)
    with m r have "m \<in> set ms" by (simp add: run_ibind)
    then show ?thesis using yieldsOnlyD[OF assms(1) r] by blast
  next
    case Diverged
    with m r have "m \<in> set ms" by (simp add: run_ibind)
    then show ?thesis using yieldsOnlyD[OF assms(1) r] by blast
  qed
qed

lemma yieldsOnly_andThen: "yieldsOnly P p \<Longrightarrow> yieldsOnly P q \<Longrightarrow> yieldsOnly P (andThen p q)"
  unfolding andThen_def by (rule yieldsOnly_ibind)

lemma yieldsOnly_block_Nil: "yieldsOnly P (block [])"
  by (simp add: yieldsOnly_Return)

lemma yieldsOnly_block_Cons:
  "yieldsOnly P s \<Longrightarrow> yieldsOnly P (block ss) \<Longrightarrow> yieldsOnly P (block (s # ss))"
  by (simp add: yieldsOnly_andThen)

lemma yieldsOnly_forEach: "(\<And>x. yieldsOnly P (f x)) \<Longrightarrow> yieldsOnly P (forEach xs f)"
  by (induction xs) (auto intro: yieldsOnly_Return yieldsOnly_andThen)

lemma yieldsOnly_forCollect: "(\<And>x. yieldsOnly P (f x)) \<Longrightarrow> yieldsOnly P (forCollect xs f)"
  by (induction xs) (auto intro!: yieldsOnly_Return yieldsOnly_ibind)

lemma yieldsOnly_mono: "yieldsOnly P p \<Longrightarrow> (\<And>m. P m \<Longrightarrow> Q m) \<Longrightarrow> yieldsOnly Q p"
  unfolding yieldsOnly_def by blast

lemmas yieldsOnly_intros =
  yieldsOnly_Return yieldsOnly_Throw yieldsOnly_Diverge yieldsOnly_yield yieldsOnly_Yield
  yieldsOnly_andThen yieldsOnly_ibind yieldsOnly_forEach yieldsOnly_forCollect
  yieldsOnly_block_Nil yieldsOnly_block_Cons

lemma yieldsOnly_sendChunks_loop:
  assumes "\<And>x. P (send STAGE_OUTPUTS p x (Some 0))"
  shows "sendChunks_loop maxChunk hex p start = Some y \<Longrightarrow> yieldsOnly P y"
  by (erule sendChunks_loop.raw_induct[where P = "\<lambda>a b c d y. c = p \<longrightarrow> yieldsOnly P y", rotated 1, rule_format])
     (auto split: if_splits Option.bind_splits intro!: yieldsOnly_intros assms)

lemma yieldsOnly_sendChunks:
  assumes "\<And>x. P (send STAGE_OUTPUTS p x (Some 0))"
  shows "yieldsOnly P (signTx_addOutput_sendChunks env hex p)"
  unfolding signTx_addOutput_sendChunks_def
  by (auto split: option.splits intro: yieldsOnly_Diverge yieldsOnly_sendChunks_loop[where P = P, OF assms])

subsection \<open>The chunks of a payload\<close>

declare chunksOf.simps [simp del]

lemma chunksOf_Nil [simp]: "chunksOf n [] = []"
  by (simp add: chunksOf.simps)

lemma concat_chunksOf: "0 < n \<Longrightarrow> concat (chunksOf n xs) = xs"
  by (induction n xs rule: chunksOf.induct) (subst chunksOf.simps, simp)

lemma chunksOf_sizes: "0 < n \<Longrightarrow> c \<in> set (chunksOf n xs) \<Longrightarrow> c \<noteq> [] \<and> length c \<le> n"
proof (induction n xs rule: chunksOf.induct)
  case (1 n xs)
  from 1(3) have "xs \<noteq> []" by (cases xs) auto
  with 1(2,3) have "c = take n xs \<or> c \<in> set (chunksOf n (drop n xs))"
    by (subst (asm) chunksOf.simps) auto
  then show ?case using 1(1) 1(2) \<open>xs \<noteq> []\<close> by auto
qed

lemma chunksOf_even: "even n \<Longrightarrow> even (length xs) \<Longrightarrow> c \<in> set (chunksOf n xs) \<Longrightarrow> even (length c)"
proof (induction n xs rule: chunksOf.induct)
  case (1 n xs)
  from 1(4) have ne: "\<not> (n = 0 \<or> xs = [])"
    by (auto simp: chunksOf.simps[of n xs] split: if_splits)
  with 1(4) have "c = take n xs \<or> c \<in> set (chunksOf n (drop n xs))"
    by (subst (asm) chunksOf.simps) auto
  then show ?case
  proof
    assume "c = take n xs"
    then show ?thesis using 1(2,3) by (auto simp: min_def)
  next
    assume "c \<in> set (chunksOf n (drop n xs))"
    moreover have "even (length (drop n xs))" using 1(2,3) by simp
    ultimately show ?thesis using 1(1)[OF ne 1(2)] by blast
  qed
qed

lemma chunksOf_count:
  "0 < n \<Longrightarrow> xs \<noteq> [] \<Longrightarrow>
     (length (chunksOf n xs) - 1) * n < length xs \<and> length xs \<le> length (chunksOf n xs) * n"
proof (induction n xs rule: chunksOf.induct)
  case (1 n xs)
  have step: "chunksOf n xs = take n xs # chunksOf n (drop n xs)"
    using 1(2,3) by (subst chunksOf.simps) simp
  show ?case
  proof (cases "drop n xs = []")
    case True
    then show ?thesis using 1(2,3) step by simp
  next
    case False
    then have len: "n < length xs" by simp
    from 1(1)[OF _ 1(2) False] 1(2,3)
    have IH: "(length (chunksOf n (drop n xs)) - 1) * n < length xs - n"
      "length xs - n \<le> length (chunksOf n (drop n xs)) * n" by auto
    have pos: "0 < length (chunksOf n (drop n xs))"
      using False 1(2) by (subst chunksOf.simps) simp
    from IH(1) pos len have "length (chunksOf n (drop n xs)) * n < length xs"
      by (cases "length (chunksOf n (drop n xs))") (auto simp: algebra_simps)
    moreover from IH(2) len have "length xs \<le> Suc (length (chunksOf n (drop n xs))) * n"
      by simp
    ultimately show ?thesis using step by simp
  qed
qed

section \<open>Chunked transfer of datum and reference script\<close>

lemma hex_to_buf_append:
  "even (length xs) \<Longrightarrow> hex_to_buf (xs @ ys) = hex_to_buf xs @ hex_to_buf ys"
  by (induction xs rule: hex_to_buf.induct) simp_all

lemma length_hex_to_buf: "length (hex_to_buf xs) = length xs div 2"
  by (induction xs rule: hex_to_buf.induct) simp_all

lemma hex_to_buf_concat:
  "(\<And>c. c \<in> set cs \<Longrightarrow> even (length c)) \<Longrightarrow> hex_to_buf (concat cs) = concat (map hex_to_buf cs)"
  by (induction cs) (simp_all add: hex_to_buf_append)

lemma length_uint32_to_buf: "length (uint32_to_buf n) = 4"
  by (simp add: uint32_to_buf_def)

lemma buf_to_uint32_inverse: "n < 4294967296 \<Longrightarrow> buf_to_uint32 (uint32_to_buf n) = n"
proof -
  assume n: "n < 4294967296"
  define x where "x = n div 256"
  define y where "y = x div 256"
  define z where "z = y div 256"
  have y: "n div 65536 = y" unfolding y_def x_def by (simp add: div_mult2_eq[symmetric])
  have z: "n div 16777216 = z" unfolding z_def y_def x_def by (simp add: div_mult2_eq[symmetric])
  have "z < 256" using n unfolding z[symmetric] by (simp add: less_mult_imp_div_less)
  then have zz: "z mod 256 = z" by simp
  have "buf_to_uint32 (uint32_to_buf n)
        = 256 * (256 * (256 * (z mod 256) + y mod 256) + x mod 256) + n mod 256"
    by (simp add: buf_to_uint32_def uint32_to_buf_def unat_of_nat y z x_def[symmetric])
  also have "\<dots> = n"
  proof -
    have a: "256 * z + y mod 256 = y" unfolding z_def by simp
    have b: "256 * y + x mod 256 = x" unfolding y_def by simp
    have c: "256 * x + n mod 256 = n" unfolding x_def by simp
    show ?thesis by (simp only: zz a b c)
  qed
  finally show ?thesis .
qed

lemma substring_chunk:
  "start < length hex \<Longrightarrow>
     substring hex start (min (length hex) (start + n)) = take n (drop start hex)"
  by (auto simp: substring_def min_def)

lemma drop_min: "drop (min (length hex) (start + n)) hex = drop n (drop start hex)"
  by (auto simp: min_def add.commute)

lemma sendChunks_loop_forEach:
  assumes "0 < maxChunk"
  shows "sendChunks_loop maxChunk hex p start
         = Some (forEach (chunksOf (maxChunk * 2) (drop start hex))
                   (\<lambda>chunk. yield (chunkMessage p chunk)))"
proof (induction "length hex - start" arbitrary: start rule: less_induct)
  case less
  show ?case
  proof (cases "start < length hex")
    case True
    let ?next = "min (length hex) (start + maxChunk * 2)"
    have "length hex - ?next < length hex - start" using True assms by (auto simp: min_def)
    from less[OF this]
    have IH: "sendChunks_loop maxChunk hex p ?next
              = Some (forEach (chunksOf (maxChunk * 2) (drop (maxChunk * 2) (drop start hex)))
                        (\<lambda>chunk. yield (chunkMessage p chunk)))"
      by (simp only: drop_min)
    have ne: "drop start hex \<noteq> []" using True by simp
    have step: "chunksOf (maxChunk * 2) (drop start hex)
                = take (maxChunk * 2) (drop start hex)
                  # chunksOf (maxChunk * 2) (drop (maxChunk * 2) (drop start hex))"
      using assms ne by (subst chunksOf.simps) simp
    show ?thesis
      using True
      by (subst sendChunks_loop.simps)
         (simp add: IH step substring_chunk chunkMessage_def del: drop_drop)
  next
    case False
    then show ?thesis by (subst sendChunks_loop.simps) simp
  qed
qed

lemma run_sendChunks:
  "0 < MAX_CHUNK_SIZE env \<Longrightarrow>
     run (signTx_addOutput_sendChunks env hex p) d n
       = (map (chunkMessage p) (continuationChunks env hex), Returned ())"
  by (simp add: signTx_addOutput_sendChunks_def sendChunks_loop_forEach continuationChunks_def)

lemma continuationChunks_short:
  "length hex \<le> MAX_CHUNK_SIZE env * 2 \<Longrightarrow> continuationChunks env hex = []"
  by (simp add: continuationChunks_def)

lemma run_addTokenBundle:
  "\<exists>tb. (\<forall>d n. run (signTx_addTokenBundle b st fn) d n = (tb, Returned ()))
        \<and> (\<forall>m \<in> set tb. p1 m = st \<and> (p2 m = ASSET_GROUP \<or> p2 m = TOKEN))"
proof -
  let ?g = "\<lambda>assetGroup. send st ASSET_GROUP (serializeAssetGroup assetGroup) (Some 0)
              # map (\<lambda>token. send st TOKEN (serializeToken token fn) (Some 0)) (tokens assetGroup)"
  have "\<forall>d n. run (signTx_addTokenBundle b st fn) d n = (concat (map ?g b), Returned ())"
    unfolding signTx_addTokenBundle_def
    by (intro allI run_forEach) (simp add: run_andThen)
  moreover have "\<forall>m \<in> set (concat (map ?g b)). p1 m = st \<and> (p2 m = ASSET_GROUP \<or> p2 m = TOKEN)"
    by (auto simp: send_def)
  ultimately show ?thesis by blast
qed

text \<open>The messages of one output, with the chunks in closed form.\<close>

lemma run_addOutput:
  assumes "0 < MAX_CHUNK_SIZE env"
  shows "\<exists>tb. (\<forall>m \<in> set tb. p2 m = ASSET_GROUP \<or> p2 m = TOKEN)
    \<and> (\<forall>d n. run (signTx_addOutput env output version) d n =
         (send STAGE_OUTPUTS Output_BASIC_DATA (serializeTxOutputBasicParams output version) (Some 0)
          # tb
          @ (case datum output of
               None \<Rightarrow> []
             | Some dt \<Rightarrow>
                 send STAGE_OUTPUTS Output_DATUM (serializeTxOutputDatum dt version) (Some 0)
                 # (case dt of
                      Datum_INLINE datumHex \<Rightarrow>
                        map (chunkMessage Output_DATUM_CHUNK) (continuationChunks env datumHex)
                    | Datum_HASH h \<Rightarrow> []))
          @ (case referenceScriptHex output of
               None \<Rightarrow> []
             | Some scriptHex \<Rightarrow>
                 if scriptHex \<noteq> [] then
                   send STAGE_OUTPUTS Output_SCRIPT (serializeTxOutputRefScript scriptHex) (Some 0)
                   # map (chunkMessage Output_SCRIPT_CHUNK) (continuationChunks env scriptHex)
                 else [])
          @ [send STAGE_OUTPUTS Output_CONFIRM (Buf []) (Some 0)],
          Returned ()))"
proof -
  from run_addTokenBundle[of "tokenBundle output" STAGE_OUTPUTS uint64_to_buf]
  obtain tb where tb: "\<And>d n. run (signTx_addTokenBundle (tokenBundle output) STAGE_OUTPUTS
                                  uint64_to_buf) d n = (tb, Returned ())"
    and tags: "\<forall>m \<in> set tb. p2 m = ASSET_GROUP \<or> p2 m = TOKEN"
    by blast
  have "\<forall>d n. run (signTx_addOutput env output version) d n = (send STAGE_OUTPUTS Output_BASIC_DATA (serializeTxOutputBasicParams output version) (Some 0)
          # tb
          @ (case datum output of
               None \<Rightarrow> []
             | Some dt \<Rightarrow>
                 send STAGE_OUTPUTS Output_DATUM (serializeTxOutputDatum dt version) (Some 0)
                 # (case dt of
                      Datum_INLINE datumHex \<Rightarrow>
                        map (chunkMessage Output_DATUM_CHUNK) (continuationChunks env datumHex)
                    | Datum_HASH h \<Rightarrow> []))
          @ (case referenceScriptHex output of
               None \<Rightarrow> []
             | Some scriptHex \<Rightarrow>
                 if scriptHex \<noteq> [] then
                   send STAGE_OUTPUTS Output_SCRIPT (serializeTxOutputRefScript scriptHex) (Some 0)
                   # map (chunkMessage Output_SCRIPT_CHUNK) (continuationChunks env scriptHex)
                 else [])
          @ [send STAGE_OUTPUTS Output_CONFIRM (Buf []) (Some 0)],
          Returned ())"
    unfolding signTx_addOutput_def
    by (simp add: run_andThen tb run_sendChunks[OF assms] continuationChunks_short
             split: option.splits ParsedDatum.splits)
  with tags show ?thesis by blast
qed

lemma continuationChunks_count:
  assumes "0 < MAX_CHUNK_SIZE env" and "even (length hex)"
    and "MAX_CHUNK_SIZE env < length hex div 2"
  shows "int (length (continuationChunks env hex))
         = \<lceil>(real (length hex div 2) - real (MAX_CHUNK_SIZE env)) / real (MAX_CHUNK_SIZE env)\<rceil>"
proof -
  let ?C = "MAX_CHUNK_SIZE env" and ?L = "length hex div 2"
  let ?k = "length (continuationChunks env hex)"
  from assms(2) have len: "length hex = 2 * ?L" by auto
  have ne: "drop (?C * 2) hex \<noteq> []" using assms(3) len by simp
  from chunksOf_count[of "?C * 2" "drop (?C * 2) hex"] assms(1) ne
  have "(?k - 1) * (?C * 2) < length hex - ?C * 2" "length hex - ?C * 2 \<le> ?k * (?C * 2)"
    by (simp_all add: continuationChunks_def)
  with len have lo: "(?k - 1) * ?C < ?L - ?C" and hi: "?L - ?C \<le> ?k * ?C" by auto
  have kpos: "0 < ?k" using ne assms(1) by (simp add: continuationChunks_def chunksOf.simps)
  have C: "0 < real ?C" using assms(1) by simp
  have sub: "real ?L - real ?C = real (?L - ?C)" using assms(3) by simp
  from lo have "real ((?k - 1) * ?C) < real (?L - ?C)" by (simp only: of_nat_less_iff)
  then have "(real ?k - 1) * real ?C < real (?L - ?C)" using kpos by (simp add: of_nat_diff)
  then have a: "of_int (int ?k) - 1 < (real ?L - real ?C) / real ?C"
    using C by (simp add: pos_less_divide_eq sub)
  from hi have "real (?L - ?C) \<le> real (?k * ?C)" by (simp only: of_nat_le_iff)
  then have b: "(real ?L - real ?C) / real ?C \<le> of_int (int ?k)"
    using C by (simp add: pos_divide_le_eq sub)
  have "\<lceil>(real ?L - real ?C) / real ?C\<rceil> = int ?k"
    by (rule ceiling_unique) (use a b in simp_all)
  then show ?thesis by simp
qed

lemma continuationChunks_chunk:
  assumes "0 < MAX_CHUNK_SIZE env" and "even (length hex)"
    and "chunk \<in> set (continuationChunks env hex)"
  shows "chunk \<noteq> []" and "even (length chunk)" and "length chunk div 2 \<le> MAX_CHUNK_SIZE env"
proof -
  from assms(3) have c: "chunk \<in> set (chunksOf (MAX_CHUNK_SIZE env * 2)
                                        (drop (MAX_CHUNK_SIZE env * 2) hex))"
    by (simp add: continuationChunks_def)
  from chunksOf_sizes[OF _ c] assms(1)
  show "chunk \<noteq> []" and "length chunk div 2 \<le> MAX_CHUNK_SIZE env" by auto
  have "even (length (drop (MAX_CHUNK_SIZE env * 2) hex))" using assms(2) by simp
  from chunksOf_even[OF _ this c] show "even (length chunk)" by simp
qed

lemma continuationChunks_concat:
  "0 < MAX_CHUNK_SIZE env \<Longrightarrow> inlineSlice env hex @ concat (continuationChunks env hex) = hex"
  by (simp add: inlineSlice_def continuationChunks_def concat_chunksOf)

lemma continuationChunks_bytes:
  assumes "0 < MAX_CHUNK_SIZE env" and "even (length hex)"
  shows "hex_to_buf (inlineSlice env hex) @ concat (map hex_to_buf (continuationChunks env hex))
         = hex_to_buf hex"
proof -
  have "even (length (inlineSlice env hex))"
    using assms(2) by (auto simp: inlineSlice_def min_def)
  moreover have "hex_to_buf (concat (continuationChunks env hex))
                 = concat (map hex_to_buf (continuationChunks env hex))"
    using continuationChunks_chunk(2)[OF assms] by (intro hex_to_buf_concat) blast
  ultimately show ?thesis
    using hex_to_buf_append[of "inlineSlice env hex" "concat (continuationChunks env hex)"]
      continuationChunks_concat[OF assms(1), of hex]
    by simp
qed

section \<open>The stages of a ceremony\<close>

lemma stage_addTokenBundle: "yieldsOnly (\<lambda>m. p1 m = st) (signTx_addTokenBundle b st fn)"
  unfolding signTx_addTokenBundle_def by (intro yieldsOnly_intros) (simp_all add: send_def)

lemma stage_addOutput: "yieldsOnly (\<lambda>m. p1 m = STAGE_OUTPUTS) (signTx_addOutput env output v)"
  unfolding signTx_addOutput_def
  by (auto split: option.splits ParsedDatum.splits simp: send_def
           intro!: yieldsOnly_intros yieldsOnly_sendChunks stage_addTokenBundle)

lemma stage_addCertificate:
  "yieldsOnly (\<lambda>m. p1 m = STAGE_CERTIFICATES) (signTx_addCertificate env c v)"
  unfolding signTx_addCertificate_def signTx_addStakePoolRegistrationCertificate_def
    signTx_addStakePoolRegistrationCertificateLegacy_def
  by (auto split: ParsedCertificate.splits simp: send_def intro!: yieldsOnly_intros)

lemma stage_setAuxiliaryData:
  "yieldsOnly (\<lambda>m. p1 m = STAGE_AUX_DATA) (signTx_setAuxiliaryData env aux v)"
  unfolding signTx_setAuxiliaryData_def assert_def
  by (auto split: ParsedTxAuxiliaryData.splits option.splits simp: send_def
           intro!: yieldsOnly_intros)

lemma stage_setMint: "yieldsOnly (\<lambda>m. p1 m = STAGE_MINT) (signTx_setMint mt)"
  unfolding signTx_setMint_def
  by (auto simp: send_def intro!: yieldsOnly_intros stage_addTokenBundle)

lemma stage_addCollateralOutput:
  "yieldsOnly (\<lambda>m. p1 m = STAGE_COLLATERAL_OUTPUT) (signTx_addCollateralOutput output v)"
  unfolding signTx_addCollateralOutput_def
  by (auto simp: send_def intro!: yieldsOnly_intros stage_addTokenBundle)

lemma stage_weaken: "yieldsOnly (\<lambda>m. p1 m = s) p \<Longrightarrow> s \<in> S \<Longrightarrow> yieldsOnly (\<lambda>m. p1 m \<in> S) p"
  by (erule yieldsOnly_mono) simp

lemma yieldsOnly_case_option:
  "yieldsOnly P a \<Longrightarrow> (\<And>x. yieldsOnly P (f x)) \<Longrightarrow>
     yieldsOnly P (case opt of None \<Rightarrow> a | Some x \<Rightarrow> f x)"
  by (cases opt) simp_all

lemma stage_yield: "s \<in> S \<Longrightarrow> yieldsOnly (\<lambda>m. p1 m \<in> S) (yield (send s b c l))"
  by (simp add: yieldsOnly_yield send_def)

lemma stage_body:
  "yieldsOnly (\<lambda>m. p1 m \<in> bodyStages)
     (block
        [forEach (inputs t) signTx_addInput,
         forEach (outputs t) (\<lambda>output. signTx_addOutput env output version),
         signTx_setFee (fee t),
         (case ttl t of Some v \<Rightarrow> signTx_setTtl v | None \<Rightarrow> Return ()),
         forEach (certificates t) (\<lambda>certificate. signTx_addCertificate env certificate version),
         forEach (withdrawals t) (\<lambda>withdrawal. signTx_addWithdrawal withdrawal version)])"
  unfolding signTx_addInput_def signTx_setFee_def signTx_setTtl_def signTx_addWithdrawal_def
  by (intro yieldsOnly_block_Cons yieldsOnly_block_Nil yieldsOnly_forEach yieldsOnly_case_option
        yieldsOnly_Return stage_yield stage_weaken[OF stage_addOutput]
        stage_weaken[OF stage_addCertificate])
     (simp_all add: bodyStages_def)

lemma stage_tail:
  "yieldsOnly (\<lambda>m. p1 m \<in> tailStages)
     (block
        [(case validityIntervalStart t of
            Some v \<Rightarrow> signTx_setValidityIntervalStart v | None \<Rightarrow> Return ()),
         (case mint t of Some m \<Rightarrow> signTx_setMint m | None \<Rightarrow> Return ()),
         (case scriptDataHashHex t of Some h \<Rightarrow> signTx_setScriptDataHash h | None \<Rightarrow> Return ()),
         forEach (collateralInputs t) signTx_addCollateralInput,
         forEach (requiredSigners t) signTx_addRequiredSigner,
         (case collateralOutput t of
            Some output \<Rightarrow> signTx_addCollateralOutput output version | None \<Rightarrow> Return ()),
         (case totalCollateral t of Some c \<Rightarrow> signTx_addTotalCollateral c | None \<Rightarrow> Return ()),
         forEach (referenceInputs t) signTx_addReferenceInput])"
  unfolding signTx_setValidityIntervalStart_def signTx_setScriptDataHash_def
    signTx_addCollateralInput_def signTx_addRequiredSigner_def signTx_addTotalCollateral_def
    signTx_addReferenceInput_def
  by (intro yieldsOnly_block_Cons yieldsOnly_block_Nil yieldsOnly_forEach yieldsOnly_case_option
        yieldsOnly_Return stage_yield stage_weaken[OF stage_setMint]
        stage_weaken[OF stage_addCollateralOutput])
     (simp_all add: tailStages_def)

lemma run_getWitnesses:
  "run (forCollect ps (signTx_getWitness env)) d n
     = (map (witnessRequest env) ps,
        Returned (map (\<lambda>(i, p). \<lparr>witnessPath = p,
                                  witnessSignatureHex = buf_to_hex (d (n + i))\<rparr>)
                    (enumerate 0 ps)))"
proof (induction ps arbitrary: n)
  case Nil
  show ?case by simp
next
  case (Cons p ps)
  have shift: "map (\<lambda>(i, p). \<lparr>witnessPath = p, witnessSignatureHex = buf_to_hex (d (n + i))\<rparr>)
                 (enumerate (Suc 0) ps)
               = map (\<lambda>(i, p). \<lparr>witnessPath = p, witnessSignatureHex = buf_to_hex (d (Suc n + i))\<rparr>)
                   (enumerate 0 ps)"
    by (rule nth_equalityI) (simp_all add: nth_enumerate_eq)
  have head: "run (signTx_getWitness env p) d n
              = ([witnessRequest env p],
                 Returned \<lparr>witnessPath = p, witnessSignatureHex = buf_to_hex (d n)\<rparr>)"
    by (simp add: signTx_getWitness_def witnessRequest_def)
  show ?case by (simp add: run_ibind head Cons.IH shift)
qed

lemma run_setAuxiliaryData_nonempty:
  "run (signTx_setAuxiliaryData env aux v) d n = (ms, r) \<Longrightarrow> ms \<noteq> []"
  unfolding signTx_setAuxiliaryData_def assert_def
  by (auto simp: run_andThen split: ParsedTxAuxiliaryData.splits prod.splits outcome.splits)

lemma run_setAuxiliaryData_before_v2_3:
  "run (signTx_setAuxiliaryData_before_v2_3 aux) d n = (ms, Returned s) \<Longrightarrow>
     \<exists>hashHex. aux = ARBITRARY_HASH hashHex \<and> ms = [legacyAuxiliaryDataMessage hashHex]
       \<and> s = None"
  unfolding signTx_setAuxiliaryData_before_v2_3_def legacyAuxiliaryDataMessage_def
  by (cases aux) (auto simp: run_andThen)

lemma filter_stage_other: "\<forall>m \<in> set ms. p1 m \<noteq> s \<Longrightarrow> filter (\<lambda>m. p1 m = s) ms = []"
  by (induction ms) auto

lemma filter_stage_same: "\<forall>m \<in> set ms. p1 m = s \<Longrightarrow> filter (\<lambda>m. p1 m = s) ms = ms"
  by (induction ms) auto

lemma run_body_outputs:
  assumes run: "run (block
        [forEach (inputs t) signTx_addInput,
         forEach (outputs t) (\<lambda>output. signTx_addOutput env output version),
         signTx_setFee (fee t),
         (case ttl t of Some v \<Rightarrow> signTx_setTtl v | None \<Rightarrow> Return ()),
         forEach (certificates t) (\<lambda>certificate. signTx_addCertificate env certificate version),
         forEach (withdrawals t) (\<lambda>withdrawal. signTx_addWithdrawal withdrawal version)])
      d n = (mB, Returned ())"
  shows "\<exists>nO. run (forEach (outputs t) (\<lambda>output. signTx_addOutput env output version)) d nO
                = (filter (\<lambda>m. p1 m = STAGE_OUTPUTS) mB, Returned ())"
proof -
  from run obtain m1 r1 where 1: "run (forEach (inputs t) signTx_addInput) d n = (m1, Returned ())"
    and r1: "run (block
        [forEach (outputs t) (\<lambda>output. signTx_addOutput env output version),
         signTx_setFee (fee t),
         (case ttl t of Some v \<Rightarrow> signTx_setTtl v | None \<Rightarrow> Return ()),
         forEach (certificates t) (\<lambda>certificate. signTx_addCertificate env certificate version),
         forEach (withdrawals t) (\<lambda>withdrawal. signTx_addWithdrawal withdrawal version)])
      d (n + length m1) = (r1, Returned ())" and mB: "mB = m1 @ r1"
    by (auto elim: run_andThen_Returned)
  from r1 obtain mO r2 where
    O: "run (forEach (outputs t) (\<lambda>output. signTx_addOutput env output version)) d (n + length m1)
        = (mO, Returned ())"
    and r2: "run (block
        [signTx_setFee (fee t),
         (case ttl t of Some v \<Rightarrow> signTx_setTtl v | None \<Rightarrow> Return ()),
         forEach (certificates t) (\<lambda>certificate. signTx_addCertificate env certificate version),
         forEach (withdrawals t) (\<lambda>withdrawal. signTx_addWithdrawal withdrawal version)])
      d (n + length m1 + length mO) = (r2, Returned ())" and r1eq: "r1 = mO @ r2"
    by (auto elim: run_andThen_Returned)
  have "yieldsOnly (\<lambda>m. p1 m = STAGE_INPUTS) (forEach (inputs t) signTx_addInput)"
    unfolding signTx_addInput_def by (intro yieldsOnly_intros) (simp add: send_def)
  from yieldsOnlyD[OF this 1] have f1: "\<forall>m \<in> set m1. p1 m \<noteq> STAGE_OUTPUTS" by auto
  have "yieldsOnly (\<lambda>m. p1 m = STAGE_OUTPUTS)
          (forEach (outputs t) (\<lambda>output. signTx_addOutput env output version))"
    by (intro yieldsOnly_forEach stage_addOutput)
  from yieldsOnlyD[OF this O] have fO: "\<forall>m \<in> set mO. p1 m = STAGE_OUTPUTS" by auto
  have "yieldsOnly (\<lambda>m. p1 m \<in> {STAGE_FEE, STAGE_TTL, STAGE_CERTIFICATES, STAGE_WITHDRAWALS})
          (block
        [signTx_setFee (fee t),
         (case ttl t of Some v \<Rightarrow> signTx_setTtl v | None \<Rightarrow> Return ()),
         forEach (certificates t) (\<lambda>certificate. signTx_addCertificate env certificate version),
         forEach (withdrawals t) (\<lambda>withdrawal. signTx_addWithdrawal withdrawal version)])"
    unfolding signTx_setFee_def signTx_setTtl_def signTx_addWithdrawal_def
    by (intro yieldsOnly_block_Cons yieldsOnly_block_Nil yieldsOnly_forEach
          yieldsOnly_case_option yieldsOnly_Return stage_yield
          stage_weaken[OF stage_addCertificate])
       simp_all
  from yieldsOnlyD[OF this r2] have f2: "\<forall>m \<in> set r2. p1 m \<noteq> STAGE_OUTPUTS" by fastforce
  have "filter (\<lambda>m. p1 m = STAGE_OUTPUTS) mB = mO"
    unfolding mB r1eq
    by (simp add: filter_stage_other[OF f1] filter_stage_other[OF f2] filter_stage_same[OF fO])
  with O show ?thesis by blast
qed

text \<open>A ceremony that completes: its messages, stage by stage.\<close>

lemma signTransaction_completed:
  assumes run: "run (signTransaction env version request) d 0 = (ms, Returned res)"
  obtains mA mB mL mT nO where
    "ensureLedgerAppVersionCompatible env version = Inr ()"
    "ensureRequestSupportedByAppVersion env version request = Inr ()"
    "ms = initMessage version request # mA @ mB @ mL @ mT
          @ confirmMessage env # map (witnessRequest env) (gatherWitnessPaths request)"
    "\<forall>m \<in> set mA. p1 m = STAGE_AUX_DATA"
    "\<forall>m \<in> set mB. p1 m \<in> bodyStages"
    "\<forall>m \<in> set mT. p1 m \<in> tailStages"
    "mA \<noteq> [] \<longleftrightarrow> auxiliaryData (tx request) \<noteq> None \<and> auxDataBeforeTxBody env version"
    "case auxiliaryData (tx request) of
       None \<Rightarrow> mL = []
     | Some aux \<Rightarrow>
         if auxDataBeforeTxBody env version then mL = []
         else (\<exists>hashHex. aux = ARBITRARY_HASH hashHex
                 \<and> mL = [legacyAuxiliaryDataMessage hashHex]
                 \<and> auxiliaryDataSupplement res = None)"
    "run (forEach (outputs (tx request)) (\<lambda>output. signTx_addOutput env output version)) d nO
       = (filter (\<lambda>m. p1 m = STAGE_OUTPUTS) mB, Returned ())"
    "map witnessPath (witnesses res) = gatherWitnessPaths request"
    "\<exists>s. run (case auxiliaryData (tx request) of
                  Some aux \<Rightarrow>
                    if auxDataBeforeTxBody env version
                    then signTx_setAuxiliaryData env aux version else Return None
                | None \<Rightarrow> Return None) d (Suc 0) = (mA, Returned s)"
proof -
  let ?t = "tx request"
  let ?before = "auxDataBeforeTxBody env version"
  let ?A = "case auxiliaryData ?t of
              Some aux \<Rightarrow>
                if ?before then signTx_setAuxiliaryData env aux version else Return None
            | None \<Rightarrow> Return None"
  let ?B = "block
        [forEach (inputs ?t) signTx_addInput,
         forEach (outputs ?t) (\<lambda>output. signTx_addOutput env output version),
         signTx_setFee (fee ?t),
         (case ttl ?t of Some v \<Rightarrow> signTx_setTtl v | None \<Rightarrow> Return ()),
         forEach (certificates ?t) (\<lambda>certificate. signTx_addCertificate env certificate version),
         forEach (withdrawals ?t) (\<lambda>withdrawal. signTx_addWithdrawal withdrawal version)]"
  let ?L = "\<lambda>s1. case auxiliaryData ?t of
              Some aux \<Rightarrow>
                if \<not> ?before then signTx_setAuxiliaryData_before_v2_3 aux else Return s1
            | None \<Rightarrow> Return s1"
  let ?T = "block
        [(case validityIntervalStart ?t of
            Some v \<Rightarrow> signTx_setValidityIntervalStart v | None \<Rightarrow> Return ()),
         (case mint ?t of Some m \<Rightarrow> signTx_setMint m | None \<Rightarrow> Return ()),
         (case scriptDataHashHex ?t of Some h \<Rightarrow> signTx_setScriptDataHash h | None \<Rightarrow> Return ()),
         forEach (collateralInputs ?t) signTx_addCollateralInput,
         forEach (requiredSigners ?t) signTx_addRequiredSigner,
         (case collateralOutput ?t of
            Some output \<Rightarrow> signTx_addCollateralOutput output version | None \<Rightarrow> Return ()),
         (case totalCollateral ?t of Some c \<Rightarrow> signTx_addTotalCollateral c | None \<Rightarrow> Return ()),
         forEach (referenceInputs ?t) signTx_addReferenceInput]"
  let ?W = "forCollect (gatherWitnessPaths request) (signTx_getWitness env)"
  from run have pre1: "ensureLedgerAppVersionCompatible env version = Inr ()"
    by (auto simp: signTransaction_def split: sum.splits)
  from run pre1 have pre2: "ensureRequestSupportedByAppVersion env version request = Inr ()"
    by (auto simp: signTransaction_def split: sum.splits)
  have unfold: "signTransaction env version request =
      andThen (signTx_init ?t (signingMode request) (gatherWitnessPaths request) version)
        (ibind ?A (\<lambda>s1. andThen ?B (ibind (?L s1) (\<lambda>s. andThen ?T
           (ibind (signTx_awaitConfirm env) (\<lambda>h. ibind ?W (\<lambda>ws.
              Return \<lparr>txHashHex = h, witnesses = ws, auxiliaryDataSupplement = s\<rparr>)))))))"
    by (simp only: signTransaction_def pre1 pre2 Let_def auxDataBeforeTxBody_def sum.case)
  from run[unfolded unfold] obtain mI rest1 where
    I: "run (signTx_init ?t (signingMode request) (gatherWitnessPaths request) version) d 0
        = (mI, Returned ())"
    and rest1: "run (ibind ?A (\<lambda>s1. andThen ?B (ibind (?L s1) (\<lambda>s. andThen ?T
           (ibind (signTx_awaitConfirm env) (\<lambda>h. ibind ?W (\<lambda>ws.
              Return \<lparr>txHashHex = h, witnesses = ws, auxiliaryDataSupplement = s\<rparr>)))))))
           d (0 + length mI) = (rest1, Returned res)"
    and ms1: "ms = mI @ rest1"
    by (rule run_andThen_Returned)
  from I have mI: "mI = [initMessage version request]"
    by (simp add: signTx_init_def initMessage_def)
  from rest1 obtain mA s1 rest2 where
    A: "run ?A d (0 + length mI) = (mA, Returned s1)"
    and rest2: "run (andThen ?B (ibind (?L s1) (\<lambda>s. andThen ?T
           (ibind (signTx_awaitConfirm env) (\<lambda>h. ibind ?W (\<lambda>ws.
              Return \<lparr>txHashHex = h, witnesses = ws, auxiliaryDataSupplement = s\<rparr>))))))
           d (0 + length mI + length mA) = (rest2, Returned res)"
    and ms2: "rest1 = mA @ rest2"
    by (rule run_ibind_Returned)
  from rest2 obtain mB rest3 where
    B: "run ?B d (0 + length mI + length mA) = (mB, Returned ())"
    and rest3: "run (ibind (?L s1) (\<lambda>s. andThen ?T
           (ibind (signTx_awaitConfirm env) (\<lambda>h. ibind ?W (\<lambda>ws.
              Return \<lparr>txHashHex = h, witnesses = ws, auxiliaryDataSupplement = s\<rparr>)))))
           d (0 + length mI + length mA + length mB) = (rest3, Returned res)"
    and ms3: "rest2 = mB @ rest3"
    by (rule run_andThen_Returned)
  from rest3 obtain mL s rest4 where
    L: "run (?L s1) d (0 + length mI + length mA + length mB) = (mL, Returned s)"
    and rest4: "run (andThen ?T
           (ibind (signTx_awaitConfirm env) (\<lambda>h. ibind ?W (\<lambda>ws.
              Return \<lparr>txHashHex = h, witnesses = ws, auxiliaryDataSupplement = s\<rparr>))))
           d (0 + length mI + length mA + length mB + length mL) = (rest4, Returned res)"
    and ms4: "rest3 = mL @ rest4"
    by (rule run_ibind_Returned)
  from rest4 obtain mT rest5 where
    T: "run ?T d (0 + length mI + length mA + length mB + length mL) = (mT, Returned ())"
    and rest5: "run (ibind (signTx_awaitConfirm env) (\<lambda>h. ibind ?W (\<lambda>ws.
              Return \<lparr>txHashHex = h, witnesses = ws, auxiliaryDataSupplement = s\<rparr>)))
           d (0 + length mI + length mA + length mB + length mL + length mT)
           = (rest5, Returned res)"
    and ms5: "rest4 = mT @ rest5"
    by (rule run_andThen_Returned)
  from rest5 have
    ms6: "rest5 = confirmMessage env # map (witnessRequest env) (gatherWitnessPaths request)"
    and wps: "map witnessPath (witnesses res) = gatherWitnessPaths request"
    and supp: "auxiliaryDataSupplement res = s"
    by (auto simp: run_ibind run_getWitnesses signTx_awaitConfirm_def confirmMessage_def
          map_idI enumerate_eq_zip o_def split_def)
  have msEq: "ms = initMessage version request # mA @ mB @ mL @ mT
          @ confirmMessage env # map (witnessRequest env) (gatherWitnessPaths request)"
    by (simp add: ms1 mI ms2 ms3 ms4 ms5 ms6)
  have tagsA: "\<forall>m \<in> set mA. p1 m = STAGE_AUX_DATA"
  proof -
    have "yieldsOnly (\<lambda>m. p1 m = STAGE_AUX_DATA) ?A"
      by (auto split: option.splits intro: yieldsOnly_Return stage_setAuxiliaryData)
    from yieldsOnlyD[OF this A] show ?thesis by blast
  qed
  have tagsB: "\<forall>m \<in> set mB. p1 m \<in> bodyStages"
    using yieldsOnlyD[OF stage_body B] by blast
  have tagsT: "\<forall>m \<in> set mT. p1 m \<in> tailStages"
    using yieldsOnlyD[OF stage_tail T] by blast
  have neA: "mA \<noteq> [] \<longleftrightarrow> auxiliaryData ?t \<noteq> None \<and> ?before"
    using A run_setAuxiliaryData_nonempty[of env _ version d "0 + length mI" mA "Returned s1"]
    by (auto split: option.splits if_splits)
  have legacy: "case auxiliaryData ?t of
       None \<Rightarrow> mL = []
     | Some aux \<Rightarrow>
         if ?before then mL = []
         else (\<exists>hashHex. aux = ARBITRARY_HASH hashHex
                 \<and> mL = [legacyAuxiliaryDataMessage hashHex]
                 \<and> auxiliaryDataSupplement res = None)"
    using L supp run_setAuxiliaryData_before_v2_3[of _ d "0 + length mI + length mA + length mB" mL s]
    by (auto split: option.splits if_splits)
  from run_body_outputs[OF B] obtain nO where
    "run (forEach (outputs ?t) (\<lambda>output. signTx_addOutput env output version)) d nO
       = (filter (\<lambda>m. p1 m = STAGE_OUTPUTS) mB, Returned ())"
    by blast
  moreover from A have "\<exists>s. run ?A d (Suc 0) = (mA, Returned s)"
    by (simp add: mI)
  ultimately show ?thesis
    using that[OF pre1 pre2 msEq tagsA tagsB tagsT neA legacy] wps by blast
qed

section \<open>Evaluation on the example inputs\<close>

lemmas example_defs =
  exampleImports_def allSupported_def noneSupported_def exampleVersion_def silentDevice_def
  emptyTransaction_def plainOutput_def delegationTransaction_def ordinaryRequest_def
  delegationRequestWithExtraPath_def multisigRequest_def exampleRegistration_def
  registrationWithNeither_def registrationWithBoth_def retirementRequest_def
  validityStartRequest_def hashRequest_def datumOutput_def

lemmas validator_defs =
  ensureRequestSupportedByAppVersion_def hasScriptHashInAddressParams_def
  hasStakeCredentialInWithdrawals_def hasStakeCredentialInCertificates_def unsupported_def

lemmas stage_defs =
  signTx_init_def signTx_addInput_def signTx_addWithdrawal_def signTx_setFee_def
  signTx_setTtl_def signTx_setValidityIntervalStart_def signTx_setScriptDataHash_def
  signTx_addCollateralInput_def signTx_addRequiredSigner_def signTx_addTotalCollateral_def
  signTx_addReferenceInput_def signTx_awaitConfirm_def signTx_getWitness_def
  signTx_setAuxiliaryData_def signTx_setAuxiliaryData_before_v2_3_def assert_def
  signTx_addCertificate_def signTx_addTokenBundle_def signTx_setMint_def
  signTx_addCollateralOutput_def signTx_addOutput_def

lemmas run_simps = run_andThen run_ibind

lemma showNat_examples: "showNat 6 = ''6''" "showNat 0 = ''0''"
  by code_simp+

section \<open>The order of the checks of the request validator\<close>

lemma registration_case:
  "(case auxiliaryData t of
      None \<Rightarrow> False
    | Some a \<Rightarrow> (case a of ARBITRARY_HASH h \<Rightarrow> False | CIP36_REGISTRATION ps \<Rightarrow> f ps))
   = (case registrationParams t of Some ps \<Rightarrow> f ps | None \<Rightarrow> False)"
  by (simp split: option.splits ParsedTxAuxiliaryData.splits)

lemma find_Cons_if:
  "(case find P (x # xs) of Some ch \<Rightarrow> g ch | None \<Rightarrow> z)
   = (if P x then g x else (case find P xs of Some ch \<Rightarrow> g ch | None \<Rightarrow> z))"
  by simp

lemma validator_first_violation:
  "ensureRequestSupportedByAppVersion env version request
     = firstViolation sourceOrder env version request"
  unfolding ensureRequestSupportedByAppVersion_def firstViolation_def sourceOrder_def Let_def
    registration_case
  by (simp only: find_Cons_if find.simps(1) option.case violates.simps featureName.simps
        length_greater_0_conv)

lemma sourceOrder_complete: "ch \<in> set sourceOrder"
  by (cases ch) (simp_all add: sourceOrder_def)

lemma validator_passes_iff:
  "ensureRequestSupportedByAppVersion env version request = Inr ()
     \<longleftrightarrow> (\<forall>ch. \<not> violates (getCompatibility env version) request ch)"
proof -
  have "find (violates (getCompatibility env version) request) sourceOrder = None
        \<longleftrightarrow> (\<forall>ch. \<not> violates (getCompatibility env version) request ch)"
    by (auto simp: find_None_iff sourceOrder_complete)
  then show ?thesis
    by (auto simp: validator_first_violation firstViolation_def split: option.splits)
qed

lemma preflight_version:
  "ensureLedgerAppVersionCompatible env version = Inl e \<Longrightarrow>
     run (signTransaction env version request) d n = ([], Thrown e)"
  by (simp add: signTransaction_def)

lemma preflight_request:
  "ensureLedgerAppVersionCompatible env version = Inr () \<Longrightarrow>
   ensureRequestSupportedByAppVersion env version request = Inl e \<Longrightarrow>
     run (signTransaction env version request) d n = ([], Thrown e)"
  by (simp add: signTransaction_def)

text \<open>
  C6, as amended: the validator checks its conditions in the order of the source, which is
  the order of the specification but for the pool retirement certificates, checked after
  the stake credentials of the withdrawals and before those of the certificates. A request
  passes exactly when it violates no condition; otherwise the validator fails on the first
  violated condition of this order, with an error that names the feature and contains the
  version string, and \<^verbatim>\<open>signTransaction\<close> throws this error having yielded no message.
\<close>

theorem validator_checks_in_source_order:
  "ensureRequestSupportedByAppVersion env version request
     = firstViolation sourceOrder env version request
   \<and> (ensureRequestSupportedByAppVersion env version request = Inr ()
        \<longleftrightarrow> (\<forall>ch. \<not> violates (getCompatibility env version) request ch))
   \<and> (ensureLedgerAppVersionCompatible env version = Inr ()
        \<and> ensureRequestSupportedByAppVersion env version request = Inl e
        \<longrightarrow> run (signTransaction env version request) d n = ([], Thrown e))"
  using validator_first_violation validator_passes_iff preflight_request by blast

theorem validator_checks_in_source_order_witness:
  "ensureRequestSupportedByAppVersion (exampleImports noneSupported) exampleVersion
     retirementRequest
   = Inl (DeviceVersionUnsupported
            ''Pool retirement certificate not supported by Ledger app version 6.0.0.'')
   \<and> run (signTransaction (exampleImports noneSupported) exampleVersion retirementRequest)
        silentDevice 0
     = ([], Thrown (DeviceVersionUnsupported
            ''Pool retirement certificate not supported by Ledger app version 6.0.0.''))"
proof -
  have v: "ensureRequestSupportedByAppVersion (exampleImports noneSupported) exampleVersion
             retirementRequest
           = Inl (DeviceVersionUnsupported
                    ''Pool retirement certificate not supported by Ledger app version 6.0.0.'')"
    by (simp add: validator_defs example_defs showNat_examples)
  have c: "ensureLedgerAppVersionCompatible (exampleImports noneSupported) exampleVersion = Inr ()"
    by (simp add: example_defs)
  from validator_checks_in_source_order[of "exampleImports noneSupported" exampleVersion
      retirementRequest _ silentDevice 0] v c
  show ?thesis by simp
qed

theorem validator_specified_order_counterexample:
  "ensureRequestSupportedByAppVersion (exampleImports noneSupported) exampleVersion
     retirementRequest
   \<noteq> firstViolation specifiedOrder (exampleImports noneSupported) exampleVersion
       retirementRequest"
  by (simp add: validator_defs example_defs firstViolation_def specifiedOrder_def)

section \<open>The auxiliary data stage and the errors of a malformed request\<close>

lemma trace_Returned: "run p d n = (ms, Returned a) \<Longrightarrow> trace p d n = (ms, Completes)"
  by (simp add: trace_def)

lemma trace_Thrown: "run p d n = (ms, Thrown e) \<Longrightarrow> trace p d n = (ms, Throws e)"
  by (simp add: trace_def)

text \<open>What \<^verbatim>\<open>signTx_setAuxiliaryData\<close> yields for a voting registration, and how it ends.\<close>

lemma trace_setAuxiliaryData_registration:
  "trace (signTx_setAuxiliaryData env (CIP36_REGISTRATION params) version) d n =
     (if truthy (votePublicKey params) \<or> votePublicKeyPath params \<noteq> None then
       (case serializeCVoteRegistrationVoteKey_error env (votePublicKey params)
               (votePublicKeyPath params) version of
          Some e \<Rightarrow>
            (send STAGE_AUX_DATA UNUSED (serializeTxAuxiliaryData (CIP36_REGISTRATION params))
               (Some 0)
             # (if supportsCIP36 (getCompatibility env version)
                then [send STAGE_AUX_DATA 0x36 (serializeCVoteRegistrationInit params) (Some 0)]
                else []),
             Throws e)
        | None \<Rightarrow>
        (send STAGE_AUX_DATA UNUSED (serializeTxAuxiliaryData (CIP36_REGISTRATION params)) (Some 0)
         # (if supportsCIP36 (getCompatibility env version)
            then [send STAGE_AUX_DATA 0x36 (serializeCVoteRegistrationInit params) (Some 0)]
            else [])
         @ [send STAGE_AUX_DATA 0x30
              (serializeCVoteRegistrationVoteKey (votePublicKey params)
                 (votePublicKeyPath params) version) (Some 0),
            send STAGE_AUX_DATA 0x31
              (serializeCVoteRegistrationStakingPath (stakingPath params)) (Some 0),
            send STAGE_AUX_DATA 0x32
              (serializeCVoteRegistrationPaymentDestination (paymentDestination params) version)
              (Some 0),
            send STAGE_AUX_DATA 0x33 (serializeCVoteRegistrationNonce (nonce params)) (Some 0)]
         @ (if supportsCIP36 (getCompatibility env version)
            then [send STAGE_AUX_DATA 0x35
                    (serializeCVoteRegistrationVotingPurpose (votingPurpose params)) (Some 0)]
            else [])
         @ [send STAGE_AUX_DATA 0x34 (Buf []) (Some (AUXILIARY_DATA_HASH_LENGTH env + 64))],
         Completes))
      else
        (case delegations params of
           Some ds \<Rightarrow>
             (send STAGE_AUX_DATA UNUSED (serializeTxAuxiliaryData (CIP36_REGISTRATION params))
                (Some 0)
              # (if supportsCIP36 (getCompatibility env version)
                 then [send STAGE_AUX_DATA 0x36 (serializeCVoteRegistrationInit params) (Some 0)]
                 else [])
              @ map (\<lambda>delegation.
                       send STAGE_AUX_DATA 0x37 (serializeCVoteRegistrationDelegation delegation)
                         (Some 0)) ds
              @ [send STAGE_AUX_DATA 0x31
                   (serializeCVoteRegistrationStakingPath (stakingPath params)) (Some 0),
                 send STAGE_AUX_DATA 0x32
                   (serializeCVoteRegistrationPaymentDestination (paymentDestination params)
                      version) (Some 0),
                 send STAGE_AUX_DATA 0x33 (serializeCVoteRegistrationNonce (nonce params))
                   (Some 0)]
              @ (if supportsCIP36 (getCompatibility env version)
                 then [send STAGE_AUX_DATA 0x35
                         (serializeCVoteRegistrationVotingPurpose (votingPurpose params))
                         (Some 0)]
                 else [])
              @ [send STAGE_AUX_DATA 0x34 (Buf [])
                   (Some (AUXILIARY_DATA_HASH_LENGTH env + 64))],
              Completes)
         | None \<Rightarrow>
             (send STAGE_AUX_DATA UNUSED (serializeTxAuxiliaryData (CIP36_REGISTRATION params))
                (Some 0)
              # (if supportsCIP36 (getCompatibility env version)
                 then [send STAGE_AUX_DATA 0x36 (serializeCVoteRegistrationInit params) (Some 0)]
                 else []),
              Throws (Error ''wrong CIP36 registration params''))))"
  unfolding signTx_setAuxiliaryData_def assert_def trace_def
  by (simp add: run_andThen split: option.splits)

lemma run_signTransaction_init:
  assumes "ensureLedgerAppVersionCompatible env version = Inr ()"
    and "ensureRequestSupportedByAppVersion env version request = Inr ()"
  shows "\<exists>rest. messages (signTransaction env version request) d
                 = initMessage version request # rest"
  using assms
  by (simp add: messages_def signTransaction_def Let_def run_andThen signTx_init_def
        initMessage_def split: prod.splits outcome.splits)

lemma trace_signTransaction_aux_throws:
  assumes "ensureLedgerAppVersionCompatible env version = Inr ()"
    and "ensureRequestSupportedByAppVersion env version request = Inr ()"
    and "auxDataBeforeTxBody env version"
    and "auxiliaryData (tx request) = Some aux"
    and "trace (signTx_setAuxiliaryData env aux version) d 1 = (mA, Throws e)"
  shows "trace (signTransaction env version request) d 0
         = (initMessage version request # mA, Throws e)"
proof -
  from assms(5) have "run (signTx_setAuxiliaryData env aux version) d (Suc 0) = (mA, Thrown e)"
    by (cases "run (signTx_setAuxiliaryData env aux version) d (Suc 0)";
        cases "snd (run (signTx_setAuxiliaryData env aux version) d (Suc 0))")
       (auto simp: trace_def)
  with assms(1-4) show ?thesis
    unfolding auxDataBeforeTxBody_def trace_def
    by (simp add: signTransaction_def Let_def run_andThen run_ibind signTx_init_def
          initMessage_def)
qed

lemma trace_registration_with_neither:
  assumes "ensureLedgerAppVersionCompatible env version = Inr ()"
    and "ensureRequestSupportedByAppVersion env version request = Inr ()"
    and "auxDataBeforeTxBody env version"
    and "auxiliaryData (tx request) = Some (CIP36_REGISTRATION params)"
    and "\<not> truthy (votePublicKey params)" and "votePublicKeyPath params = None"
    and "delegations params = None"
  shows "trace (signTransaction env version request) d 0
         = (initMessage version request
            # send STAGE_AUX_DATA UNUSED (serializeTxAuxiliaryData (CIP36_REGISTRATION params))
                (Some 0)
            # (if supportsCIP36 (getCompatibility env version)
               then [send STAGE_AUX_DATA 0x36 (serializeCVoteRegistrationInit params) (Some 0)]
               else []),
            Throws (Error ''wrong CIP36 registration params''))"
  by (rule trace_signTransaction_aux_throws[OF assms(1-4)])
     (simp add: trace_setAuxiliaryData_registration assms(5-7))

text \<open>
  C5, as amended: the error of an incompatible version and the error of an unsupported
  feature are raised before the first message: \<^verbatim>\<open>signTransaction\<close> throws them having yielded
  nothing. Once both checks have passed, the INIT message is yielded first, so that an
  error of the ceremony itself comes after it; the error for a voting registration with
  neither a vote key nor a delegation list is raised in the auxiliary data stage, after the
  INIT message, the auxiliary data message and, where CIP36 is supported, the registration
  init message.
\<close>

theorem preflight_errors_before_first_message:
  "(ensureLedgerAppVersionCompatible env version = Inl e
      \<longrightarrow> run (signTransaction env version request) d n = ([], Thrown e))
   \<and> (ensureLedgerAppVersionCompatible env version = Inr ()
        \<and> ensureRequestSupportedByAppVersion env version request = Inl e
      \<longrightarrow> run (signTransaction env version request) d n = ([], Thrown e))
   \<and> (ensureLedgerAppVersionCompatible env version = Inr ()
        \<and> ensureRequestSupportedByAppVersion env version request = Inr ()
      \<longrightarrow> (\<exists>rest. messages (signTransaction env version request) d
                    = initMessage version request # rest))
   \<and> (ensureLedgerAppVersionCompatible env version = Inr ()
        \<and> ensureRequestSupportedByAppVersion env version request = Inr ()
        \<and> auxDataBeforeTxBody env version
        \<and> auxiliaryData (tx request) = Some (CIP36_REGISTRATION params)
        \<and> \<not> truthy (votePublicKey params) \<and> votePublicKeyPath params = None
        \<and> delegations params = None
      \<longrightarrow> trace (signTransaction env version request) d 0
          = (initMessage version request
             # send STAGE_AUX_DATA UNUSED
                 (serializeTxAuxiliaryData (CIP36_REGISTRATION params)) (Some 0)
             # (if supportsCIP36 (getCompatibility env version)
                then [send STAGE_AUX_DATA 0x36 (serializeCVoteRegistrationInit params) (Some 0)]
                else []),
             Throws (Error ''wrong CIP36 registration params'')))"
proof (intro conjI impI)
  assume "ensureLedgerAppVersionCompatible env version = Inl e"
  then show "run (signTransaction env version request) d n = ([], Thrown e)"
    by (rule preflight_version)
next
  assume "ensureLedgerAppVersionCompatible env version = Inr ()
          \<and> ensureRequestSupportedByAppVersion env version request = Inl e"
  then show "run (signTransaction env version request) d n = ([], Thrown e)"
    by (simp add: preflight_request)
next
  assume "ensureLedgerAppVersionCompatible env version = Inr ()
          \<and> ensureRequestSupportedByAppVersion env version request = Inr ()"
  then show "\<exists>rest. messages (signTransaction env version request) d
                      = initMessage version request # rest"
    by (simp add: run_signTransaction_init)
next
  assume "ensureLedgerAppVersionCompatible env version = Inr ()
        \<and> ensureRequestSupportedByAppVersion env version request = Inr ()
        \<and> auxDataBeforeTxBody env version
        \<and> auxiliaryData (tx request) = Some (CIP36_REGISTRATION params)
        \<and> \<not> truthy (votePublicKey params) \<and> votePublicKeyPath params = None
        \<and> delegations params = None"
  then show "trace (signTransaction env version request) d 0
          = (initMessage version request
             # send STAGE_AUX_DATA UNUSED
                 (serializeTxAuxiliaryData (CIP36_REGISTRATION params)) (Some 0)
             # (if supportsCIP36 (getCompatibility env version)
                then [send STAGE_AUX_DATA 0x36 (serializeCVoteRegistrationInit params) (Some 0)]
                else []),
             Throws (Error ''wrong CIP36 registration params''))"
    by (intro trace_registration_with_neither) simp_all
qed

lemma example_preflight:
  "ensureLedgerAppVersionCompatible (exampleImports c) version = Inr ()"
  "ensureRequestSupportedByAppVersion (exampleImports allSupported) version request = Inr ()"
proof -
  show "ensureLedgerAppVersionCompatible (exampleImports c) version = Inr ()"
    by (simp add: exampleImports_def)
  have "\<not> violates allSupported request ch" for ch
    by (cases ch) (simp_all add: allSupported_def)
  then show "ensureRequestSupportedByAppVersion (exampleImports allSupported) version request
             = Inr ()"
    by (simp add: validator_passes_iff exampleImports_def)
qed

theorem preflight_errors_before_first_message_witness:
  "ensureRequestSupportedByAppVersion (exampleImports noneSupported) exampleVersion
     retirementRequest
   = Inl (DeviceVersionUnsupported
            ''Pool retirement certificate not supported by Ledger app version 6.0.0.'')
   \<and> run (signTransaction (exampleImports noneSupported) exampleVersion retirementRequest)
        silentDevice 0
     = ([], Thrown (DeviceVersionUnsupported
            ''Pool retirement certificate not supported by Ledger app version 6.0.0.''))
   \<and> trace (signTransaction (exampleImports allSupported) exampleVersion registrationWithNeither)
        silentDevice 0
     = ([initMessage exampleVersion registrationWithNeither,
         send STAGE_AUX_DATA UNUSED
           (serializeTxAuxiliaryData (CIP36_REGISTRATION exampleRegistration)) (Some 0),
         send STAGE_AUX_DATA 0x36 (serializeCVoteRegistrationInit exampleRegistration) (Some 0)],
        Throws (Error ''wrong CIP36 registration params''))"
proof -
  have v: "ensureRequestSupportedByAppVersion (exampleImports noneSupported) exampleVersion
             retirementRequest
           = Inl (DeviceVersionUnsupported
                    ''Pool retirement certificate not supported by Ledger app version 6.0.0.'')"
    by (simp add: validator_defs example_defs showNat_examples)
  have before: "auxDataBeforeTxBody (exampleImports allSupported) exampleVersion"
    by (simp add: auxDataBeforeTxBody_def example_defs)
  have aux: "auxiliaryData (tx registrationWithNeither)
             = Some (CIP36_REGISTRATION exampleRegistration)"
    by (simp add: registrationWithNeither_def ordinaryRequest_def)
  have neither: "\<not> truthy (votePublicKey exampleRegistration)"
    "votePublicKeyPath exampleRegistration = None" "delegations exampleRegistration = None"
    by (simp_all add: exampleRegistration_def)
  have cip: "supportsCIP36 (getCompatibility (exampleImports allSupported) exampleVersion)"
    by (simp add: example_defs)
  from preflight_errors_before_first_message[of "exampleImports noneSupported" exampleVersion
      _ retirementRequest silentDevice 0] v example_preflight(1)
  have "run (signTransaction (exampleImports noneSupported) exampleVersion retirementRequest)
          silentDevice 0
        = ([], Thrown (DeviceVersionUnsupported
            ''Pool retirement certificate not supported by Ledger app version 6.0.0.''))"
    by simp
  moreover
  from preflight_errors_before_first_message[of "exampleImports allSupported" exampleVersion
      _ registrationWithNeither silentDevice _ exampleRegistration]
    example_preflight before aux neither cip
  have "trace (signTransaction (exampleImports allSupported) exampleVersion
                 registrationWithNeither) silentDevice 0
     = ([initMessage exampleVersion registrationWithNeither,
         send STAGE_AUX_DATA UNUSED
           (serializeTxAuxiliaryData (CIP36_REGISTRATION exampleRegistration)) (Some 0),
         send STAGE_AUX_DATA 0x36 (serializeCVoteRegistrationInit exampleRegistration) (Some 0)],
        Throws (Error ''wrong CIP36 registration params''))"
    by simp
  ultimately show ?thesis using v by simp
qed

theorem malformed_request_after_messages_counterexample:
  "endingOf (result (signTransaction (exampleImports allSupported) exampleVersion
                       registrationWithNeither) silentDevice)
     = Throws (Error ''wrong CIP36 registration params'')
   \<and> length (messages (signTransaction (exampleImports allSupported) exampleVersion
                         registrationWithNeither) silentDevice) = 3"
proof -
  have before: "auxDataBeforeTxBody (exampleImports allSupported) exampleVersion"
    by (simp add: auxDataBeforeTxBody_def example_defs)
  have aux: "auxiliaryData (tx registrationWithNeither)
             = Some (CIP36_REGISTRATION exampleRegistration)"
    by (simp add: registrationWithNeither_def ordinaryRequest_def)
  have neither: "\<not> truthy (votePublicKey exampleRegistration)"
    "votePublicKeyPath exampleRegistration = None" "delegations exampleRegistration = None"
    by (simp_all add: exampleRegistration_def)
  have cip: "supportsCIP36 (getCompatibility (exampleImports allSupported) exampleVersion)"
    by (simp add: example_defs)
  from trace_registration_with_neither[OF example_preflight before aux neither, of silentDevice]
    cip
  show ?thesis by (simp add: trace_def messages_def result_def)
qed

text \<open>
  C9: the claim holds of every message but two. The message of the validity interval start
  stage (and likewise that of the script data hash stage) is built without an expected
  response length, where every other message that is only acknowledged carries the length
  0. The ceremony of a transaction with a validity interval start:
\<close>

theorem validity_start_message_without_expected_length:
  "messages (signTransaction (exampleImports allSupported) exampleVersion validityStartRequest)
     silentDevice
   = [initMessage exampleVersion validityStartRequest,
      send STAGE_FEE UNUSED (serializeTxFee ''42'') (Some 0),
      send STAGE_VALIDITY_INTERVAL_START UNUSED (serializeTxValidityStart ''7'') None,
      confirmMessage (exampleImports allSupported)]"
  by (simp add: messages_def signTransaction_def validator_defs
        validityStartRequest_def ordinaryRequest_def emptyTransaction_def
        exampleImports_def allSupported_def exampleVersion_def
        silentDevice_def stage_defs run_simps gatherWitnessPaths_firstOccurrences
        elementPaths_def Let_def initMessage_def confirmMessage_def)

section \<open>The ceremony as a whole\<close>

lemma run_addOutput_independent:
  assumes "0 < MAX_CHUNK_SIZE env"
  shows "run (signTx_addOutput env output version) d n
         = (messages (signTx_addOutput env output version) d', Returned ())"
  using run_addOutput[OF assms, of "output" version]
  by (auto simp: messages_def)

lemma stage_of_witnessRequest [simp]: "p1 (witnessRequest env p) = STAGE_WITNESSES"
  by (simp add: witnessRequest_def send_def)

lemma stage_of_initMessage [simp]: "p1 (initMessage version request) = STAGE_INIT"
  by (simp add: initMessage_def send_def)

lemma stage_of_confirmMessage [simp]: "p1 (confirmMessage env) = STAGE_CONFIRM"
  by (simp add: confirmMessage_def send_def)

lemma stage_of_legacyMessage [simp]: "p1 (legacyAuxiliaryDataMessage h) = STAGE_AUX_DATA"
  by (simp add: legacyAuxiliaryDataMessage_def send_def)

lemma stageMessages_append [simp]:
  "stageMessages s (xs @ ys) = stageMessages s xs @ stageMessages s ys"
  by (simp add: stageMessages_def)

lemma stageMessages_Cons:
  "stageMessages s (m # ms) = (if p1 m = s then m # stageMessages s ms else stageMessages s ms)"
  by (simp add: stageMessages_def)

lemma stageMessages_other: "\<forall>m \<in> set ms. p1 m \<noteq> s \<Longrightarrow> stageMessages s ms = []"
  unfolding stageMessages_def by (rule filter_stage_other)

lemma stageMessages_same: "\<forall>m \<in> set ms. p1 m = s \<Longrightarrow> stageMessages s ms = ms"
  unfolding stageMessages_def by (rule filter_stage_same)

lemma completed_run:
  "result p d = Returned res \<Longrightarrow> run p d 0 = (messages p d, Returned res)"
  by (simp add: result_def messages_def prod_eq_iff)

lemma outputs_of_ceremony:
  assumes C: "0 < MAX_CHUNK_SIZE env"
    and res: "result (signTransaction env version request) d = Returned res"
  shows "stageMessages STAGE_OUTPUTS (messages (signTransaction env version request) d)
         = concat (map (\<lambda>output. messages (signTx_addOutput env output version) d)
                     (outputs (tx request)))"
proof -
  from completed_run[OF res] obtain mA mB mL mT nO where
    ms: "messages (signTransaction env version request) d
         = initMessage version request # mA @ mB @ mL @ mT
           @ confirmMessage env # map (witnessRequest env) (gatherWitnessPaths request)"
    and A: "\<forall>m \<in> set mA. p1 m = STAGE_AUX_DATA"
    and T: "\<forall>m \<in> set mT. p1 m \<in> tailStages"
    and L: "case auxiliaryData (tx request) of
       None \<Rightarrow> mL = []
     | Some aux \<Rightarrow>
         if auxDataBeforeTxBody env version then mL = []
         else (\<exists>hashHex. aux = ARBITRARY_HASH hashHex
                 \<and> mL = [legacyAuxiliaryDataMessage hashHex]
                 \<and> auxiliaryDataSupplement res = None)"
    and O: "run (forEach (outputs (tx request)) (\<lambda>output. signTx_addOutput env output version))
              d nO = (filter (\<lambda>m. p1 m = STAGE_OUTPUTS) mB, Returned ())"
    by (rule signTransaction_completed)
  have "run (forEach (outputs (tx request)) (\<lambda>output. signTx_addOutput env output version)) d nO
        = (concat (map (\<lambda>output. messages (signTx_addOutput env output version) d)
                     (outputs (tx request))), Returned ())"
    by (rule run_forEach) (rule run_addOutput_independent[OF C])
  with O have B: "stageMessages STAGE_OUTPUTS mB
                  = concat (map (\<lambda>output. messages (signTx_addOutput env output version) d)
                              (outputs (tx request)))"
    by (simp add: stageMessages_def)
  have A': "stageMessages STAGE_OUTPUTS mA = []" using A by (intro stageMessages_other) auto
  have T': "stageMessages STAGE_OUTPUTS mT = []"
    using T by (intro stageMessages_other) (auto simp: tailStages_def)
  have L': "stageMessages STAGE_OUTPUTS mL = []"
    using L by (intro stageMessages_other) (auto split: option.splits if_splits)
  have W: "stageMessages STAGE_OUTPUTS (map (witnessRequest env) (gatherWitnessPaths request)) = []"
    by (intro stageMessages_other) auto
  show ?thesis unfolding ms by (simp add: stageMessages_Cons A' B L' T' W)
qed

text \<open>
  C2: let \<open>hex\<close> be an inline datum or a non-empty reference script of an output, with an
  even number of hex characters, \<open>L\<close> its length in bytes and \<open>C > 0\<close> the maximum chunk size.
  Right after the initiating message \<^verbatim>\<open>signTx_addOutput\<close> yields the continuation messages of
  \<open>hex\<close>, one for each chunk, and no other message with the chunk sub-tag of its kind. They
  are \<open>\<lceil>(L - C) / C\<rceil>\<close> when \<open>L > C\<close> and none when \<open>L \<le> C\<close>. Each is an OUTPUTS message with
  the chunk sub-tag that expects a response of length 0, and its payload is the byte count
  of the chunk in four bytes, followed by the bytes of the chunk. The inline slice followed
  by the chunks is the payload, as hex characters and as bytes. The OUTPUTS messages of a
  ceremony that completes are those of \<^verbatim>\<open>signTx_addOutput\<close> for its outputs, in order.
\<close>

theorem chunked_payload_transfer:
  assumes C: "0 < MAX_CHUNK_SIZE env" and even: "even (length hex)"
    and payload:
      "(datum output = Some (Datum_INLINE hex) \<and> p = Output_DATUM_CHUNK
        \<and> initiating = send STAGE_OUTPUTS Output_DATUM
                          (serializeTxOutputDatum (Datum_INLINE hex) version) (Some 0))
       \<or> (referenceScriptHex output = Some hex \<and> hex \<noteq> [] \<and> p = Output_SCRIPT_CHUNK
           \<and> initiating = send STAGE_OUTPUTS Output_SCRIPT (serializeTxOutputRefScript hex)
                             (Some 0))"
  shows
    "(\<exists>before after.
        messages (signTx_addOutput env output version) d
          = before @ initiating # map (chunkMessage p) (continuationChunks env hex) @ after
        \<and> (\<forall>m \<in> set before \<union> set after. p2 m \<noteq> p))
     \<and> (MAX_CHUNK_SIZE env < length hex div 2 \<longrightarrow>
          int (length (continuationChunks env hex))
          = \<lceil>(real (length hex div 2) - real (MAX_CHUNK_SIZE env)) / real (MAX_CHUNK_SIZE env)\<rceil>)
     \<and> (length hex div 2 \<le> MAX_CHUNK_SIZE env \<longrightarrow> continuationChunks env hex = [])
     \<and> (\<forall>chunk \<in> set (continuationChunks env hex).
          chunk \<noteq> [] \<and> length (hex_to_buf chunk) \<le> MAX_CHUNK_SIZE env
          \<and> chunkMessage p chunk
              = send STAGE_OUTPUTS p
                  (Buf (uint32_to_buf (length (hex_to_buf chunk)) @ hex_to_buf chunk)) (Some 0)
          \<and> length (uint32_to_buf (length (hex_to_buf chunk))) = 4
          \<and> (MAX_CHUNK_SIZE env < 4294967296 \<longrightarrow>
               buf_to_uint32 (uint32_to_buf (length (hex_to_buf chunk)))
               = length (hex_to_buf chunk)))
     \<and> inlineSlice env hex @ concat (continuationChunks env hex) = hex
     \<and> hex_to_buf (inlineSlice env hex) @ concat (map hex_to_buf (continuationChunks env hex))
         = hex_to_buf hex
     \<and> (result (signTransaction env version request) d = Returned res \<longrightarrow>
          stageMessages STAGE_OUTPUTS (messages (signTransaction env version request) d)
          = concat (map (\<lambda>output. messages (signTx_addOutput env output version) d)
                      (outputs (tx request))))"
proof -
  from run_addOutput[OF C, of "output" version] obtain tb where
    tb: "\<forall>m \<in> set tb. p2 m = ASSET_GROUP \<or> p2 m = TOKEN"
    and run: "messages (signTx_addOutput env output version) d =
         send STAGE_OUTPUTS Output_BASIC_DATA (serializeTxOutputBasicParams output version) (Some 0)
          # tb
          @ (case datum output of
               None \<Rightarrow> []
             | Some dt \<Rightarrow>
                 send STAGE_OUTPUTS Output_DATUM (serializeTxOutputDatum dt version) (Some 0)
                 # (case dt of
                      Datum_INLINE datumHex \<Rightarrow>
                        map (chunkMessage Output_DATUM_CHUNK) (continuationChunks env datumHex)
                    | Datum_HASH h \<Rightarrow> []))
          @ (case referenceScriptHex output of
               None \<Rightarrow> []
             | Some scriptHex \<Rightarrow>
                 if scriptHex \<noteq> [] then
                   send STAGE_OUTPUTS Output_SCRIPT (serializeTxOutputRefScript scriptHex) (Some 0)
                   # map (chunkMessage Output_SCRIPT_CHUNK) (continuationChunks env scriptHex)
                 else [])
          @ [send STAGE_OUTPUTS Output_CONFIRM (Buf []) (Some 0)]"
    by (auto simp: messages_def)
  have place: "\<exists>before after.
        messages (signTx_addOutput env output version) d
          = before @ initiating # map (chunkMessage p) (continuationChunks env hex) @ after
        \<and> (\<forall>m \<in> set before \<union> set after. p2 m \<noteq> p)"
    using payload
  proof
    assume dt: "datum output = Some (Datum_INLINE hex) \<and> p = Output_DATUM_CHUNK
        \<and> initiating = send STAGE_OUTPUTS Output_DATUM
                          (serializeTxOutputDatum (Datum_INLINE hex) version) (Some 0)"
    let ?before = "send STAGE_OUTPUTS Output_BASIC_DATA
                     (serializeTxOutputBasicParams output version) (Some 0) # tb"
    let ?after = "(case referenceScriptHex output of
               None \<Rightarrow> []
             | Some scriptHex \<Rightarrow>
                 if scriptHex \<noteq> [] then
                   send STAGE_OUTPUTS Output_SCRIPT (serializeTxOutputRefScript scriptHex) (Some 0)
                   # map (chunkMessage Output_SCRIPT_CHUNK) (continuationChunks env scriptHex)
                 else [])
          @ [send STAGE_OUTPUTS Output_CONFIRM (Buf []) (Some 0)]"
    have "messages (signTx_addOutput env output version) d
          = ?before @ initiating # map (chunkMessage p) (continuationChunks env hex) @ ?after"
      using dt run by simp
    moreover have "\<forall>m \<in> set ?before \<union> set ?after. p2 m \<noteq> p"
      using dt tb by (auto simp: send_def chunkMessage_def split: option.splits if_splits)
    ultimately show ?thesis by blast
  next
    assume sc: "referenceScriptHex output = Some hex \<and> hex \<noteq> [] \<and> p = Output_SCRIPT_CHUNK
           \<and> initiating = send STAGE_OUTPUTS Output_SCRIPT (serializeTxOutputRefScript hex)
                             (Some 0)"
    let ?before = "send STAGE_OUTPUTS Output_BASIC_DATA
                     (serializeTxOutputBasicParams output version) (Some 0)
          # tb
          @ (case datum output of
               None \<Rightarrow> []
             | Some dt \<Rightarrow>
                 send STAGE_OUTPUTS Output_DATUM (serializeTxOutputDatum dt version) (Some 0)
                 # (case dt of
                      Datum_INLINE datumHex \<Rightarrow>
                        map (chunkMessage Output_DATUM_CHUNK) (continuationChunks env datumHex)
                    | Datum_HASH h \<Rightarrow> []))"
    let ?after = "[send STAGE_OUTPUTS Output_CONFIRM (Buf []) (Some 0)]"
    have "messages (signTx_addOutput env output version) d
          = ?before @ initiating # map (chunkMessage p) (continuationChunks env hex) @ ?after"
      using sc run by simp
    moreover have "\<forall>m \<in> set ?before \<union> set ?after. p2 m \<noteq> p"
      using sc tb
      by (auto simp: send_def chunkMessage_def split: option.splits ParsedDatum.splits)
    ultimately show ?thesis by blast
  qed
  have count: "MAX_CHUNK_SIZE env < length hex div 2 \<longrightarrow>
          int (length (continuationChunks env hex))
          = \<lceil>(real (length hex div 2) - real (MAX_CHUNK_SIZE env)) / real (MAX_CHUNK_SIZE env)\<rceil>"
    using continuationChunks_count[OF C even] by blast
  have none: "length hex div 2 \<le> MAX_CHUNK_SIZE env \<longrightarrow> continuationChunks env hex = []"
    using even by (auto intro!: continuationChunks_short)
  have each: "\<forall>chunk \<in> set (continuationChunks env hex).
          chunk \<noteq> [] \<and> length (hex_to_buf chunk) \<le> MAX_CHUNK_SIZE env
          \<and> chunkMessage p chunk
              = send STAGE_OUTPUTS p
                  (Buf (uint32_to_buf (length (hex_to_buf chunk)) @ hex_to_buf chunk)) (Some 0)
          \<and> length (uint32_to_buf (length (hex_to_buf chunk))) = 4
          \<and> (MAX_CHUNK_SIZE env < 4294967296 \<longrightarrow>
               buf_to_uint32 (uint32_to_buf (length (hex_to_buf chunk)))
               = length (hex_to_buf chunk))"
  proof
    fix chunk assume c: "chunk \<in> set (continuationChunks env hex)"
    from continuationChunks_chunk[OF C even c]
    have "chunk \<noteq> []" and "length chunk div 2 \<le> MAX_CHUNK_SIZE env" by simp_all
    then show "chunk \<noteq> [] \<and> length (hex_to_buf chunk) \<le> MAX_CHUNK_SIZE env
          \<and> chunkMessage p chunk
              = send STAGE_OUTPUTS p
                  (Buf (uint32_to_buf (length (hex_to_buf chunk)) @ hex_to_buf chunk)) (Some 0)
          \<and> length (uint32_to_buf (length (hex_to_buf chunk))) = 4
          \<and> (MAX_CHUNK_SIZE env < 4294967296 \<longrightarrow>
               buf_to_uint32 (uint32_to_buf (length (hex_to_buf chunk)))
               = length (hex_to_buf chunk))"
      by (simp add: length_hex_to_buf chunkMessage_def length_uint32_to_buf
            buf_to_uint32_inverse)
  qed
  show ?thesis
    using place count none each continuationChunks_concat[OF C, of hex]
      continuationChunks_bytes[OF C even] outputs_of_ceremony[OF C, of version request d res]
    by blast
qed

lemma example_chunks:
  "continuationChunks (exampleImports allSupported) ''0102030405'' = [''0304'', ''05'']"
  by (simp add: continuationChunks_def exampleImports_def chunksOf.simps)

lemma run_datum_ceremony:
  "run (signTransaction (exampleImports allSupported) exampleVersion
          (ordinaryRequest (emptyTransaction\<lparr>outputs := [datumOutput]\<rparr>))) silentDevice 0
   = ([initMessage exampleVersion (ordinaryRequest (emptyTransaction\<lparr>outputs := [datumOutput]\<rparr>)),
       send STAGE_OUTPUTS Output_BASIC_DATA
         (serializeTxOutputBasicParams datumOutput exampleVersion) (Some 0),
       send STAGE_OUTPUTS Output_DATUM
         (serializeTxOutputDatum (Datum_INLINE ''0102030405'') exampleVersion) (Some 0),
       chunkMessage Output_DATUM_CHUNK ''0304'',
       chunkMessage Output_DATUM_CHUNK ''05'',
       send STAGE_OUTPUTS Output_CONFIRM (Buf []) (Some 0),
       send STAGE_FEE UNUSED (serializeTxFee ''42'') (Some 0),
       confirmMessage (exampleImports allSupported)],
      Returned \<lparr>txHashHex = [], witnesses = [], auxiliaryDataSupplement = None\<rparr>)"
proof -
  have pos: "0 < MAX_CHUNK_SIZE (exampleImports allSupported)"
    by (simp add: exampleImports_def)
  have out: "run (signTx_addOutput (exampleImports allSupported) datumOutput exampleVersion)
               silentDevice n
             = ([send STAGE_OUTPUTS Output_BASIC_DATA
                   (serializeTxOutputBasicParams datumOutput exampleVersion) (Some 0),
                 send STAGE_OUTPUTS Output_DATUM
                   (serializeTxOutputDatum (Datum_INLINE ''0102030405'') exampleVersion) (Some 0),
                 chunkMessage Output_DATUM_CHUNK ''0304'',
                 chunkMessage Output_DATUM_CHUNK ''05'',
                 send STAGE_OUTPUTS Output_CONFIRM (Buf []) (Some 0)], Returned ())" for n
  proof -
    have guard: "MAX_CHUNK_SIZE (exampleImports allSupported) = 2"
      by (simp add: exampleImports_def)
    have fields: "datum datumOutput = Some (Datum_INLINE ''0102030405'')"
      "referenceScriptHex datumOutput = None" "tokenBundle datumOutput = []"
      by (simp_all add: datumOutput_def plainOutput_def)
    show ?thesis
      unfolding signTx_addOutput_def
      by (simp add: run_andThen run_sendChunks[OF pos] example_chunks signTx_addTokenBundle_def
            fields guard)
  qed
  have req: "tx (ordinaryRequest (emptyTransaction\<lparr>outputs := [datumOutput]\<rparr>))
             = emptyTransaction\<lparr>outputs := [datumOutput]\<rparr>"
    by (simp add: ordinaryRequest_def)
  show ?thesis
    unfolding signTransaction_def example_preflight Let_def req
    by (simp add: run_simps out emptyTransaction_def signTx_init_def signTx_setFee_def
          signTx_awaitConfirm_def initMessage_def confirmMessage_def req silentDevice_def
          gatherWitnessPaths_firstOccurrences elementPaths_def ordinaryRequest_def
          buf_to_hex_def)
qed

theorem chunked_payload_transfer_witness:
  "0 < MAX_CHUNK_SIZE (exampleImports allSupported)
   \<and> even (length ''0102030405'')
   \<and> datum datumOutput = Some (Datum_INLINE ''0102030405'')
   \<and> MAX_CHUNK_SIZE (exampleImports allSupported) < length ''0102030405'' div 2
   \<and> continuationChunks (exampleImports allSupported) ''0102030405'' = [''0304'', ''05'']
   \<and> int (length (continuationChunks (exampleImports allSupported) ''0102030405''))
       = \<lceil>(real (length ''0102030405'' div 2)
            - real (MAX_CHUNK_SIZE (exampleImports allSupported)))
           / real (MAX_CHUNK_SIZE (exampleImports allSupported))\<rceil>
   \<and> (\<exists>before after.
        messages (signTx_addOutput (exampleImports allSupported) datumOutput exampleVersion)
          silentDevice
          = before
            @ send STAGE_OUTPUTS Output_DATUM
                (serializeTxOutputDatum (Datum_INLINE ''0102030405'') exampleVersion) (Some 0)
            # map (chunkMessage Output_DATUM_CHUNK)
                (continuationChunks (exampleImports allSupported) ''0102030405'')
            @ after
        \<and> (\<forall>m \<in> set before \<union> set after. p2 m \<noteq> Output_DATUM_CHUNK))
   \<and> chunkMessage Output_DATUM_CHUNK ''05''
       = send STAGE_OUTPUTS Output_DATUM_CHUNK
           (Buf (uint32_to_buf (length (hex_to_buf ''05'')) @ hex_to_buf ''05'')) (Some 0)
   \<and> buf_to_uint32 (uint32_to_buf (length (hex_to_buf ''05''))) = length (hex_to_buf ''05'')
   \<and> hex_to_buf (inlineSlice (exampleImports allSupported) ''0102030405'')
       @ concat (map hex_to_buf (continuationChunks (exampleImports allSupported) ''0102030405''))
       = hex_to_buf ''0102030405''
   \<and> stageMessages STAGE_OUTPUTS
       (messages (signTransaction (exampleImports allSupported) exampleVersion
                    (ordinaryRequest (emptyTransaction\<lparr>outputs := [datumOutput]\<rparr>)))
          silentDevice)
       = concat (map (\<lambda>output. messages (signTx_addOutput (exampleImports allSupported) output
                                           exampleVersion) silentDevice)
                   (outputs (tx (ordinaryRequest (emptyTransaction\<lparr>outputs := [datumOutput]\<rparr>)))))"
proof -
  have pos: "0 < MAX_CHUNK_SIZE (exampleImports allSupported)"
    and small: "MAX_CHUNK_SIZE (exampleImports allSupported) < 4294967296"
    and long: "MAX_CHUNK_SIZE (exampleImports allSupported) < length ''0102030405'' div 2"
    by (simp_all add: exampleImports_def)
  have ev: "even (length ''0102030405'')" by simp
  have dt: "datum datumOutput = Some (Datum_INLINE ''0102030405'')"
    by (simp add: datumOutput_def plainOutput_def)
  have res: "result (signTransaction (exampleImports allSupported) exampleVersion
                       (ordinaryRequest (emptyTransaction\<lparr>outputs := [datumOutput]\<rparr>)))
               silentDevice
             = Returned \<lparr>txHashHex = [], witnesses = [], auxiliaryDataSupplement = None\<rparr>"
    by (simp add: result_def run_datum_ceremony)
  have mem: "''05'' \<in> set (continuationChunks (exampleImports allSupported) ''0102030405'')"
    by (simp add: example_chunks)
  from chunked_payload_transfer[OF pos ev, of datumOutput Output_DATUM_CHUNK
      "send STAGE_OUTPUTS Output_DATUM
         (serializeTxOutputDatum (Datum_INLINE ''0102030405'') exampleVersion) (Some 0)"
      exampleVersion silentDevice
      "ordinaryRequest (emptyTransaction\<lparr>outputs := [datumOutput]\<rparr>)"
      "\<lparr>txHashHex = [], witnesses = [], auxiliaryDataSupplement = None\<rparr>"]
    dt pos small long ev res mem example_chunks
  show ?thesis by blast
qed

section \<open>The order of the stages\<close>

lemma run_delegation_ceremony:
  assumes pre: "ensureLedgerAppVersionCompatible env version = Inr ()"
      "ensureRequestSupportedByAppVersion env version request = Inr ()"
    and shape: "inputs (tx request) = [input1, input2]" "outputs (tx request) = [out]"
      "tokenBundle out = []" "datum out = None" "\<not> truthy (referenceScriptHex out)"
      "certificates (tx request) = [STAKE_DELEGATION credential]"
      "withdrawals (tx request) = [withdrawal]"
    and absent: "ttl (tx request) = None" "auxiliaryData (tx request) = None"
      "mint (tx request) = None" "scriptDataHashHex (tx request) = None"
      "collateralInputs (tx request) = []" "collateralOutput (tx request) = None"
      "totalCollateral (tx request) = None" "requiredSigners (tx request) = []"
      "referenceInputs (tx request) = []" "validityIntervalStart (tx request) = None"
  shows "run (signTransaction env version request) d 0 =
     ([initMessage version request,
       send STAGE_INPUTS UNUSED (serializeTxInput input1) (Some 0),
       send STAGE_INPUTS UNUSED (serializeTxInput input2) (Some 0),
       send STAGE_OUTPUTS Output_BASIC_DATA (serializeTxOutputBasicParams out version) (Some 0),
       send STAGE_OUTPUTS Output_CONFIRM (Buf []) (Some 0),
       send STAGE_FEE UNUSED (serializeTxFee (fee (tx request))) (Some 0),
       send STAGE_CERTIFICATES UNUSED
         (serializeTxCertificate (STAKE_DELEGATION credential) version) (Some 0),
       send STAGE_WITHDRAWALS UNUSED (serializeTxWithdrawal withdrawal version) (Some 0),
       confirmMessage env]
      @ map (witnessRequest env) (gatherWitnessPaths request),
      Returned \<lparr>txHashHex = buf_to_hex (d 8),
                witnesses = map (\<lambda>(i, p). \<lparr>witnessPath = p,
                                   witnessSignatureHex = buf_to_hex (d (9 + i))\<rparr>)
                              (enumerate 0 (gatherWitnessPaths request)),
                auxiliaryDataSupplement = None\<rparr>)"
proof -
  have out: "run (signTx_addOutput env out version) d n
             = ([send STAGE_OUTPUTS Output_BASIC_DATA (serializeTxOutputBasicParams out version)
                   (Some 0),
                 send STAGE_OUTPUTS Output_CONFIRM (Buf []) (Some 0)], Returned ())" for n
    using shape(3-5) unfolding signTx_addOutput_def
    by (cases "referenceScriptHex out") (simp_all add: run_andThen signTx_addTokenBundle_def)
  show ?thesis
    unfolding signTransaction_def pre Let_def
    by (simp add: shape absent run_simps out run_getWitnesses signTx_init_def
          signTx_addInput_def signTx_setFee_def signTx_addCertificate_def
          signTx_addWithdrawal_def signTx_awaitConfirm_def initMessage_def confirmMessage_def)
       (auto simp: eval_nat_numeral)
qed

text \<open>
  C1, as amended: for a version and a request that pass both checks made before the
  ceremony, with a transaction of exactly 2 inputs, 1 output (no token bundle, no datum, no
  reference script), one stake delegation certificate, one withdrawal and no optional
  field, \<^verbatim>\<open>signTransaction\<close> completes and yields exactly: the INIT message, the 2 INPUTS
  messages, the basic data message and the confirm message of the output, the FEE message,
  the CERTIFICATES message, the WITHDRAWALS message, the CONFIRM message, then one WITNESSES
  message for each path of \<^verbatim>\<open>gatherWitnessPaths\<close>, in its order. These paths are the distinct
  paths of the inputs, the certificate and the withdrawal (none of them in multisig mode)
  followed by those of \<^verbatim>\<open>additionalWitnessPaths\<close>, each at its first occurrence.
\<close>

theorem stage_order_of_delegation_ceremony:
  assumes "ensureLedgerAppVersionCompatible env version = Inr ()"
      "ensureRequestSupportedByAppVersion env version request = Inr ()"
    and "inputs (tx request) = [input1, input2]" "outputs (tx request) = [out]"
      "tokenBundle out = []" "datum out = None" "\<not> truthy (referenceScriptHex out)"
      "certificates (tx request) = [STAKE_DELEGATION credential]"
      "withdrawals (tx request) = [withdrawal]"
    and "ttl (tx request) = None" "auxiliaryData (tx request) = None"
      "mint (tx request) = None" "scriptDataHashHex (tx request) = None"
      "collateralInputs (tx request) = []" "collateralOutput (tx request) = None"
      "totalCollateral (tx request) = None" "requiredSigners (tx request) = []"
      "referenceInputs (tx request) = []" "validityIntervalStart (tx request) = None"
  shows "messages (signTransaction env version request) d =
     [initMessage version request,
      send STAGE_INPUTS UNUSED (serializeTxInput input1) (Some 0),
      send STAGE_INPUTS UNUSED (serializeTxInput input2) (Some 0),
      send STAGE_OUTPUTS Output_BASIC_DATA (serializeTxOutputBasicParams out version) (Some 0),
      send STAGE_OUTPUTS Output_CONFIRM (Buf []) (Some 0),
      send STAGE_FEE UNUSED (serializeTxFee (fee (tx request))) (Some 0),
      send STAGE_CERTIFICATES UNUSED
        (serializeTxCertificate (STAKE_DELEGATION credential) version) (Some 0),
      send STAGE_WITHDRAWALS UNUSED (serializeTxWithdrawal withdrawal version) (Some 0),
      confirmMessage env]
     @ map (witnessRequest env) (gatherWitnessPaths request)
   \<and> endingOf (result (signTransaction env version request) d) = Completes
   \<and> gatherWitnessPaths request
       = firstOccurrences
           ((if signingMode request = MULTISIG_TRANSACTION then []
             else elementPaths (tx request))
            @ additionalWitnessPaths request)"
  using run_delegation_ceremony[OF assms, where d = d]
  by (simp add: messages_def result_def gatherWitnessPaths_firstOccurrences)

lemma delegation_example_shape:
  "inputs (tx delegationRequestWithExtraPath) = [\<lparr>path = Some [1]\<rparr>, \<lparr>path = Some [2]\<rparr>]"
  "outputs (tx delegationRequestWithExtraPath) = [plainOutput]"
  "tokenBundle plainOutput = []" "datum plainOutput = None"
  "\<not> truthy (referenceScriptHex plainOutput)"
  "certificates (tx delegationRequestWithExtraPath) = [STAKE_DELEGATION (KEY_PATH [3])]"
  "withdrawals (tx delegationRequestWithExtraPath) = [\<lparr>stakeCredential = KEY_PATH [3]\<rparr>]"
  "ttl (tx delegationRequestWithExtraPath) = None"
  "auxiliaryData (tx delegationRequestWithExtraPath) = None"
  "mint (tx delegationRequestWithExtraPath) = None"
  "scriptDataHashHex (tx delegationRequestWithExtraPath) = None"
  "collateralInputs (tx delegationRequestWithExtraPath) = []"
  "collateralOutput (tx delegationRequestWithExtraPath) = None"
  "totalCollateral (tx delegationRequestWithExtraPath) = None"
  "requiredSigners (tx delegationRequestWithExtraPath) = []"
  "referenceInputs (tx delegationRequestWithExtraPath) = []"
  "validityIntervalStart (tx delegationRequestWithExtraPath) = None"
  by (simp_all add: delegationRequestWithExtraPath_def delegationTransaction_def
        emptyTransaction_def plainOutput_def)

lemma delegation_example_paths:
  "gatherWitnessPaths delegationRequestWithExtraPath = [[1], [2], [3], [9]]"
  "firstOccurrences (elementPaths (tx delegationRequestWithExtraPath)) = [[1], [2], [3]]"
  by (simp_all add: gatherWitnessPaths_firstOccurrences elementPaths_def
        delegationRequestWithExtraPath_def delegationTransaction_def emptyTransaction_def)

theorem stage_order_of_delegation_ceremony_witness:
  "messages (signTransaction (exampleImports allSupported) exampleVersion
               delegationRequestWithExtraPath) silentDevice =
     [initMessage exampleVersion delegationRequestWithExtraPath,
      send STAGE_INPUTS UNUSED (serializeTxInput \<lparr>path = Some [1]\<rparr>) (Some 0),
      send STAGE_INPUTS UNUSED (serializeTxInput \<lparr>path = Some [2]\<rparr>) (Some 0),
      send STAGE_OUTPUTS Output_BASIC_DATA
        (serializeTxOutputBasicParams plainOutput exampleVersion) (Some 0),
      send STAGE_OUTPUTS Output_CONFIRM (Buf []) (Some 0),
      send STAGE_FEE UNUSED (serializeTxFee (fee (tx delegationRequestWithExtraPath))) (Some 0),
      send STAGE_CERTIFICATES UNUSED
        (serializeTxCertificate (STAKE_DELEGATION (KEY_PATH [3])) exampleVersion) (Some 0),
      send STAGE_WITHDRAWALS UNUSED
        (serializeTxWithdrawal \<lparr>stakeCredential = KEY_PATH [3]\<rparr> exampleVersion) (Some 0),
      confirmMessage (exampleImports allSupported),
      witnessRequest (exampleImports allSupported) [1],
      witnessRequest (exampleImports allSupported) [2],
      witnessRequest (exampleImports allSupported) [3],
      witnessRequest (exampleImports allSupported) [9]]
   \<and> endingOf (result (signTransaction (exampleImports allSupported) exampleVersion
                         delegationRequestWithExtraPath) silentDevice) = Completes"
  using stage_order_of_delegation_ceremony[OF example_preflight delegation_example_shape,
      where d = silentDevice]
  by (simp add: delegation_example_paths)

theorem stage_order_extra_witness_counterexample:
  "stageMessages STAGE_WITNESSES
     (messages (signTransaction (exampleImports allSupported) exampleVersion
                  delegationRequestWithExtraPath) silentDevice)
   = [witnessRequest (exampleImports allSupported) [1],
      witnessRequest (exampleImports allSupported) [2],
      witnessRequest (exampleImports allSupported) [3],
      witnessRequest (exampleImports allSupported) [9]]
   \<and> firstOccurrences (elementPaths (tx delegationRequestWithExtraPath)) = [[1], [2], [3]]"
proof -
  have "run (signTransaction (exampleImports allSupported) exampleVersion
               delegationRequestWithExtraPath) silentDevice 0
        = ([initMessage exampleVersion delegationRequestWithExtraPath,
       send STAGE_INPUTS UNUSED (serializeTxInput \<lparr>path = Some [1]\<rparr>) (Some 0),
       send STAGE_INPUTS UNUSED (serializeTxInput \<lparr>path = Some [2]\<rparr>) (Some 0),
       send STAGE_OUTPUTS Output_BASIC_DATA
         (serializeTxOutputBasicParams plainOutput exampleVersion) (Some 0),
       send STAGE_OUTPUTS Output_CONFIRM (Buf []) (Some 0),
       send STAGE_FEE UNUSED (serializeTxFee (fee (tx delegationRequestWithExtraPath))) (Some 0),
       send STAGE_CERTIFICATES UNUSED
         (serializeTxCertificate (STAKE_DELEGATION (KEY_PATH [3])) exampleVersion) (Some 0),
       send STAGE_WITHDRAWALS UNUSED
         (serializeTxWithdrawal \<lparr>stakeCredential = KEY_PATH [3]\<rparr> exampleVersion) (Some 0),
       confirmMessage (exampleImports allSupported)]
      @ map (witnessRequest (exampleImports allSupported))
          (gatherWitnessPaths delegationRequestWithExtraPath),
      Returned \<lparr>txHashHex = buf_to_hex (silentDevice 8),
                witnesses = map (\<lambda>(i, p). \<lparr>witnessPath = p,
                                   witnessSignatureHex = buf_to_hex (silentDevice (9 + i))\<rparr>)
                              (enumerate 0 (gatherWitnessPaths delegationRequestWithExtraPath)),
                auxiliaryDataSupplement = None\<rparr>)"
    by (rule run_delegation_ceremony[OF example_preflight delegation_example_shape])
  then show ?thesis
    by (simp add: messages_def delegation_example_paths stageMessages_def send_def
          confirmMessage_def initMessage_def witnessRequest_def)
qed

text \<open>
  C4: \<^verbatim>\<open>uniquify\<close> is the deduplication that keeps of each path its first occurrence, so
  that the list of \<^verbatim>\<open>gatherWitnessPaths\<close> has each distinct path of the collected paths
  followed by \<^verbatim>\<open>additionalWitnessPaths\<close> exactly once, in the order of first occurrence
  (one path stands before another in the result exactly when its first occurrence does in
  the input); collecting again changes nothing. A ceremony that completes ends with one WITNESSES
  message for each entry of this list, in this order, has no other WITNESSES message, and
  returns the witnesses of these paths in the same order.
\<close>

theorem witness_paths_first_occurrence_order:
  "uniquify ps = firstOccurrences ps
   \<and> distinct (uniquify ps) \<and> set (uniquify ps) = set ps
   \<and> (\<forall>p \<in> set ps. \<forall>q \<in> set ps.
         firstIndex p (uniquify ps) < firstIndex q (uniquify ps)
           \<longleftrightarrow> firstIndex p ps < firstIndex q ps)
   \<and> uniquify (uniquify ps) = uniquify ps
   \<and> gatherWitnessPaths request
       = firstOccurrences
           ((if signingMode request = MULTISIG_TRANSACTION then []
             else elementPaths (tx request))
            @ additionalWitnessPaths request)
   \<and> (result (signTransaction env version request) d = Returned res \<longrightarrow>
        (\<exists>body. messages (signTransaction env version request) d
                  = body @ map (witnessRequest env) (gatherWitnessPaths request)
               \<and> (\<forall>m \<in> set body. p1 m \<noteq> STAGE_WITNESSES))
        \<and> map witnessPath (witnesses res) = gatherWitnessPaths request)"
proof -
  have "(\<exists>body. messages (signTransaction env version request) d
                  = body @ map (witnessRequest env) (gatherWitnessPaths request)
               \<and> (\<forall>m \<in> set body. p1 m \<noteq> STAGE_WITNESSES))
        \<and> map witnessPath (witnesses res) = gatherWitnessPaths request"
    if res: "result (signTransaction env version request) d = Returned res"
  proof -
    from completed_run[OF res] obtain mA mB mL mT where
      ms: "messages (signTransaction env version request) d
           = initMessage version request # mA @ mB @ mL @ mT
             @ confirmMessage env # map (witnessRequest env) (gatherWitnessPaths request)"
      and A: "\<forall>m \<in> set mA. p1 m = STAGE_AUX_DATA"
      and B: "\<forall>m \<in> set mB. p1 m \<in> bodyStages"
      and T: "\<forall>m \<in> set mT. p1 m \<in> tailStages"
      and L: "case auxiliaryData (tx request) of
         None \<Rightarrow> mL = []
       | Some aux \<Rightarrow>
           if auxDataBeforeTxBody env version then mL = []
           else (\<exists>hashHex. aux = ARBITRARY_HASH hashHex
                   \<and> mL = [legacyAuxiliaryDataMessage hashHex]
                   \<and> auxiliaryDataSupplement res = None)"
      and W: "map witnessPath (witnesses res) = gatherWitnessPaths request"
      by (rule signTransaction_completed)
    let ?body = "initMessage version request # mA @ mB @ mL @ mT @ [confirmMessage env]"
    have L': "\<forall>m \<in> set mL. p1 m = STAGE_AUX_DATA"
      using L by (auto split: option.splits if_splits)
    have "\<forall>m \<in> set ?body. p1 m \<noteq> STAGE_WITNESSES"
      using A B T L' by (auto simp: bodyStages_def tailStages_def)
    moreover have "messages (signTransaction env version request) d
                   = ?body @ map (witnessRequest env) (gatherWitnessPaths request)"
      by (simp add: ms)
    ultimately show ?thesis using W by blast
  qed
  moreover have "\<forall>p \<in> set ps. \<forall>q \<in> set ps.
         firstIndex p (uniquify ps) < firstIndex q (uniquify ps)
           \<longleftrightarrow> firstIndex p ps < firstIndex q ps"
    unfolding uniquify_firstOccurrences by (intro ballI firstOccurrences_order)
  ultimately show ?thesis
    by (simp add: uniquify_firstOccurrences firstOccurrences_idem
          gatherWitnessPaths_firstOccurrences)
qed

theorem witness_paths_first_occurrence_order_witness:
  "result (signTransaction (exampleImports allSupported) exampleVersion
             delegationRequestWithExtraPath) silentDevice
   = Returned \<lparr>txHashHex = [],
               witnesses = [\<lparr>witnessPath = [1], witnessSignatureHex = []\<rparr>,
                            \<lparr>witnessPath = [2], witnessSignatureHex = []\<rparr>,
                            \<lparr>witnessPath = [3], witnessSignatureHex = []\<rparr>,
                            \<lparr>witnessPath = [9], witnessSignatureHex = []\<rparr>],
               auxiliaryDataSupplement = None\<rparr>
   \<and> elementPaths (tx delegationRequestWithExtraPath)
         @ additionalWitnessPaths delegationRequestWithExtraPath
       = [[1], [2], [3], [3], [9]]
   \<and> uniquify [[1], [2], [3], [3], [9]] = [[1], [2], [3], [9]]
   \<and> firstIndex [3] ([[1], [2], [3], [3], [9]] :: ValidBIP32Path list)
       < firstIndex [9] ([[1], [2], [3], [3], [9]] :: ValidBIP32Path list)
   \<and> firstIndex [3] (uniquify [[1], [2], [3], [3], [9]])
       < firstIndex [9] (uniquify [[1], [2], [3], [3], [9]])
   \<and> gatherWitnessPaths delegationRequestWithExtraPath = [[1], [2], [3], [9]]
   \<and> (\<exists>body. messages (signTransaction (exampleImports allSupported) exampleVersion
                          delegationRequestWithExtraPath) silentDevice
               = body @ map (witnessRequest (exampleImports allSupported))
                          (gatherWitnessPaths delegationRequestWithExtraPath)
            \<and> (\<forall>m \<in> set body. p1 m \<noteq> STAGE_WITNESSES))"
proof -
  let ?ps = "[[1], [2], [3], [3], [9]] :: ValidBIP32Path list"
  have collected: "elementPaths (tx delegationRequestWithExtraPath)
         @ additionalWitnessPaths delegationRequestWithExtraPath = ?ps"
    by (simp add: elementPaths_def delegationRequestWithExtraPath_def delegationTransaction_def
          emptyTransaction_def)
  have input_order: "firstIndex [3] ?ps < firstIndex [9] ?ps"
    by (simp add: firstIndex_def)
  have res: "result (signTransaction (exampleImports allSupported) exampleVersion
             delegationRequestWithExtraPath) silentDevice
   = Returned \<lparr>txHashHex = [],
               witnesses = [\<lparr>witnessPath = [1], witnessSignatureHex = []\<rparr>,
                            \<lparr>witnessPath = [2], witnessSignatureHex = []\<rparr>,
                            \<lparr>witnessPath = [3], witnessSignatureHex = []\<rparr>,
                            \<lparr>witnessPath = [9], witnessSignatureHex = []\<rparr>],
               auxiliaryDataSupplement = None\<rparr>"
    using run_delegation_ceremony[OF example_preflight delegation_example_shape,
      where d = silentDevice]
    by (simp add: result_def delegation_example_paths silentDevice_def buf_to_hex_def
          enumerate_eq_zip)
  note general = witness_paths_first_occurrence_order[where ps = ?ps
      and request = delegationRequestWithExtraPath and env = "exampleImports allSupported"
      and version = exampleVersion and d = silentDevice
      and res = "\<lparr>txHashHex = [],
               witnesses = [\<lparr>witnessPath = [1], witnessSignatureHex = []\<rparr>,
                            \<lparr>witnessPath = [2], witnessSignatureHex = []\<rparr>,
                            \<lparr>witnessPath = [3], witnessSignatureHex = []\<rparr>,
                            \<lparr>witnessPath = [9], witnessSignatureHex = []\<rparr>],
               auxiliaryDataSupplement = None\<rparr>"]
  from general res
  have ceremony: "\<exists>body. messages (signTransaction (exampleImports allSupported) exampleVersion
                          delegationRequestWithExtraPath) silentDevice
               = body @ map (witnessRequest (exampleImports allSupported))
                          (gatherWitnessPaths delegationRequestWithExtraPath)
            \<and> (\<forall>m \<in> set body. p1 m \<noteq> STAGE_WITNESSES)"
    by blast
  from general have "uniquify ?ps = firstOccurrences ?ps" by (rule conjunct1)
  then have dedup: "uniquify ?ps = [[1], [2], [3], [9]]" by simp
  from general
  have "\<forall>p \<in> set ?ps. \<forall>q \<in> set ?ps.
         firstIndex p (uniquify ?ps) < firstIndex q (uniquify ?ps)
           \<longleftrightarrow> firstIndex p ?ps < firstIndex q ?ps"
    by (rule conjunct1[OF conjunct2[OF conjunct2[OF conjunct2]]])
  moreover have "[3] \<in> set ?ps" "[9] \<in> set ?ps" by simp_all
  ultimately have "firstIndex [3] (uniquify ?ps) < firstIndex [9] (uniquify ?ps)
             \<longleftrightarrow> firstIndex [3] ?ps < firstIndex [9] ?ps"
    by blast
  with input_order
  have output_order: "firstIndex [3] (uniquify ?ps) < firstIndex [9] (uniquify ?ps)"
    by (simp only:)
  from res collected dedup input_order output_order delegation_example_paths(1) ceremony
  show ?thesis by (intro conjI)
qed

section \<open>The place of the auxiliary data stage\<close>

lemma stageMessages_Nil [simp]: "stageMessages s [] = []"
  by (simp add: stageMessages_def)

text \<open>
  C8: in a ceremony that completes, a transaction with auxiliary data has its AUX_DATA
  messages in one place. When the version places auxiliary data before the transaction
  body (Catalyst registration or CIP36 supported), they follow the INIT message
  immediately, and all messages after them belong to later stages. Otherwise the auxiliary
  data is an arbitrary hash, sent in the legacy layout as one message that carries the
  hash, after the messages of the stages from INPUTS to WITHDRAWALS and before those of the
  stages from VALIDITY_INTERVAL_START on, and the auxiliary data supplement of the result
  is null. With no auxiliary data there is no AUX_DATA message.
\<close>

theorem auxiliary_data_stage_placement:
  "STAGE_AUX_DATA \<notin> bodyStages \<union> tailStages \<union> {STAGE_CONFIRM, STAGE_WITNESSES}
   \<and> p1 (initMessage version request) = STAGE_INIT
   \<and> (result (signTransaction env version request) d = Returned res \<longrightarrow>
        (case auxiliaryData (tx request) of
           None \<Rightarrow>
             stageMessages STAGE_AUX_DATA (messages (signTransaction env version request) d) = []
         | Some aux \<Rightarrow>
             if auxDataBeforeTxBody env version then
               (\<exists>auxMessages rest.
                  messages (signTransaction env version request) d
                    = initMessage version request # auxMessages @ rest
                  \<and> auxMessages \<noteq> []
                  \<and> (\<forall>m \<in> set auxMessages. p1 m = STAGE_AUX_DATA)
                  \<and> (\<forall>m \<in> set rest.
                        p1 m \<in> bodyStages \<union> tailStages \<union> {STAGE_CONFIRM, STAGE_WITNESSES}))
             else
               (\<exists>hashHex body rest.
                  aux = ARBITRARY_HASH hashHex
                  \<and> messages (signTransaction env version request) d
                      = initMessage version request # body
                        @ legacyAuxiliaryDataMessage hashHex # rest
                  \<and> (\<forall>m \<in> set body. p1 m \<in> bodyStages)
                  \<and> (\<forall>m \<in> set rest. p1 m \<in> tailStages \<union> {STAGE_CONFIRM, STAGE_WITNESSES})
                  \<and> auxiliaryDataSupplement res = None)))"
proof (intro conjI impI)
  show "STAGE_AUX_DATA \<notin> bodyStages \<union> tailStages \<union> {STAGE_CONFIRM, STAGE_WITNESSES}"
    by (simp add: bodyStages_def tailStages_def)
  show "p1 (initMessage version request) = STAGE_INIT" by simp
next
  assume res: "result (signTransaction env version request) d = Returned res"
  from completed_run[OF res] obtain mA mB mL mT where
    ms: "messages (signTransaction env version request) d
         = initMessage version request # mA @ mB @ mL @ mT
           @ confirmMessage env # map (witnessRequest env) (gatherWitnessPaths request)"
    and A: "\<forall>m \<in> set mA. p1 m = STAGE_AUX_DATA"
    and B: "\<forall>m \<in> set mB. p1 m \<in> bodyStages"
    and T: "\<forall>m \<in> set mT. p1 m \<in> tailStages"
    and neA: "mA \<noteq> [] \<longleftrightarrow> auxiliaryData (tx request) \<noteq> None \<and> auxDataBeforeTxBody env version"
    and L: "case auxiliaryData (tx request) of
       None \<Rightarrow> mL = []
     | Some aux \<Rightarrow>
         if auxDataBeforeTxBody env version then mL = []
         else (\<exists>hashHex. aux = ARBITRARY_HASH hashHex
                 \<and> mL = [legacyAuxiliaryDataMessage hashHex]
                 \<and> auxiliaryDataSupplement res = None)"
    by (rule signTransaction_completed)
  let ?end = "confirmMessage env # map (witnessRequest env) (gatherWitnessPaths request)"
  have E: "\<forall>m \<in> set ?end. p1 m \<in> {STAGE_CONFIRM, STAGE_WITNESSES}" by auto
  show "case auxiliaryData (tx request) of
           None \<Rightarrow>
             stageMessages STAGE_AUX_DATA (messages (signTransaction env version request) d) = []
         | Some aux \<Rightarrow>
             if auxDataBeforeTxBody env version then
               (\<exists>auxMessages rest.
                  messages (signTransaction env version request) d
                    = initMessage version request # auxMessages @ rest
                  \<and> auxMessages \<noteq> []
                  \<and> (\<forall>m \<in> set auxMessages. p1 m = STAGE_AUX_DATA)
                  \<and> (\<forall>m \<in> set rest.
                        p1 m \<in> bodyStages \<union> tailStages \<union> {STAGE_CONFIRM, STAGE_WITNESSES}))
             else
               (\<exists>hashHex body rest.
                  aux = ARBITRARY_HASH hashHex
                  \<and> messages (signTransaction env version request) d
                      = initMessage version request # body
                        @ legacyAuxiliaryDataMessage hashHex # rest
                  \<and> (\<forall>m \<in> set body. p1 m \<in> bodyStages)
                  \<and> (\<forall>m \<in> set rest. p1 m \<in> tailStages \<union> {STAGE_CONFIRM, STAGE_WITNESSES})
                  \<and> auxiliaryDataSupplement res = None)"
  proof (cases "auxiliaryData (tx request)")
    case None
    with neA L have "mA = []" "mL = []" by auto
    moreover have "stageMessages STAGE_AUX_DATA mB = []"
      using B by (intro stageMessages_other) (auto simp: bodyStages_def)
    moreover have "stageMessages STAGE_AUX_DATA mT = []"
      using T by (intro stageMessages_other) (auto simp: tailStages_def)
    moreover have "stageMessages STAGE_AUX_DATA ?end = []"
      by (intro stageMessages_other) auto
    ultimately show ?thesis using None by (simp add: ms stageMessages_Cons)
  next
    case (Some aux)
    show ?thesis
    proof (cases "auxDataBeforeTxBody env version")
      case True
      with Some neA L have ne: "mA \<noteq> []" and mL: "mL = []" by auto
      have rest: "\<forall>m \<in> set (mB @ mT @ ?end).
                        p1 m \<in> bodyStages \<union> tailStages \<union> {STAGE_CONFIRM, STAGE_WITNESSES}"
        using B T E by (simp add: ball_Un)
      have eq: "messages (signTransaction env version request) d
            = initMessage version request # mA @ (mB @ mT @ ?end)"
        by (simp only: ms mL append_Nil)
      have "\<exists>auxMessages rest.
                  messages (signTransaction env version request) d
                    = initMessage version request # auxMessages @ rest
                  \<and> auxMessages \<noteq> []
                  \<and> (\<forall>m \<in> set auxMessages. p1 m = STAGE_AUX_DATA)
                  \<and> (\<forall>m \<in> set rest.
                        p1 m \<in> bodyStages \<union> tailStages \<union> {STAGE_CONFIRM, STAGE_WITNESSES})"
        using eq ne A rest by (intro exI conjI)
      then show ?thesis by (simp only: Some option.case True if_True)
    next
      case False
      with Some neA L obtain hashHex where mA: "mA = []" and aux: "aux = ARBITRARY_HASH hashHex"
        and mL: "mL = [legacyAuxiliaryDataMessage hashHex]"
        and supp: "auxiliaryDataSupplement res = None"
        by auto
      have rest: "\<forall>m \<in> set (mT @ ?end). p1 m \<in> tailStages \<union> {STAGE_CONFIRM, STAGE_WITNESSES}"
        using T E by (simp add: ball_Un)
      have eq: "messages (signTransaction env version request) d
            = initMessage version request # mB @ legacyAuxiliaryDataMessage hashHex # (mT @ ?end)"
        by (simp only: ms mA mL append_Nil append_Cons)
      have "\<exists>hashHex body rest.
                  aux = ARBITRARY_HASH hashHex
                  \<and> messages (signTransaction env version request) d
                      = initMessage version request # body
                        @ legacyAuxiliaryDataMessage hashHex # rest
                  \<and> (\<forall>m \<in> set body. p1 m \<in> bodyStages)
                  \<and> (\<forall>m \<in> set rest. p1 m \<in> tailStages \<union> {STAGE_CONFIRM, STAGE_WITNESSES})
                  \<and> auxiliaryDataSupplement res = None"
        using aux eq B rest supp by (intro exI conjI)
      then show ?thesis by (simp only: Some option.case False if_False)
    qed
  qed
qed

lemma run_hash_ceremony_before:
  "run (signTransaction (exampleImports allSupported) exampleVersion hashRequest) silentDevice 0
   = ([initMessage exampleVersion hashRequest,
       send STAGE_AUX_DATA UNUSED (serializeTxAuxiliaryData (ARBITRARY_HASH ''abcd'')) (Some 0),
       send STAGE_FEE UNUSED (serializeTxFee ''42'') (Some 0),
       confirmMessage (exampleImports allSupported)],
      Returned \<lparr>txHashHex = [], witnesses = [], auxiliaryDataSupplement = None\<rparr>)"
  by (simp add: signTransaction_def validator_defs hashRequest_def ordinaryRequest_def
        emptyTransaction_def exampleImports_def allSupported_def exampleVersion_def
        silentDevice_def stage_defs run_simps gatherWitnessPaths_firstOccurrences
        elementPaths_def Let_def initMessage_def confirmMessage_def buf_to_hex_def)

lemma run_hash_ceremony_legacy:
  "run (signTransaction (exampleImports noneSupported) exampleVersion hashRequest) silentDevice 0
   = ([initMessage exampleVersion hashRequest,
       send STAGE_FEE UNUSED (serializeTxFee ''42'') (Some 0),
       legacyAuxiliaryDataMessage ''abcd'',
       confirmMessage (exampleImports noneSupported)],
      Returned \<lparr>txHashHex = [], witnesses = [], auxiliaryDataSupplement = None\<rparr>)"
  by (simp add: signTransaction_def validator_defs hashRequest_def ordinaryRequest_def
        emptyTransaction_def exampleImports_def noneSupported_def exampleVersion_def
        silentDevice_def stage_defs run_simps gatherWitnessPaths_firstOccurrences
        elementPaths_def Let_def initMessage_def confirmMessage_def buf_to_hex_def
        legacyAuxiliaryDataMessage_def)

theorem auxiliary_data_stage_placement_witness:
  "result (signTransaction (exampleImports allSupported) exampleVersion hashRequest) silentDevice
   = Returned \<lparr>txHashHex = [], witnesses = [], auxiliaryDataSupplement = None\<rparr>
   \<and> auxiliaryData (tx hashRequest) = Some (ARBITRARY_HASH ''abcd'')
   \<and> auxDataBeforeTxBody (exampleImports allSupported) exampleVersion
   \<and> (\<exists>auxMessages rest.
        messages (signTransaction (exampleImports allSupported) exampleVersion hashRequest)
          silentDevice
          = initMessage exampleVersion hashRequest # auxMessages @ rest
        \<and> auxMessages \<noteq> []
        \<and> (\<forall>m \<in> set auxMessages. p1 m = STAGE_AUX_DATA)
        \<and> (\<forall>m \<in> set rest.
              p1 m \<in> bodyStages \<union> tailStages \<union> {STAGE_CONFIRM, STAGE_WITNESSES}))
   \<and> result (signTransaction (exampleImports noneSupported) exampleVersion hashRequest)
       silentDevice
     = Returned \<lparr>txHashHex = [], witnesses = [], auxiliaryDataSupplement = None\<rparr>
   \<and> \<not> auxDataBeforeTxBody (exampleImports noneSupported) exampleVersion
   \<and> (\<exists>body rest.
        messages (signTransaction (exampleImports noneSupported) exampleVersion hashRequest)
          silentDevice
          = initMessage exampleVersion hashRequest # body
            @ legacyAuxiliaryDataMessage ''abcd'' # rest
        \<and> (\<forall>m \<in> set body. p1 m \<in> bodyStages)
        \<and> (\<forall>m \<in> set rest. p1 m \<in> tailStages \<union> {STAGE_CONFIRM, STAGE_WITNESSES}))"
proof -
  let ?res = "\<lparr>txHashHex = [], witnesses = [], auxiliaryDataSupplement = None\<rparr>"
  have r1: "result (signTransaction (exampleImports allSupported) exampleVersion hashRequest)
              silentDevice = Returned ?res"
    by (simp add: result_def run_hash_ceremony_before)
  have r2: "result (signTransaction (exampleImports noneSupported) exampleVersion hashRequest)
              silentDevice = Returned ?res"
    by (simp add: result_def run_hash_ceremony_legacy)
  have aux: "auxiliaryData (tx hashRequest) = Some (ARBITRARY_HASH ''abcd'')"
    by (simp add: hashRequest_def ordinaryRequest_def emptyTransaction_def)
  have b1: "auxDataBeforeTxBody (exampleImports allSupported) exampleVersion"
    and b2: "\<not> auxDataBeforeTxBody (exampleImports noneSupported) exampleVersion"
    by (simp_all add: auxDataBeforeTxBody_def exampleImports_def allSupported_def
          noneSupported_def)
  from auxiliary_data_stage_placement[where request = hashRequest
      and env = "exampleImports allSupported" and version = exampleVersion
      and d = silentDevice and res = ?res] r1 aux b1
  have before: "\<exists>auxMessages rest.
        messages (signTransaction (exampleImports allSupported) exampleVersion hashRequest)
          silentDevice
          = initMessage exampleVersion hashRequest # auxMessages @ rest
        \<and> auxMessages \<noteq> []
        \<and> (\<forall>m \<in> set auxMessages. p1 m = STAGE_AUX_DATA)
        \<and> (\<forall>m \<in> set rest.
              p1 m \<in> bodyStages \<union> tailStages \<union> {STAGE_CONFIRM, STAGE_WITNESSES})"
    by simp
  from auxiliary_data_stage_placement[where request = hashRequest
      and env = "exampleImports noneSupported" and version = exampleVersion
      and d = silentDevice and res = ?res] r2 aux b2
  have legacy: "\<exists>body rest.
        messages (signTransaction (exampleImports noneSupported) exampleVersion hashRequest)
          silentDevice
          = initMessage exampleVersion hashRequest # body
            @ legacyAuxiliaryDataMessage ''abcd'' # rest
        \<and> (\<forall>m \<in> set body. p1 m \<in> bodyStages)
        \<and> (\<forall>m \<in> set rest. p1 m \<in> tailStages \<union> {STAGE_CONFIRM, STAGE_WITNESSES})"
    by simp
  from r1 aux b1 before r2 b2 legacy show ?thesis by (intro conjI)
qed

section \<open>Ceremonies that complete\<close>

lemma returns_run: "returns p \<Longrightarrow> \<exists>ms a. run p d n = (ms, Returned a)"
proof (induction p arbitrary: n)
  case (Yield m k)
  from Yield.prems have "returns (k (d n))" by simp
  from Yield.IH[OF rangeI this] obtain ms a where "run (k (d n)) d (Suc n) = (ms, Returned a)"
    by blast
  then show ?case by simp
qed simp_all

lemma returns_ibind: "returns p \<Longrightarrow> (\<And>a. returns (f a)) \<Longrightarrow> returns (ibind p f)"
  by (induction p) auto

lemma returns_andThen [simp]: "returns (andThen p q) \<longleftrightarrow> returns p \<and> returns q"
  unfolding andThen_def by (induction p) auto

lemma returns_yield [simp]: "returns (yield m)"
  by (simp add: yield_def)

lemma returns_forEach [simp]: "returns (forEach xs f) \<longleftrightarrow> (\<forall>x \<in> set xs. returns (f x))"
  by (induction xs) auto

lemma returns_forCollect: "(\<And>x. returns (f x)) \<Longrightarrow> returns (forCollect xs f)"
  by (induction xs) (auto intro!: returns_ibind)

lemma returns_case_option:
  "returns p \<Longrightarrow> (\<And>v. returns (f v)) \<Longrightarrow> returns (case x of None \<Rightarrow> p | Some v \<Rightarrow> f v)"
  by (cases x) auto

lemma returns_sendChunks:
  "0 < MAX_CHUNK_SIZE env \<Longrightarrow> returns (signTx_addOutput_sendChunks env hex p)"
  by (simp add: signTx_addOutput_sendChunks_def sendChunks_loop_forEach)

lemma returns_addTokenBundle [simp]: "returns (signTx_addTokenBundle bundle stage fn)"
  by (simp add: signTx_addTokenBundle_def)

lemma returns_addOutput:
  "0 < MAX_CHUNK_SIZE env \<Longrightarrow> returns (signTx_addOutput env out version)"
  by (simp add: signTx_addOutput_def returns_sendChunks
        split: option.splits ParsedDatum.splits)

lemma returns_addCertificate [simp]: "returns (signTx_addCertificate env certificate version)"
  by (simp add: signTx_addCertificate_def signTx_addStakePoolRegistrationCertificate_def
        signTx_addStakePoolRegistrationCertificateLegacy_def
        split: ParsedCertificate.splits)

lemma returns_body:
  "0 < MAX_CHUNK_SIZE env \<Longrightarrow>
   returns (block
        [forEach (inputs t) signTx_addInput,
         forEach (outputs t) (\<lambda>output. signTx_addOutput env output version),
         signTx_setFee (fee t),
         (case ttl t of Some v \<Rightarrow> signTx_setTtl v | None \<Rightarrow> Return ()),
         forEach (certificates t) (\<lambda>certificate. signTx_addCertificate env certificate version),
         forEach (withdrawals t) (\<lambda>withdrawal. signTx_addWithdrawal withdrawal version)])"
  by (simp add: returns_addOutput signTx_addInput_def signTx_setFee_def signTx_setTtl_def
        signTx_addWithdrawal_def returns_case_option)

lemma returns_tail:
  "returns (block
        [(case validityIntervalStart t of
            Some v \<Rightarrow> signTx_setValidityIntervalStart v | None \<Rightarrow> Return ()),
         (case mint t of Some m \<Rightarrow> signTx_setMint m | None \<Rightarrow> Return ()),
         (case scriptDataHashHex t of Some h \<Rightarrow> signTx_setScriptDataHash h | None \<Rightarrow> Return ()),
         forEach (collateralInputs t) signTx_addCollateralInput,
         forEach (requiredSigners t) signTx_addRequiredSigner,
         (case collateralOutput t of
            Some output \<Rightarrow> signTx_addCollateralOutput output version | None \<Rightarrow> Return ()),
         (case totalCollateral t of Some c \<Rightarrow> signTx_addTotalCollateral c | None \<Rightarrow> Return ()),
         forEach (referenceInputs t) signTx_addReferenceInput])"
  by (simp add: signTx_setValidityIntervalStart_def signTx_setMint_def
        signTx_setScriptDataHash_def signTx_addCollateralInput_def
        signTx_addRequiredSigner_def signTx_addCollateralOutput_def
        signTx_addTotalCollateral_def signTx_addReferenceInput_def returns_case_option)

text \<open>The auxiliary data stage of a voting registration returns exactly when the payload has
  a direct vote key that the serializer accepts, or no direct vote key and a delegation
  list.\<close>

lemma returns_setAuxiliaryData_registration:
  "returns (signTx_setAuxiliaryData env (CIP36_REGISTRATION params) version)
     \<longleftrightarrow> (if truthy (votePublicKey params) \<or> votePublicKeyPath params \<noteq> None
          then serializeCVoteRegistrationVoteKey_error env (votePublicKey params)
                 (votePublicKeyPath params) version = None
          else delegations params \<noteq> None)"
  by (auto simp: signTx_setAuxiliaryData_def assert_def split: option.splits)

lemma returns_signTransaction_registration:
  assumes pre1: "ensureLedgerAppVersionCompatible env version = Inr ()"
    and pre2: "ensureRequestSupportedByAppVersion env version request = Inr ()"
    and C: "0 < MAX_CHUNK_SIZE env"
    and before: "auxDataBeforeTxBody env version"
    and aux: "auxiliaryData (tx request) = Some aux"
    and stage: "returns (signTx_setAuxiliaryData env aux version)"
  shows "returns (signTransaction env version request)"
proof -
  have b: "supportsCatalystRegistration (getCompatibility env version)
           \<or> supportsCIP36 (getCompatibility env version)"
    using before by (simp add: auxDataBeforeTxBody_def)
  show ?thesis
    unfolding signTransaction_def
    by (simp only: pre1 pre2 sum.case Let_def aux option.case b if_True not_True_eq_False
          if_False returns_andThen)
       (auto intro!: returns_ibind returns_forCollect
          simp: stage returns_body[OF C] returns_tail signTx_init_def signTx_awaitConfirm_def
            signTx_getWitness_def
          simp del: block.simps)
qed

section \<open>The vote key and the delegations of a voting registration\<close>

lemma registration_before_body:
  assumes "ensureRequestSupportedByAppVersion env version request = Inr ()"
    and "auxiliaryData (tx request) = Some (CIP36_REGISTRATION params)"
  shows "auxDataBeforeTxBody env version"
proof -
  from assms(1) have "\<forall>ch. \<not> violates (getCompatibility env version) request ch"
    by (rule iffD1[OF validator_passes_iff])
  then have
    "\<not> violates (getCompatibility env version) request CatalystRegistration"
    "\<not> violates (getCompatibility env version) request CIP36Registration"
    by blast+
  with assms(2) show ?thesis
    by (cases "registrationFormat params")
       (simp_all add: auxDataBeforeTxBody_def)
qed

lemma trace_registration_stage:
  "trace (signTx_setAuxiliaryData env (CIP36_REGISTRATION params) version) d n =
     (if truthy (votePublicKey params) \<or> votePublicKeyPath params \<noteq> None then
        (case serializeCVoteRegistrationVoteKey_error env (votePublicKey params)
                (votePublicKeyPath params) version of
           Some e \<Rightarrow> (registrationOpening env version params, Throws e)
         | None \<Rightarrow>
             (registrationOpening env version params
              @ [send STAGE_AUX_DATA 0x30
                   (serializeCVoteRegistrationVoteKey (votePublicKey params)
                      (votePublicKeyPath params) version) (Some 0)]
              @ registrationClosing env version params,
              Completes))
      else
        (case delegations params of
           Some ds \<Rightarrow>
             (registrationOpening env version params
              @ map (\<lambda>delegation.
                       send STAGE_AUX_DATA 0x37 (serializeCVoteRegistrationDelegation delegation)
                         (Some 0)) ds
              @ registrationClosing env version params,
              Completes)
         | None \<Rightarrow>
             (registrationOpening env version params,
              Throws (Error ''wrong CIP36 registration params''))))"
  by (simp add: trace_setAuxiliaryData_registration registrationOpening_def
        registrationClosing_def split: option.splits)

text \<open>A ceremony with a voting registration whose auxiliary data stage returns.\<close>

lemma registration_ceremony_completes:
  assumes pre1: "ensureLedgerAppVersionCompatible env version = Inr ()"
    and pre2: "ensureRequestSupportedByAppVersion env version request = Inr ()"
    and C: "0 < MAX_CHUNK_SIZE env"
    and aux: "auxiliaryData (tx request) = Some (CIP36_REGISTRATION params)"
    and stage: "trace (signTx_setAuxiliaryData env (CIP36_REGISTRATION params) version) d (Suc 0)
                = (mA, Completes)"
    and ret: "returns (signTx_setAuxiliaryData env (CIP36_REGISTRATION params) version)"
  shows "\<exists>rest. messages (signTransaction env version request) d
                  = initMessage version request # mA @ rest
               \<and> (\<forall>m \<in> set rest. p1 m \<noteq> STAGE_AUX_DATA)
               \<and> endingOf (result (signTransaction env version request) d) = Completes"
proof -
  have before: "auxDataBeforeTxBody env version"
    using pre2 aux by (rule registration_before_body)
  from returns_run[OF returns_signTransaction_registration[OF pre1 pre2 C before aux ret]]
  obtain ms res where run: "run (signTransaction env version request) d 0 = (ms, Returned res)"
    by blast
  from run obtain mA' mB mL mT where
    ms: "ms = initMessage version request # mA' @ mB @ mL @ mT
           @ confirmMessage env # map (witnessRequest env) (gatherWitnessPaths request)"
    and B: "\<forall>m \<in> set mB. p1 m \<in> bodyStages"
    and T: "\<forall>m \<in> set mT. p1 m \<in> tailStages"
    and L: "case auxiliaryData (tx request) of
       None \<Rightarrow> mL = []
     | Some aux \<Rightarrow>
         if auxDataBeforeTxBody env version then mL = []
         else (\<exists>hashHex. aux = ARBITRARY_HASH hashHex
                 \<and> mL = [legacyAuxiliaryDataMessage hashHex]
                 \<and> auxiliaryDataSupplement res = None)"
    and A: "\<exists>s. run (case auxiliaryData (tx request) of
                  Some aux \<Rightarrow>
                    if auxDataBeforeTxBody env version
                    then signTx_setAuxiliaryData env aux version else Return None
                | None \<Rightarrow> Return None) d (Suc 0) = (mA', Returned s)"
    by (rule signTransaction_completed)
  from A aux before stage have mA: "mA' = mA" by (auto simp: trace_def)
  from L aux before have mL: "mL = []" by simp
  let ?rest = "mB @ mT @ confirmMessage env
                 # map (witnessRequest env) (gatherWitnessPaths request)"
  have "messages (signTransaction env version request) d
        = initMessage version request # mA @ ?rest"
    by (simp add: messages_def run ms mA mL)
  moreover have "\<forall>m \<in> set ?rest. p1 m \<noteq> STAGE_AUX_DATA"
    using B T by (auto simp: bodyStages_def tailStages_def)
  moreover have "endingOf (result (signTransaction env version request) d) = Completes"
    by (simp add: result_def run)
  ultimately show ?thesis by blast
qed

text \<open>
  C7, as amended: \<^verbatim>\<open>signTransaction\<close> receives a parsed request and makes no check against a
  voting registration that has both a direct vote key and delegations. Let the request
  pass both checks made before the ceremony, with a positive maximum chunk size. The stage
  of the registration comes right after the INIT message and opens with the auxiliary data
  message and, where CIP36 is supported, the registration init message. With a direct vote
  key (a vote public key or a vote key path), whether or not delegations are supplied, the
  vote key serializer is called next. If it throws, as it does for a vote public key given
  together with a vote key path, \<^verbatim>\<open>signTransaction\<close> throws its error there, having yielded
  the INIT message and the opening messages only. If it returns, the vote key message
  follows and no delegation message, then the closing messages of the stage, and the
  ceremony completes with no other AUX_DATA message. With no direct vote key and a
  delegation list, one delegation message for each entry follows the opening messages
  instead, and the ceremony completes likewise. With neither, \<^verbatim>\<open>signTransaction\<close> throws the
  error \<^verbatim>\<open>wrong CIP36 registration params\<close>, which is not the error of an unsupported device,
  having yielded the INIT message and the opening messages only.
\<close>

theorem registration_vote_key_or_delegations:
  assumes "ensureLedgerAppVersionCompatible env version = Inr ()"
    and "ensureRequestSupportedByAppVersion env version request = Inr ()"
    and "0 < MAX_CHUNK_SIZE env"
    and "auxiliaryData (tx request) = Some (CIP36_REGISTRATION params)"
  shows
    "auxDataBeforeTxBody env version
     \<and> (if truthy (votePublicKey params) \<or> votePublicKeyPath params \<noteq> None then
          (case serializeCVoteRegistrationVoteKey_error env (votePublicKey params)
                  (votePublicKeyPath params) version of
             Some e \<Rightarrow>
               trace (signTransaction env version request) d 0
               = (initMessage version request # registrationOpening env version params,
                  Throws e)
           | None \<Rightarrow>
               (\<exists>rest.
                  messages (signTransaction env version request) d
                  = initMessage version request
                    # (registrationOpening env version params
                       @ [send STAGE_AUX_DATA 0x30
                            (serializeCVoteRegistrationVoteKey (votePublicKey params)
                               (votePublicKeyPath params) version) (Some 0)]
                       @ registrationClosing env version params)
                    @ rest
                  \<and> (\<forall>m \<in> set rest. p1 m \<noteq> STAGE_AUX_DATA)
                  \<and> endingOf (result (signTransaction env version request) d) = Completes))
        else
          (case delegations params of
             Some ds \<Rightarrow>
               (\<exists>rest.
                  messages (signTransaction env version request) d
                  = initMessage version request
                    # (registrationOpening env version params
                       @ map (\<lambda>delegation.
                                send STAGE_AUX_DATA 0x37
                                  (serializeCVoteRegistrationDelegation delegation) (Some 0)) ds
                       @ registrationClosing env version params)
                    @ rest
                  \<and> (\<forall>m \<in> set rest. p1 m \<noteq> STAGE_AUX_DATA)
                  \<and> endingOf (result (signTransaction env version request) d) = Completes)
           | None \<Rightarrow>
               trace (signTransaction env version request) d 0
               = (initMessage version request # registrationOpening env version params,
                  Throws (Error ''wrong CIP36 registration params''))))"
proof -
  note pre1 = assms(1) and pre2 = assms(2) and C = assms(3) and aux = assms(4)
  let ?stage = "signTx_setAuxiliaryData env (CIP36_REGISTRATION params) version"
  let ?direct = "truthy (votePublicKey params) \<or> votePublicKeyPath params \<noteq> None"
  let ?err = "serializeCVoteRegistrationVoteKey_error env (votePublicKey params)
                (votePublicKeyPath params) version"
  have before: "auxDataBeforeTxBody env version"
    using pre2 aux by (rule registration_before_body)
  have throws: "trace (signTransaction env version request) d 0
                = (initMessage version request # mA, Throws e)"
    if "trace ?stage d 1 = (mA, Throws e)" for mA e
    using pre1 pre2 before aux that by (rule trace_signTransaction_aux_throws)
  have completes: "\<exists>rest. messages (signTransaction env version request) d
                  = initMessage version request # mA @ rest
               \<and> (\<forall>m \<in> set rest. p1 m \<noteq> STAGE_AUX_DATA)
               \<and> endingOf (result (signTransaction env version request) d) = Completes"
    if "trace ?stage d (Suc 0) = (mA, Completes)" and "returns ?stage" for mA
    using pre1 pre2 C aux that by (rule registration_ceremony_completes)
  show ?thesis
  proof (cases ?direct)
    case True
    show ?thesis
    proof (cases ?err)
      case None
      from True None have "returns ?stage"
        by (simp only: returns_setAuxiliaryData_registration if_True)
      moreover from True None have "trace ?stage d (Suc 0)
        = (registrationOpening env version params
           @ [send STAGE_AUX_DATA 0x30
                (serializeCVoteRegistrationVoteKey (votePublicKey params)
                   (votePublicKeyPath params) version) (Some 0)]
           @ registrationClosing env version params, Completes)"
        by (simp only: trace_registration_stage if_True option.case)
      ultimately show ?thesis
        using completes before True None by (simp only: if_True option.case simp_thms)
    next
      case (Some e)
      with True have "trace ?stage d 1 = (registrationOpening env version params, Throws e)"
        by (simp only: trace_registration_stage if_True option.case)
      from throws[OF this] before True Some show ?thesis
        by (simp only: if_True option.case simp_thms)
    qed
  next
    case False
    show ?thesis
    proof (cases "delegations params")
      case None
      with False have "trace ?stage d 1
                       = (registrationOpening env version params,
                          Throws (Error ''wrong CIP36 registration params''))"
        by (simp only: trace_registration_stage if_False option.case)
      from throws[OF this] before False None show ?thesis
        by (simp only: if_False option.case simp_thms)
    next
      case (Some ds)
      from False Some have "returns ?stage"
        by (simp only: returns_setAuxiliaryData_registration if_False) simp
      moreover from False Some have "trace ?stage d (Suc 0)
        = (registrationOpening env version params
           @ map (\<lambda>delegation.
                    send STAGE_AUX_DATA 0x37
                      (serializeCVoteRegistrationDelegation delegation) (Some 0)) ds
           @ registrationClosing env version params, Completes)"
        by (simp only: trace_registration_stage if_False option.case)
      ultimately show ?thesis
        using completes before False Some by (simp only: if_False option.case simp_thms)
    qed
  qed
qed

lemma example_registration_aux:
  "auxiliaryData (tx registrationWithBothKeys)
   = Some (CIP36_REGISTRATION
       (exampleRegistration\<lparr>votePublicKey := Some ''ab'', votePublicKeyPath := Some [8]\<rparr>))"
  "auxiliaryData (tx registrationWithBoth)
   = Some (CIP36_REGISTRATION
       (exampleRegistration\<lparr>votePublicKey := Some ''ab'',
          delegations := Some [ParsedCVoteDelegation ''cd'']\<rparr>))"
  "auxiliaryData (tx registrationWithDelegations)
   = Some (CIP36_REGISTRATION
       (exampleRegistration\<lparr>delegations := Some [ParsedCVoteDelegation ''cd'',
                                                 ParsedCVoteDelegation ''ef'']\<rparr>))"
  "auxiliaryData (tx registrationWithNeither) = Some (CIP36_REGISTRATION exampleRegistration)"
  by (simp_all add: registrationWithBothKeys_def registrationWithBoth_def
        registrationWithDelegations_def registrationWithNeither_def ordinaryRequest_def)

lemma example_chunk_size: "0 < MAX_CHUNK_SIZE (exampleImports c)"
  by (simp add: exampleImports_def)

theorem registration_vote_key_or_delegations_witness:
  "serializeCVoteRegistrationVoteKey_error (exampleImports allSupported) (Some ''ab'') (Some [8])
     exampleVersion
   = Some (AssertionFailed ''redundant vote key path'')
   \<and> registrationOpening (exampleImports allSupported) exampleVersion
       (exampleRegistration\<lparr>votePublicKey := Some ''ab'', votePublicKeyPath := Some [8]\<rparr>)
     = [send STAGE_AUX_DATA UNUSED
          (serializeTxAuxiliaryData (CIP36_REGISTRATION
             (exampleRegistration\<lparr>votePublicKey := Some ''ab'',
                votePublicKeyPath := Some [8]\<rparr>))) (Some 0),
        send STAGE_AUX_DATA 0x36
          (serializeCVoteRegistrationInit
             (exampleRegistration\<lparr>votePublicKey := Some ''ab'',
                votePublicKeyPath := Some [8]\<rparr>)) (Some 0)]
   \<and> trace (signTransaction (exampleImports allSupported) exampleVersion
              registrationWithBothKeys) silentDevice 0
     = (initMessage exampleVersion registrationWithBothKeys
        # registrationOpening (exampleImports allSupported) exampleVersion
            (exampleRegistration\<lparr>votePublicKey := Some ''ab'', votePublicKeyPath := Some [8]\<rparr>),
        Throws (AssertionFailed ''redundant vote key path''))
   \<and> (\<exists>rest.
        messages (signTransaction (exampleImports allSupported) exampleVersion
                    registrationWithBoth) silentDevice
        = initMessage exampleVersion registrationWithBoth
          # (registrationOpening (exampleImports allSupported) exampleVersion
               (exampleRegistration\<lparr>votePublicKey := Some ''ab'',
                  delegations := Some [ParsedCVoteDelegation ''cd'']\<rparr>)
             @ [send STAGE_AUX_DATA 0x30
                  (serializeCVoteRegistrationVoteKey (Some ''ab'') None exampleVersion) (Some 0)]
             @ registrationClosing (exampleImports allSupported) exampleVersion
                 (exampleRegistration\<lparr>votePublicKey := Some ''ab'',
                    delegations := Some [ParsedCVoteDelegation ''cd'']\<rparr>))
          @ rest
        \<and> (\<forall>m \<in> set rest. p1 m \<noteq> STAGE_AUX_DATA)
        \<and> endingOf (result (signTransaction (exampleImports allSupported) exampleVersion
                               registrationWithBoth) silentDevice) = Completes)
   \<and> (\<exists>rest.
        messages (signTransaction (exampleImports allSupported) exampleVersion
                    registrationWithDelegations) silentDevice
        = initMessage exampleVersion registrationWithDelegations
          # (registrationOpening (exampleImports allSupported) exampleVersion
               (exampleRegistration\<lparr>delegations := Some [ParsedCVoteDelegation ''cd'',
                                                         ParsedCVoteDelegation ''ef'']\<rparr>)
             @ [send STAGE_AUX_DATA 0x37
                  (serializeCVoteRegistrationDelegation (ParsedCVoteDelegation ''cd'')) (Some 0),
                send STAGE_AUX_DATA 0x37
                  (serializeCVoteRegistrationDelegation (ParsedCVoteDelegation ''ef'')) (Some 0)]
             @ registrationClosing (exampleImports allSupported) exampleVersion
                 (exampleRegistration\<lparr>delegations := Some [ParsedCVoteDelegation ''cd'',
                                                           ParsedCVoteDelegation ''ef'']\<rparr>))
          @ rest
        \<and> (\<forall>m \<in> set rest. p1 m \<noteq> STAGE_AUX_DATA)
        \<and> endingOf (result (signTransaction (exampleImports allSupported) exampleVersion
                               registrationWithDelegations) silentDevice) = Completes)
   \<and> trace (signTransaction (exampleImports allSupported) exampleVersion
              registrationWithNeither) silentDevice 0
     = (initMessage exampleVersion registrationWithNeither
        # registrationOpening (exampleImports allSupported) exampleVersion exampleRegistration,
        Throws (Error ''wrong CIP36 registration params''))"
proof -
  let ?E = "exampleImports allSupported"
  note general = registration_vote_key_or_delegations[OF example_preflight example_chunk_size,
      where d = silentDevice and version = exampleVersion]
  have serializer: "serializeCVoteRegistrationVoteKey_error ?E (Some ''ab'') (Some [8])
                      exampleVersion
                    = Some (AssertionFailed ''redundant vote key path'')"
    by (simp add: exampleImports_def)
  have opened: "registrationOpening ?E exampleVersion
       (exampleRegistration\<lparr>votePublicKey := Some ''ab'', votePublicKeyPath := Some [8]\<rparr>)
     = [send STAGE_AUX_DATA UNUSED
          (serializeTxAuxiliaryData (CIP36_REGISTRATION
             (exampleRegistration\<lparr>votePublicKey := Some ''ab'',
                votePublicKeyPath := Some [8]\<rparr>))) (Some 0),
        send STAGE_AUX_DATA 0x36
          (serializeCVoteRegistrationInit
             (exampleRegistration\<lparr>votePublicKey := Some ''ab'',
                votePublicKeyPath := Some [8]\<rparr>)) (Some 0)]"
    by (simp add: registrationOpening_def exampleImports_def allSupported_def)
  have bothKeys: "trace (signTransaction ?E exampleVersion registrationWithBothKeys)
                    silentDevice 0
     = (initMessage exampleVersion registrationWithBothKeys
        # registrationOpening ?E exampleVersion
            (exampleRegistration\<lparr>votePublicKey := Some ''ab'', votePublicKeyPath := Some [8]\<rparr>),
        Throws (AssertionFailed ''redundant vote key path''))"
    using general[OF example_registration_aux(1)] serializer
    by (simp add: exampleRegistration_def)
  have both: "\<exists>rest.
        messages (signTransaction ?E exampleVersion registrationWithBoth) silentDevice
        = initMessage exampleVersion registrationWithBoth
          # (registrationOpening ?E exampleVersion
               (exampleRegistration\<lparr>votePublicKey := Some ''ab'',
                  delegations := Some [ParsedCVoteDelegation ''cd'']\<rparr>)
             @ [send STAGE_AUX_DATA 0x30
                  (serializeCVoteRegistrationVoteKey (Some ''ab'') None exampleVersion) (Some 0)]
             @ registrationClosing ?E exampleVersion
                 (exampleRegistration\<lparr>votePublicKey := Some ''ab'',
                    delegations := Some [ParsedCVoteDelegation ''cd'']\<rparr>))
          @ rest
        \<and> (\<forall>m \<in> set rest. p1 m \<noteq> STAGE_AUX_DATA)
        \<and> endingOf (result (signTransaction ?E exampleVersion registrationWithBoth)
                       silentDevice) = Completes"
  proof -
    have "serializeCVoteRegistrationVoteKey_error ?E (Some ''ab'') None exampleVersion = None"
      by (simp add: exampleImports_def)
    with general[OF example_registration_aux(2)] show ?thesis
      by (simp add: exampleRegistration_def)
  qed
  have dels: "\<exists>rest.
        messages (signTransaction ?E exampleVersion registrationWithDelegations) silentDevice
        = initMessage exampleVersion registrationWithDelegations
          # (registrationOpening ?E exampleVersion
               (exampleRegistration\<lparr>delegations := Some [ParsedCVoteDelegation ''cd'',
                                                         ParsedCVoteDelegation ''ef'']\<rparr>)
             @ [send STAGE_AUX_DATA 0x37
                  (serializeCVoteRegistrationDelegation (ParsedCVoteDelegation ''cd'')) (Some 0),
                send STAGE_AUX_DATA 0x37
                  (serializeCVoteRegistrationDelegation (ParsedCVoteDelegation ''ef'')) (Some 0)]
             @ registrationClosing ?E exampleVersion
                 (exampleRegistration\<lparr>delegations := Some [ParsedCVoteDelegation ''cd'',
                                                           ParsedCVoteDelegation ''ef'']\<rparr>))
          @ rest
        \<and> (\<forall>m \<in> set rest. p1 m \<noteq> STAGE_AUX_DATA)
        \<and> endingOf (result (signTransaction ?E exampleVersion registrationWithDelegations)
                       silentDevice) = Completes"
    using general[OF example_registration_aux(3)]
    by (simp add: exampleRegistration_def)
  have neither: "trace (signTransaction ?E exampleVersion registrationWithNeither)
                   silentDevice 0
     = (initMessage exampleVersion registrationWithNeither
        # registrationOpening ?E exampleVersion exampleRegistration,
        Throws (Error ''wrong CIP36 registration params''))"
    using general[OF example_registration_aux(4)]
    by (simp add: exampleRegistration_def)
  from serializer opened bothKeys both dels neither show ?thesis by (intro conjI)
qed

theorem registration_with_both_counterexample:
  "endingOf (result (signTransaction (exampleImports allSupported) exampleVersion
                       registrationWithBoth) silentDevice) = Completes
   \<and> stageMessages STAGE_AUX_DATA
       (messages (signTransaction (exampleImports allSupported) exampleVersion
                    registrationWithBoth) silentDevice)
     = [send STAGE_AUX_DATA UNUSED
          (serializeTxAuxiliaryData (CIP36_REGISTRATION
             (exampleRegistration\<lparr>votePublicKey := Some ''ab'',
                delegations := Some [ParsedCVoteDelegation ''cd'']\<rparr>))) (Some 0),
        send STAGE_AUX_DATA 0x36
          (serializeCVoteRegistrationInit
             (exampleRegistration\<lparr>votePublicKey := Some ''ab'',
                delegations := Some [ParsedCVoteDelegation ''cd'']\<rparr>)) (Some 0),
        send STAGE_AUX_DATA 0x30
          (serializeCVoteRegistrationVoteKey (Some ''ab'') None exampleVersion) (Some 0),
        send STAGE_AUX_DATA 0x31 (serializeCVoteRegistrationStakingPath [7]) (Some 0),
        send STAGE_AUX_DATA 0x32
          (serializeCVoteRegistrationPaymentDestination
             (Destination_DEVICE_OWNED BASE_PAYMENT_KEY_STAKE_KEY) exampleVersion) (Some 0),
        send STAGE_AUX_DATA 0x33 (serializeCVoteRegistrationNonce ''1'') (Some 0),
        send STAGE_AUX_DATA 0x35 (serializeCVoteRegistrationVotingPurpose None) (Some 0),
        send STAGE_AUX_DATA 0x34 (Buf []) (Some 96)]"
  by (simp add: result_def messages_def stageMessages_def signTransaction_def validator_defs
        registrationWithBoth_def ordinaryRequest_def emptyTransaction_def
        exampleRegistration_def exampleImports_def allSupported_def exampleVersion_def
        silentDevice_def stage_defs run_simps gatherWitnessPaths_firstOccurrences
        elementPaths_def Let_def send_def)

end
